theory Spec2Isabelle
  imports Complex_Main "HOL-Library.AList" "HOL-Library.Log_Nat"
begin

section \<open>JavaScript values\<close>

text \<open>
  The mock backend of \<^verbatim>\<open>HttpBackendService\<close> works on JSON data: items of a
  collection are objects (\<^verbatim>\<open>ObjectAny\<close> in \<^verbatim>\<open>types.ts\<close>), their fields hold arbitrary
  JSON values. An object is the list of its own fields in insertion order, one entry per
  key. A property that an object inherits from \<^verbatim>\<open>Object.prototype\<close> is not a field: no
  primary key of a route and no key of the cache is named like one.

  A number is an IEEE double: \<^verbatim>\<open>NaN\<close>, an infinity, or a finite number, given as the
  rational that it denotes. The two zeros are one value: the operations of the service on
  numbers (\<^verbatim>\<open>==\<close>, truthiness, \<^verbatim>\<open>Math.max\<close>, \<^verbatim>\<open>+ 1\<close>, the conversion to a string and
  to JSON) do not tell them apart.
\<close>

datatype jsnum = NaN | PosInfinity | NegInfinity | Fin rat

datatype jsval =
    JUndefined
  | JNull
  | JBool bool
  | JNum jsnum
  | JStr string
  | JArr "jsval list"
  | JObj "(string \<times> jsval) list"

type_synonym obj = "(string \<times> jsval) list"

text \<open>\<^verbatim>\<open>item[key]\<close>: a field that is absent reads as \<^verbatim>\<open>undefined\<close>.\<close>

definition getProp :: "obj \<Rightarrow> string \<Rightarrow> jsval" where
  "getProp item k = (case map_of item k of None \<Rightarrow> JUndefined | Some v \<Rightarrow> v)"

text \<open>\<^verbatim>\<open>Object.keys(item)\<close>.\<close>

definition objKeys :: "obj \<Rightarrow> string list" where
  "objKeys item = map fst item"

text \<open>
  Truthiness, as \<^verbatim>\<open>if (v)\<close>, \<^verbatim>\<open>!v\<close>, \<^verbatim>\<open>a && b\<close> and \<^verbatim>\<open>a || b\<close> read a value: zero and
  \<^verbatim>\<open>NaN\<close> are the falsy numbers.
\<close>

fun truthy :: "jsval \<Rightarrow> bool" where
  "truthy JUndefined = False"
| "truthy JNull = False"
| "truthy (JBool b) = b"
| "truthy (JNum n) = (n \<noteq> Fin 0 \<and> n \<noteq> NaN)"
| "truthy (JStr s) = (s \<noteq> [])"
| "truthy (JArr xs) = True"
| "truthy (JObj kvs) = True"

text \<open>
  A value that is no array. The service meets one where a data callback returns, against
  its type, something else than the array of its items.
\<close>

datatype nonArray =
    NoUndefined
  | NoNull
  | NoBool bool
  | NoNum jsnum
  | NoStr string
  | NoObj "(string \<times> jsval) list"

fun jsValue :: "nonArray \<Rightarrow> jsval" where
  "jsValue NoUndefined = JUndefined"
| "jsValue NoNull = JNull"
| "jsValue (NoBool b) = JBool b"
| "jsValue (NoNum n) = JNum n"
| "jsValue (NoStr s) = JStr s"
| "jsValue (NoObj kvs) = JObj kvs"

subsection \<open>Arithmetic of doubles\<close>

text \<open>
  Rounding of a rational to the nearest double, a tie going to the even mantissa. The
  binade of a positive \<open>x\<close> is the exponent \<open>e\<close> with \<open>2\<^sup>e \<le> x < 2\<^sup>e\<^sup>+\<^sup>1\<close>; a double has 53 bits
  of mantissa there, so its neighbours are \<open>2\<^sup>e\<^sup>-\<^sup>5\<^sup>2\<close> apart, and below \<open>2\<^sup>-\<^sup>1\<^sup>0\<^sup>2\<^sup>2\<close> the
  subnormal numbers keep that distance. What rounds to \<open>2\<^sup>1\<^sup>0\<^sup>2\<^sup>4\<close> or more is infinite.
\<close>

definition halfEven :: "rat \<Rightarrow> int" where
  "halfEven q =
     (let f = \<lfloor>q\<rfloor>; r = q - of_int f
      in if r < 1 / 2 then f else if 1 / 2 < r then f + 1 else if even f then f else f + 1)"

definition binade :: "rat \<Rightarrow> int" where
  "binade x =
     (let d = bitlen (fst (quotient_of x)) - bitlen (snd (quotient_of x))
      in if 2 powi d \<le> x then d else d - 1)"

definition roundDouble :: "rat \<Rightarrow> jsnum" where
  "roundDouble x =
     (if x = 0 then Fin 0
      else
        (let e = max (binade \<bar>x\<bar>) (- 1022);
             ulp = 2 powi (e - 52);
             y = of_int (halfEven (\<bar>x\<bar> / ulp)) * ulp
         in if 2 powi 1024 \<le> y then (if 0 < x then PosInfinity else NegInfinity)
            else Fin (if 0 < x then y else - y)))"

text \<open>\<^verbatim>\<open>a + b\<close> on two numbers.\<close>

fun jsAdd :: "jsnum \<Rightarrow> jsnum \<Rightarrow> jsnum" where
  "jsAdd (Fin x) (Fin y) = roundDouble (x + y)"
| "jsAdd NaN b = NaN"
| "jsAdd a NaN = NaN"
| "jsAdd PosInfinity NegInfinity = NaN"
| "jsAdd NegInfinity PosInfinity = NaN"
| "jsAdd PosInfinity b = PosInfinity"
| "jsAdd a PosInfinity = PosInfinity"
| "jsAdd NegInfinity b = NegInfinity"
| "jsAdd a NegInfinity = NegInfinity"

text \<open>\<^verbatim>\<open>Math.max(a, b)\<close>: \<^verbatim>\<open>NaN\<close> as soon as one argument is \<^verbatim>\<open>NaN\<close>.\<close>

fun jsMax :: "jsnum \<Rightarrow> jsnum \<Rightarrow> jsnum" where
  "jsMax (Fin x) (Fin y) = Fin (max x y)"
| "jsMax NaN b = NaN"
| "jsMax a NaN = NaN"
| "jsMax PosInfinity b = PosInfinity"
| "jsMax a PosInfinity = PosInfinity"
| "jsMax NegInfinity b = b"
| "jsMax a NegInfinity = a"

subsection \<open>What the runtime decides\<close>

text \<open>
  Three things the service leaves to the JavaScript engine it runs on: how \<^verbatim>\<open>Number(s)\<close>
  reads a string as a number, which decimal numeral \<^verbatim>\<open>String(x)\<close> prints for a finite
  number, and the message of a \<^verbatim>\<open>TypeError\<close> that the engine raises itself (on a
  property read of \<^verbatim>\<open>undefined\<close>, and on the call of \<^verbatim>\<open>map\<close> on a value that has none). They
  are the parameter \<open>js\<close> of every function below that depends on them, so what is proved
  holds for every engine.
\<close>

datatype fault = ReadOfUndefined | MapOfNonArray nonArray

record runtime =
  stringToNumber :: "string \<Rightarrow> jsnum"
  numberToString :: "rat \<Rightarrow> string"
  faultMessage :: "fault \<Rightarrow> string"

text \<open>\<^verbatim>\<open>Array.prototype.join\<close> on strings.\<close>

fun joinWith :: "string \<Rightarrow> string list \<Rightarrow> string" where
  "joinWith sep [] = []"
| "joinWith sep [x] = x"
| "joinWith sep (x # y # ys) = x @ sep @ joinWith sep (y # ys)"

text \<open>
  Decimal numerals. Every integer up to \<open>2\<^sup>5\<^sup>3\<close> in magnitude is a double of its own, and
  \<^verbatim>\<open>String\<close> prints it with all its digits; for every other finite number the numeral is
  the shortest one that reads back as the number, which is left to the runtime.
\<close>

definition digitChar :: "nat \<Rightarrow> char" where
  "digitChar d = ''0123456789'' ! d"

function showNat :: "nat \<Rightarrow> string" where
  "showNat n = (if n < 10 then [digitChar n] else showNat (n div 10) @ [digitChar (n mod 10)])"
  by pat_completeness auto
termination
  by (relation "measure id") auto

definition showInt :: "int \<Rightarrow> string" where
  "showInt i = (if i < 0 then CHR ''-'' # showNat (nat (- i)) else showNat (nat i))"

definition plainInteger :: "rat \<Rightarrow> bool" where
  "plainInteger x = (of_int \<lfloor>x\<rfloor> = x \<and> \<bar>x\<bar> \<le> 2 ^ 53)"

fun numberString :: "runtime \<Rightarrow> jsnum \<Rightarrow> string" where
  "numberString js NaN = ''NaN''"
| "numberString js PosInfinity = ''Infinity''"
| "numberString js NegInfinity = ''-Infinity''"
| "numberString js (Fin x) = (if plainInteger x then showInt \<lfloor>x\<rfloor> else numberToString js x)"

text \<open>
  \<^verbatim>\<open>String(v)\<close>, which a template literal \<^verbatim>\<open>`${v}`\<close> applies: an array prints its
  elements joined by commas, \<^verbatim>\<open>null\<close> and \<^verbatim>\<open>undefined\<close> elements as the empty string. An
  object prints as \<^verbatim>\<open>[object Object]\<close>: the objects here are JSON data without fields named
  \<^verbatim>\<open>toString\<close> or \<^verbatim>\<open>valueOf\<close>.
\<close>

fun toStringJs :: "runtime \<Rightarrow> jsval \<Rightarrow> string" where
  "toStringJs js JUndefined = ''undefined''"
| "toStringJs js JNull = ''null''"
| "toStringJs js (JBool b) = (if b then ''true'' else ''false'')"
| "toStringJs js (JNum n) = numberString js n"
| "toStringJs js (JStr s) = s"
| "toStringJs js (JArr xs) =
     joinWith '','' (map (\<lambda>x. if x = JUndefined \<or> x = JNull then [] else toStringJs js x) xs)"
| "toStringJs js (JObj kvs) = ''[object Object]''"

text \<open>
  Loose equality \<^verbatim>\<open>a == b\<close>. \<^verbatim>\<open>null\<close> and \<^verbatim>\<open>undefined\<close> equal each other and nothing
  else. An array or object compared with a primitive is first turned into its string.
  Two strings compare as strings; every other pair of primitives compares as numbers (a
  boolean is 0 or 1, a string is what \<^verbatim>\<open>Number\<close> reads), and \<^verbatim>\<open>NaN\<close> equals nothing. Two
  arrays or objects are equal only when they are the same reference: the values compared
  here are a stored item's field and a field of the freshly cloned request body (or a URL
  segment), never the same reference.
\<close>

fun isNullish :: "jsval \<Rightarrow> bool" where
  "isNullish JUndefined = True"
| "isNullish JNull = True"
| "isNullish v = False"

fun isObject :: "jsval \<Rightarrow> bool" where
  "isObject (JArr xs) = True"
| "isObject (JObj kvs) = True"
| "isObject v = False"

fun toPrimitive :: "runtime \<Rightarrow> jsval \<Rightarrow> jsval" where
  "toPrimitive js (JArr xs) = JStr (toStringJs js (JArr xs))"
| "toPrimitive js (JObj kvs) = JStr (toStringJs js (JObj kvs))"
| "toPrimitive js v = v"

fun toNumber :: "runtime \<Rightarrow> jsval \<Rightarrow> jsnum" where
  "toNumber js (JNum n) = n"
| "toNumber js (JBool b) = Fin (if b then 1 else 0)"
| "toNumber js (JStr s) = stringToNumber js s"
| "toNumber js JNull = Fin 0"
| "toNumber js v = NaN"

definition numEq :: "jsnum \<Rightarrow> jsnum \<Rightarrow> bool" where
  "numEq a b = (a \<noteq> NaN \<and> a = b)"

fun primEq :: "runtime \<Rightarrow> jsval \<Rightarrow> jsval \<Rightarrow> bool" where
  "primEq js (JStr a) (JStr b) = (a = b)"
| "primEq js x y = numEq (toNumber js x) (toNumber js y)"

definition looseEq :: "runtime \<Rightarrow> jsval \<Rightarrow> jsval \<Rightarrow> bool" where
  "looseEq js x y =
     (if isNullish x \<or> isNullish y then isNullish x \<and> isNullish y
      else if isObject x \<and> isObject y then False
      else primEq js (toPrimitive js x) (toPrimitive js y))"

text \<open>
  A URL segment bound as resource id (\<^verbatim>\<open>restId?: string\<close>): \<^verbatim>\<open>None\<close> is \<^verbatim>\<open>undefined\<close>.
\<close>

definition idVal :: "string option \<Rightarrow> jsval" where
  "idVal r = (case r of None \<Rightarrow> JUndefined | Some s \<Rightarrow> JStr s)"

section \<open>Generated ids\<close>

text \<open>
  \<^verbatim>\<open>genId\<close>: \<^verbatim>\<open>reduce\<close> runs over the items from the initial value 0; an item whose
  primary key field is not a number leaves the running maximum as it is. The sum
  \<^verbatim>\<open>maxId + 1\<close> is a sum of doubles.
\<close>

definition genIdStep :: "string \<Rightarrow> jsnum \<Rightarrow> obj \<Rightarrow> jsnum" where
  "genIdStep primaryKey prevId item =
     (let currId = (case getProp item primaryKey of JNum n \<Rightarrow> n | _ \<Rightarrow> prevId)
      in jsMax prevId currId)"

definition genId :: "obj list \<Rightarrow> string \<Rightarrow> jsnum" where
  "genId writeableData primaryKey =
     (let maxId = foldl (genIdStep primaryKey) (Fin 0) writeableData in jsAdd maxId (Fin 1))"

section \<open>Requests, responses and routes\<close>

text \<open>
  \<^verbatim>\<open>Status\<close> comes from \<^verbatim>\<open>http-status-codes\<close>; these are the members the service uses.
\<close>

datatype status =
    OK | CREATED | NO_CONTENT | BAD_REQUEST | NOT_FOUND | METHOD_NOT_ALLOWED | CONFLICT
  | INTERNAL_SERVER_ERROR

text \<open>Modelled from the spec: the numeric codes of the status names, as the spec gives them.\<close>

fun statusCode :: "status \<Rightarrow> nat" where
  "statusCode OK = 200"
| "statusCode CREATED = 201"
| "statusCode NO_CONTENT = 204"
| "statusCode BAD_REQUEST = 400"
| "statusCode NOT_FOUND = 404"
| "statusCode METHOD_NOT_ALLOWED = 405"
| "statusCode CONFLICT = 409"
| "statusCode INTERNAL_SERVER_ERROR = 500"

datatype httpMethod = GET | HEAD | POST | PUT | DELETE | TRACE | OPTIONS | CONNECT | PATCH

fun methodName :: "httpMethod \<Rightarrow> string" where
  "methodName GET = ''GET''"
| "methodName HEAD = ''HEAD''"
| "methodName POST = ''POST''"
| "methodName PUT = ''PUT''"
| "methodName DELETE = ''DELETE''"
| "methodName TRACE = ''TRACE''"
| "methodName OPTIONS = ''OPTIONS''"
| "methodName CONNECT = ''CONNECT''"
| "methodName PATCH = ''PATCH''"

text \<open>
  The part of \<^verbatim>\<open>HttpRequest\<close> the service reads (\<open>reqMethod\<close> is its \<^verbatim>\<open>method\<close>). A
  body is a JSON object or absent (\<^verbatim>\<open>None\<close>: \<^verbatim>\<open>req.body || {}\<close> reads every falsy body as
  the empty object). Headers and query parameters are keys with the list of their values.
\<close>

record request =
  reqMethod :: httpMethod
  url :: string
  urlWithParams :: string
  body :: "obj option"
  headers :: "(string \<times> string list) list"
  params :: "(string \<times> string list) list"

text \<open>\<^verbatim>\<open>ApiMockDataCallbackOptions\<close>.\<close>

record cbOpts =
  items :: "obj list"
  itemId :: "string option"
  httpMethod :: httpMethod
  parents :: "obj list option"
  queryParams :: "obj option"
  reqBody :: "obj option"
  reqHeaders :: "obj option"

text \<open>
  \<^verbatim>\<open>HttpErrorResponse\<close> as \<^verbatim>\<open>makeError\<close> builds it (\<^verbatim>\<open>url\<close>, \<^verbatim>\<open>status\<close>, \<^verbatim>\<open>error\<close>; the status
  text and the constant content type header are left out), and \<^verbatim>\<open>ResponseOptions\<close>
  (\<^verbatim>\<open>headers\<close>, \<^verbatim>\<open>status\<close>, \<^verbatim>\<open>body\<close>; a body that is absent is \<^verbatim>\<open>undefined\<close>).
\<close>

record httpErrorResponse =
  errUrl :: string
  errStatus :: status
  errMessage :: string

record responseOptions =
  resHeaders :: "(string \<times> string) list"
  resStatus :: "status option"
  resBody :: jsval

text \<open>
  \<^verbatim>\<open>ApiMockResponseCallbackOptions\<close>, and what a response callback may hand back: an
  \<^verbatim>\<open>HttpErrorResponse\<close>, a finished \<^verbatim>\<open>HttpResponse\<close>, or the value of the body.
\<close>

record respOpts =
  respItems :: "jsval list"
  respItemId :: "string option"
  respHttpMethod :: httpMethod
  respParents :: "obj list option"
  respQueryParams :: "obj option"
  respReqBody :: "obj option"
  respReqHeaders :: "obj option"
  resBodyOpt :: jsval

datatype cbReturn = RetError httpErrorResponse | RetResponse responseOptions | RetBody jsval

text \<open>
  What a data callback returns. By its type \<^verbatim>\<open>ApiMockDataCallback\<close> that is the array of
  the items, which are objects (\<^verbatim>\<open>ObjectAny[]\<close>); the service checks at run time that it
  is an array, and a callback may return, against its type, a value that is none.
\<close>

datatype cbData = ItemList "obj list" | NonList nonArray

text \<open>
  \<^verbatim>\<open>ApiMockRoute\<close> and \<^verbatim>\<open>ApiMockRootRoute\<close> (the latter has the \<^verbatim>\<open>host\<close>). The field
  \<^verbatim>\<open>ignoreDataFromLocalStorage\<close> is left out with the local storage.
\<close>

datatype route = Route
  (path: string)
  (host: "string option")
  (dataCallback: "(cbOpts \<Rightarrow> cbData) option")
  (propertiesForList: "obj option")
  (responseCallback: "(respOpts \<Rightarrow> cbReturn) option")
  (children: "route list")

section \<open>Route matching\<close>

text \<open>\<^verbatim>\<open>s.split('/')\<close> for a one-character separator: never the empty list.\<close>

fun splitOn :: "char \<Rightarrow> string \<Rightarrow> string list" where
  "splitOn c [] = [[]]"
| "splitOn c (x # xs) =
     (if x = c then [] # splitOn c xs
      else (case splitOn c xs of [] \<Rightarrow> [[x]] | w # ws \<Rightarrow> (x # w) # ws))"

text \<open>\<^verbatim>\<open>path.split('/:')[0]\<close>: the path up to the first \<^verbatim>\<open>/:\<close>.\<close>

fun beforePk :: "string \<Rightarrow> string" where
  "beforePk [] = []"
| "beforePk [x] = [x]"
| "beforePk (x # y # ys) =
     (if x = CHR ''/'' \<and> y = CHR '':'' then [] else x # beforePk (y # ys))"

text \<open>\<^verbatim>\<open>[a, b].filter((s) => s)\<close>: the strings that are defined and not empty.\<close>

fun filterTruthy :: "string option list \<Rightarrow> string list" where
  "filterTruthy [] = []"
| "filterTruthy (None # xs) = filterTruthy xs"
| "filterTruthy (Some s # xs) = (if s = [] then filterTruthy xs else s # filterTruthy xs)"

text \<open>\<^verbatim>\<open>part.charAt(0) == ':'\<close>.\<close>

fun startsWithColon :: "string \<Rightarrow> bool" where
  "startsWithColon [] = False"
| "startsWithColon (c # cs) = (c = CHR '':'')"

text \<open>\<^verbatim>\<open>xs[i]\<close>, \<^verbatim>\<open>undefined\<close> out of range.\<close>

definition nthOpt :: "'a list \<Rightarrow> nat \<Rightarrow> 'a option" where
  "nthOpt xs i = (if i < length xs then Some (xs ! i) else None)"

text \<open>\<^verbatim>\<open>xs[xs.length - 1]\<close>, \<^verbatim>\<open>undefined\<close> for the empty array.\<close>

definition lastOpt :: "'a list \<Rightarrow> 'a option" where
  "lastOpt xs = (if xs = [] then None else Some (last xs))"

text \<open>
  An entry of \<^verbatim>\<open>PartialRoutes\<close>: \<^verbatim>\<open>{ path, length, index }\<close>, here \<open>rootPath\<close>, \<open>rootLength\<close>
  and \<open>rootIndex\<close>.
\<close>

record rootEntry =
  rootPath :: string
  rootLength :: nat
  rootIndex :: nat

definition rootEntryOf :: "nat \<times> route \<Rightarrow> rootEntry" where
  "rootEntryOf ir =
     (let part = beforePk (path (snd ir));
          p = joinWith ''/'' (filterTruthy [host (snd ir), Some part])
      in \<lparr>rootPath = p, rootLength = length p, rootIndex = fst ir\<rparr>)"

text \<open>
  \<^verbatim>\<open>getRootPaths\<close>: \<^verbatim>\<open>sort((a, b) => b.length - a.length)\<close> is a stable sort by
  descending length.
\<close>

definition getRootPaths :: "route list \<Rightarrow> rootEntry list" where
  "getRootPaths rts =
     (let rootRoutes = map rootEntryOf (enumerate 0 rts)
      in sort_key (\<lambda>e. - int (rootLength e)) rootRoutes)"

fun findRouteIndex :: "rootEntry list \<Rightarrow> string \<Rightarrow> int" where
  "findRouteIndex [] u = - 1"
| "findRouteIndex (rootRoute # rest) u =
     (let partUrl = take (rootLength rootRoute + 1) u
      in if partUrl = rootPath rootRoute \<or> partUrl = rootPath rootRoute @ ''/''
         then int (rootIndex rootRoute)
         else findRouteIndex rest u)"

text \<open>
  The criterion of the spec for one entry: the URL, cut to the entry's length plus one
  characters, is the entry's path or that path followed by the separator.
\<close>

definition rootMatches :: "rootEntry \<Rightarrow> string \<Rightarrow> bool" where
  "rootMatches e u =
     (take (rootLength e + 1) u = rootPath e \<or> take (rootLength e + 1) u = rootPath e @ ''/'')"

text \<open>\<^verbatim>\<open>RouteDryMatch\<close>.\<close>

record routeDryMatch =
  splitedUrl :: "string list"
  splitedRoute :: "string list"
  hasLastRestId :: bool
  lastPrimaryKey :: string
  routes :: "route list"

text \<open>
  \<^verbatim>\<open>setRouteDryMatch\<close>, the inner function of \<^verbatim>\<open>getRouteDryMatch\<close>. It pushes onto the
  array \<^verbatim>\<open>routeDryMatch\<close> of the enclosing call, which is the last argument here and
  the result. \<^verbatim>\<open>pathOfRoute\<close> and \<^verbatim>\<open>routes\<close> are optional parameters. In the branch of
  one URL part less, \<^verbatim>\<open>splitedRoute.pop()\<close> takes the last element off the array that
  the candidate then carries.
\<close>

fun setRouteDryMatch ::
  "string list \<Rightarrow> route \<Rightarrow> string option \<Rightarrow> route list option \<Rightarrow>
   routeDryMatch list \<Rightarrow> routeDryMatch list" where
  "setRouteDryMatch sUrl (Route p h dc pl rc cs) pathOfRoute rts acc =
     (let rts1 = (case rts of None \<Rightarrow> [] | Some r \<Rightarrow> r) @ [Route p h dc pl rc cs];
          pathOfRoute1 = joinWith ''/'' (filterTruthy [pathOfRoute, Some p]);
          sRoute = splitOn CHR ''/'' pathOfRoute1;
          countPartOfUrl = int (length sUrl);
          countPartOfRoute = int (length sRoute)
      in if countPartOfUrl > countPartOfRoute then
           fold (\<lambda>child a. setRouteDryMatch sUrl child (Some pathOfRoute1) (Some rts1) a) cs acc
         else if countPartOfUrl < countPartOfRoute - 1 then acc
         else if countPartOfUrl = countPartOfRoute - 1 then
           (let lastElement = (case lastOpt sRoute of None \<Rightarrow> [] | Some e \<Rightarrow> e)
            in if startsWithColon lastElement then
                 acc @ [\<lparr>splitedUrl = sUrl, splitedRoute = butlast sRoute,
                         hasLastRestId = False, lastPrimaryKey = drop 1 lastElement,
                         routes = rts1\<rparr>]
               else acc)
         else
           (let lastElement = (case lastOpt sRoute of None \<Rightarrow> [] | Some e \<Rightarrow> e)
            in if startsWithColon lastElement then
                 acc @ [\<lparr>splitedUrl = sUrl, splitedRoute = sRoute,
                         hasLastRestId = True, lastPrimaryKey = drop 1 lastElement,
                         routes = rts1\<rparr>]
               else
                 acc @ [\<lparr>splitedUrl = sUrl, splitedRoute = sRoute,
                         hasLastRestId = False, lastPrimaryKey = [],
                         routes = rts1\<rparr>]))"

definition getRouteDryMatch :: "string \<Rightarrow> route \<Rightarrow> routeDryMatch list" where
  "getRouteDryMatch normalizedUrl rootRoute =
     (let sUrl = splitOn CHR ''/'' normalizedUrl;
          h = (case host rootRoute of None \<Rightarrow> [] | Some x \<Rightarrow> x)
      in setRouteDryMatch sUrl rootRoute (Some h) None [])"

text \<open>
  What one visited node is: the chain of routes down to it, its accumulated path split
  into segments, and the two segment counts that the node compares.
\<close>

definition nodeChain :: "route \<Rightarrow> route list option \<Rightarrow> route list" where
  "nodeChain rt rts = (case rts of None \<Rightarrow> [] | Some r \<Rightarrow> r) @ [rt]"

definition nodePath :: "route \<Rightarrow> string option \<Rightarrow> string" where
  "nodePath rt pathOfRoute = joinWith ''/'' (filterTruthy [pathOfRoute, Some (path rt)])"

definition nodeSegments :: "route \<Rightarrow> string option \<Rightarrow> string list" where
  "nodeSegments rt pathOfRoute = splitOn CHR ''/'' (nodePath rt pathOfRoute)"

text \<open>\<^verbatim>\<open>ChainParam\<close>; \<^verbatim>\<open>routes[i]\<close> is \<^verbatim>\<open>undefined\<close> out of range.\<close>

record chainParam =
  cacheKey :: string
  primaryKey :: string
  restId :: "string option"
  route :: "route option"

text \<open>\<^verbatim>\<open>splitedUrl[i] || undefined\<close>: a segment that is missing or empty binds no id.\<close>

definition segmentId :: "string list \<Rightarrow> nat \<Rightarrow> string option" where
  "segmentId sUrl i =
     (case nthOpt sUrl i of None \<Rightarrow> None | Some s \<Rightarrow> if s = [] then None else Some s)"

text \<open>\<^verbatim>\<open>join\<close> on an array that may hold \<^verbatim>\<open>undefined\<close>, which it prints as the empty string.\<close>

definition joinOpt :: "string \<Rightarrow> string option list \<Rightarrow> string" where
  "joinOpt sep xs = joinWith sep (map (\<lambda>x. case x of None \<Rightarrow> [] | Some s \<Rightarrow> s) xs)"

text \<open>
  The body of \<^verbatim>\<open>splitedRoute.forEach((part, i) => ...)\<close> in \<^verbatim>\<open>getChainParams\<close>, on the
  three arrays \<^verbatim>\<open>chainParams\<close>, \<^verbatim>\<open>partsOfUrl\<close> and \<^verbatim>\<open>partsOfRoute\<close>.
\<close>

definition chainStep ::
  "string list \<Rightarrow> route list \<Rightarrow> nat \<times> string \<Rightarrow>
   chainParam list \<times> string option list \<times> string list \<Rightarrow>
   chainParam list \<times> string option list \<times> string list" where
  "chainStep sUrl rts ip st =
     (case st of (chainParams, partsOfUrl, partsOfRoute) \<Rightarrow>
        if startsWithColon (snd ip) then
          (chainParams @
             [\<lparr>cacheKey = joinWith ''/'' (take (fst ip) sUrl), primaryKey = drop 1 (snd ip),
               restId = segmentId sUrl (fst ip), route = nthOpt rts (length chainParams)\<rparr>],
           partsOfUrl, partsOfRoute)
        else (chainParams, partsOfUrl @ [nthOpt sUrl (fst ip)], partsOfRoute @ [snd ip]))"

definition getChainParams :: "routeDryMatch \<Rightarrow> chainParam list option" where
  "getChainParams m =
     (case fold (chainStep (splitedUrl m) (routes m)) (enumerate 0 (splitedRoute m)) ([], [], [])
      of (chainParams, partsOfUrl, partsOfRoute) \<Rightarrow>
        (let chainParams1 =
               (if \<not> hasLastRestId m then
                  chainParams @
                    [\<lparr>cacheKey = joinWith ''/'' (splitedUrl m), primaryKey = lastPrimaryKey m,
                      restId = None, route = lastOpt (routes m)\<rparr>]
                else chainParams)
         in if joinWith ''/'' partsOfRoute = joinOpt ''/'' partsOfUrl then Some chainParams1
            else None))"

text \<open>
  The chain as the spec words it: one link for each primary key token of the route, in
  order, the \<open>k\<close>-th of them taking the \<open>k\<close>-th route of the chain of routes.
\<close>

definition tokenPositions :: "string list \<Rightarrow> nat list" where
  "tokenPositions sRoute = filter (\<lambda>i. startsWithColon (sRoute ! i)) [0..<length sRoute]"

definition literalPositions :: "string list \<Rightarrow> nat list" where
  "literalPositions sRoute = filter (\<lambda>i. \<not> startsWithColon (sRoute ! i)) [0..<length sRoute]"

definition tokenLink ::
  "string list \<Rightarrow> string list \<Rightarrow> route list \<Rightarrow> nat \<times> nat \<Rightarrow> chainParam" where
  "tokenLink sUrl sRoute rts ki =
     \<lparr>cacheKey = joinWith ''/'' (take (snd ki) sUrl),
      primaryKey = drop 1 (sRoute ! snd ki),
      restId = segmentId sUrl (snd ki),
      route = nthOpt rts (fst ki)\<rparr>"

definition finalLink :: "routeDryMatch \<Rightarrow> chainParam" where
  "finalLink m =
     \<lparr>cacheKey = joinWith ''/'' (splitedUrl m), primaryKey = lastPrimaryKey m,
      restId = None, route = lastOpt (routes m)\<rparr>"

definition chainLinks :: "routeDryMatch \<Rightarrow> chainParam list" where
  "chainLinks m =
     map (tokenLink (splitedUrl m) (splitedRoute m) (routes m))
       (enumerate 0 (tokenPositions (splitedRoute m)))
     @ (if hasLastRestId m then [] else [finalLink m])"

definition literalUrl :: "routeDryMatch \<Rightarrow> string" where
  "literalUrl m =
     joinOpt ''/'' (map (nthOpt (splitedUrl m)) (literalPositions (splitedRoute m)))"

definition literalRoute :: "routeDryMatch \<Rightarrow> string" where
  "literalRoute m =
     joinWith ''/'' (map (\<lambda>i. splitedRoute m ! i) (literalPositions (splitedRoute m)))"

section \<open>The CRUD handlers\<close>

text \<open>
  \<^verbatim>\<open>ApiMockConfig\<close>, after \<^verbatim>\<open>init\<close> has merged the defaults in. Logging and the copy of
  the cache in \<^verbatim>\<open>localStorage\<close> (\<^verbatim>\<open>cacheFromLocalStorage\<close>, off by default) are not part
  of this model: it is the service with \<^verbatim>\<open>cacheFromLocalStorage\<close> off.
\<close>

record config =
  passThruUnknownUrl :: bool
  postUpdate204 :: bool
  postUpdate409 :: bool
  putUpdate204 :: bool
  putUpdate404 :: bool
  patchUpdate204 :: bool
  deleteNotFound404 :: bool

record mockData =
  writeableData :: "obj list"
  readonlyData :: "obj list"

definition makeError :: "request \<Rightarrow> status \<Rightarrow> string \<Rightarrow> httpErrorResponse" where
  "makeError req st errMsg = \<lparr>errUrl = urlWithParams req, errStatus = st, errMessage = errMsg\<rparr>"

text \<open>
  \<^verbatim>\<open>clone\<close> is \<^verbatim>\<open>JSON.parse(JSON.stringify(data))\<close>: a field that holds \<^verbatim>\<open>undefined\<close> is
  dropped, an \<^verbatim>\<open>undefined\<close> array element becomes \<^verbatim>\<open>null\<close>, and so does every number
  that JSON cannot write (\<^verbatim>\<open>NaN\<close> and the infinities).
\<close>

fun clone :: "jsval \<Rightarrow> jsval" where
  "clone (JArr xs) = JArr (map (\<lambda>x. if x = JUndefined then JNull else clone x) xs)"
| "clone (JObj kvs) =
     JObj (map (\<lambda>(k, v). (k, clone v)) (filter (\<lambda>(k, v). v \<noteq> JUndefined) kvs))"
| "clone (JNum n) = (case n of Fin x \<Rightarrow> JNum n | _ \<Rightarrow> JNull)"
| "clone v = v"

definition cloneObj :: "obj \<Rightarrow> obj" where
  "cloneObj ob = (case clone (JObj ob) of JObj kvs \<Rightarrow> kvs | _ \<Rightarrow> [])"

definition cloneList :: "jsval list \<Rightarrow> jsval list" where
  "cloneList xs = (case clone (JArr xs) of JArr ys \<Rightarrow> ys | _ \<Rightarrow> [])"

text \<open>\<^verbatim>\<open>this.clone(req.body || {})\<close>.\<close>

definition cloneItem :: "obj option \<Rightarrow> obj" where
  "cloneItem b = cloneObj (case b of None \<Rightarrow> [] | Some ob \<Rightarrow> ob)"

text \<open>\<^verbatim>\<open>Array.prototype.findIndex\<close>: the first index that satisfies, or \<open>-1\<close>.\<close>

fun findIndex :: "('a \<Rightarrow> bool) \<Rightarrow> 'a list \<Rightarrow> int" where
  "findIndex P [] = - 1"
| "findIndex P (x # xs) =
     (if P x then 0 else (let i = findIndex P xs in if i = - 1 then - 1 else i + 1))"

text \<open>\<^verbatim>\<open>xs.splice(i, 1)\<close>.\<close>

definition splice1 :: "nat \<Rightarrow> 'a list \<Rightarrow> 'a list" where
  "splice1 i xs = take i xs @ drop (i + 1) xs"

text \<open>\<^verbatim>\<open>Object.assign(target, source)\<close>: the fields of the source are set one by one.\<close>

definition objectAssign :: "obj \<Rightarrow> obj \<Rightarrow> obj" where
  "objectAssign target source = fold (\<lambda>kv t. AList.update (fst kv) (snd kv) t) source target"

text \<open>
  The loop of \<^verbatim>\<open>putOrPatch\<close> over \<^verbatim>\<open>Object.keys\<close> of the stored item, deleting each
  field whose key the new item does not have.
\<close>

definition deleteMissingKeys :: "obj \<Rightarrow> obj \<Rightarrow> obj" where
  "deleteMissingKeys stored item =
     (let keysFromNewItem = objKeys item
      in fold (\<lambda>k t. if k \<in> set keysFromNewItem then t else AList.delete k t)
           (objKeys stored) stored)"

definition jsonHeaders :: "(string \<times> string) list" where
  "jsonHeaders = [(''Content-Type'', ''application/json'')]"

definition quoted :: "string \<Rightarrow> string" where
  "quoted s = [CHR 0x22] @ s @ [CHR 0x22]"

definition get ::
  "runtime \<Rightarrow> request \<Rightarrow> (string \<times> string) list \<Rightarrow> chainParam \<Rightarrow> mockData \<Rightarrow>
   httpErrorResponse + responseOptions" where
  "get js req hdrs cp md =
     (let pk = primaryKey cp
      in case restId cp of
           Some r \<Rightarrow>
             (case find (\<lambda>ob. truthy (getProp ob pk) \<and> looseEq js (getProp ob pk) (JStr r))
                     (writeableData md) of
                None \<Rightarrow> Inl (makeError req NOT_FOUND ''item not found'')
              | Some item \<Rightarrow>
                  Inr \<lparr>resHeaders = hdrs, resStatus = Some OK, resBody = JArr [JObj item]\<rparr>)
         | None \<Rightarrow>
             Inr \<lparr>resHeaders = hdrs, resStatus = Some OK,
                  resBody = JArr (map JObj (readonlyData md))\<rparr>)"

text \<open>
  The handlers that write return the array \<^verbatim>\<open>writeableData\<close> as they leave it: the
  source changes it in place.
\<close>

definition post ::
  "runtime \<Rightarrow> config \<Rightarrow> request \<Rightarrow> (string \<times> string) list \<Rightarrow> chainParam \<Rightarrow>
   obj list \<Rightarrow> (httpErrorResponse + responseOptions) \<times> obj list" where
  "post js cfg req hdrs cp wd =
     (let item = cloneItem (body req);
          pk = primaryKey cp;
          rid = restId cp;
          resourceUrl =
            (if truthy (idVal rid) then joinWith ''/'' (butlast (splitOn CHR ''/'' (url req)))
             else url req)
      in if rid \<noteq> None then
           (Inl (makeError req METHOD_NOT_ALLOWED
              (''Error 405: Method not allowed; POST forbidder on this URI, try on ''
                 @ quoted resourceUrl)), wd)
         else if pk = [] then
           (Inl (makeError req BAD_REQUEST
              ''Error 400: Bad Request; POST forbidder on URI without primary key in the route''),
            wd)
         else
           (let item1 = (if getProp item pk = JUndefined
                         then AList.update pk (JNum (genId wd pk)) item else item);
                ident = getProp item1 pk;
                itemIndex = findIndex (\<lambda>itm. looseEq js (getProp itm pk) ident) wd
            in if itemIndex = - 1 then
                 (Inr \<lparr>resHeaders =
                         AList.update ''Location'' (resourceUrl @ ''/'' @ toStringJs js ident) hdrs,
                       resStatus = Some CREATED, resBody = JObj item1\<rparr>,
                  wd @ [item1])
               else if postUpdate409 cfg then
                 (Inl (makeError req CONFLICT
                    (''Error 409: Conflict; item.'' @ pk @ ''='' @ toStringJs js ident
                       @ '' exists and may not be updated with POST; use PUT instead.'')), wd)
               else
                 (if postUpdate204 cfg
                  then Inr \<lparr>resHeaders = hdrs, resStatus = Some NO_CONTENT, resBody = JUndefined\<rparr>
                  else Inr \<lparr>resHeaders = hdrs, resStatus = Some OK, resBody = JObj item1\<rparr>,
                  wd[nat itemIndex := item1])))"

definition putOrPatch ::
  "runtime \<Rightarrow> config \<Rightarrow> request \<Rightarrow> (string \<times> string) list \<Rightarrow> chainParam \<Rightarrow>
   obj list \<Rightarrow> (httpErrorResponse + responseOptions) \<times> obj list" where
  "putOrPatch js cfg req hdrs cp wd =
     (let update204 = (if reqMethod req = PUT then putUpdate204 cfg else patchUpdate204 cfg);
          item = cloneItem (body req);
          pk = primaryKey cp;
          rid = restId cp
      in if pk = [] then
           (Inl (makeError req BAD_REQUEST
              (''Error 400: Bad Request; '' @ methodName (reqMethod req)
                 @ '' forbidder on URI without primary key in the route'')), wd)
         else
           (let item1 = (if isNullish (getProp item pk)
                         then AList.update pk (idVal rid) item else item)
            in case rid of
                 None \<Rightarrow>
                   (Inl (makeError req METHOD_NOT_ALLOWED
                      (''Error 405: Method not allowed; '' @ methodName (reqMethod req)
                         @ '' forbidder on this URI, try on '' @ quoted (url req @ ''/:'' @ pk))),
                    wd)
               | Some r \<Rightarrow>
                   if \<not> looseEq js (JStr r) (getProp item1 pk) then
                     (Inl (makeError req BAD_REQUEST
                        (''Error 400: Bad request; request with resource ID '' @ quoted r
                           @ '' does not match item.'' @ pk @ ''=''
                           @ toStringJs js (getProp item1 pk))), wd)
                   else
                     (let itemIndex = findIndex (\<lambda>itm. looseEq js (getProp itm pk) (JStr r)) wd
                      in if itemIndex \<noteq> - 1 then
                           (let stored = wd ! nat itemIndex;
                                stored1 = (if reqMethod req = PUT
                                           then deleteMissingKeys stored item1 else stored);
                                stored2 = objectAssign stored1 item1
                            in (if update204
                                then Inr \<lparr>resHeaders = hdrs, resStatus = Some NO_CONTENT,
                                          resBody = JUndefined\<rparr>
                                else Inr \<lparr>resHeaders = hdrs, resStatus = Some OK,
                                          resBody = JObj item1\<rparr>,
                                wd[nat itemIndex := stored2]))
                         else if putUpdate404 cfg \<or> reqMethod req = PATCH then
                           (Inl (makeError req NOT_FOUND
                              (''Error 404: Not found; item.'' @ pk @ ''='' @ r
                                 @ '' not found and may not be created with ''
                                 @ methodName (reqMethod req) @ ''; use POST instead.'')), wd)
                         else
                           (Inr \<lparr>resHeaders = hdrs, resStatus = Some CREATED,
                                 resBody = JObj item1\<rparr>,
                            wd @ [item1]))))"

definition delete ::
  "runtime \<Rightarrow> config \<Rightarrow> request \<Rightarrow> (string \<times> string) list \<Rightarrow> chainParam \<Rightarrow>
   obj list \<Rightarrow> (httpErrorResponse + responseOptions) \<times> obj list" where
  "delete js cfg req hdrs cp wd =
     (let pk = primaryKey cp;
          ident = restId cp
      in if pk = [] then
           (Inl (makeError req BAD_REQUEST
              ''Error 400: Bad Request; DELETE forbidder on URI without primary key in the route''),
            wd)
         else
           (let itemIndex =
                  (case ident of
                     None \<Rightarrow> - 1
                   | Some i \<Rightarrow> findIndex (\<lambda>itemLocal. looseEq js (getProp itemLocal pk) (JStr i)) wd)
            in if ident = None \<or> (itemIndex = - 1 \<and> deleteNotFound404 cfg) then
                 (Inl (makeError req NOT_FOUND
                    (''Error 404: Not found; ''
                       @ (if truthy (idVal ident)
                          then ''item.'' @ pk @ ''='' @ toStringJs js (idVal ident) @ '' not found''
                          else ''missing '' @ quoted pk @ '' field''))), wd)
               else
                 (Inr \<lparr>resHeaders = hdrs, resStatus = Some NO_CONTENT, resBody = JUndefined\<rparr>,
                  if itemIndex \<noteq> - 1 then splice1 (nat itemIndex) wd else wd)))"

definition callRequestMethod ::
  "runtime \<Rightarrow> config \<Rightarrow> request \<Rightarrow> chainParam \<Rightarrow> mockData \<Rightarrow>
   (httpErrorResponse + responseOptions) \<times> obj list" where
  "callRequestMethod js cfg req cp md =
     (let hdrs = jsonHeaders
      in case reqMethod req of
           GET \<Rightarrow> (get js req hdrs cp md, writeableData md)
         | POST \<Rightarrow> post js cfg req hdrs cp (writeableData md)
         | PUT \<Rightarrow> putOrPatch js cfg req hdrs cp (writeableData md)
         | PATCH \<Rightarrow> putOrPatch js cfg req hdrs cp (writeableData md)
         | DELETE \<Rightarrow> delete js cfg req hdrs cp (writeableData md)
         | _ \<Rightarrow> (Inl (makeError req METHOD_NOT_ALLOWED ''Error 405: Method not allowed''),
                 writeableData md))"

section \<open>The cache and the request pipeline\<close>

text \<open>
  The state of an initialised service: the configuration, \<^verbatim>\<open>this.routes\<close> (here
  \<open>apiRoutes\<close>), \<^verbatim>\<open>this.rootRoutes\<close> and \<^verbatim>\<open>this.cachedData\<close>. \<^verbatim>\<open>init\<close>, which validates
  the routes and runs once before the first request, is not modelled.
\<close>

record service =
  config :: config
  apiRoutes :: "route list"
  rootRoutes :: "rootEntry list"
  cachedData :: "string \<rightharpoonup> mockData"

text \<open>
  What is thrown: the \<^verbatim>\<open>TypeError\<close> of the service with its message, or a \<^verbatim>\<open>TypeError\<close>
  that the engine raises, whose message is the engine's.
\<close>

datatype exn = TypeError string | EngineTypeError fault

fun exnMessage :: "runtime \<Rightarrow> exn \<Rightarrow> string" where
  "exnMessage js (TypeError msg) = msg"
| "exnMessage js (EngineTypeError f) = faultMessage js f"

text \<open>
  What \<^verbatim>\<open>handle\<close> gives back: an observable that emits a response, one that fails with
  an \<^verbatim>\<open>HttpErrorResponse\<close>, or the request passed on to the real backend.
\<close>

datatype httpEvent = Emits responseOptions | Fails httpErrorResponse | PassThru request

text \<open>
  \<^verbatim>\<open>getQueryParams\<close> and \<^verbatim>\<open>transformHeaders\<close>: \<^verbatim>\<open>undefined\<close> without keys, else an object
  that holds for each key its value, or the list of its values when they are not one.
\<close>

definition collectValues :: "(string \<times> string list) list \<Rightarrow> obj option" where
  "collectValues kvs =
     (if kvs = [] then None
      else Some (fold (\<lambda>kv ob. AList.update (fst kv)
                         (case snd kv of [v] \<Rightarrow> JStr v | vs \<Rightarrow> JArr (map JStr vs)) ob)
                   kvs []))"

definition getQueryParams :: "request \<Rightarrow> obj option" where
  "getQueryParams req = collectValues (params req)"

definition transformHeaders :: "(string \<times> string list) list \<Rightarrow> obj option" where
  "transformHeaders hs = collectValues hs"

text \<open>
  \<^verbatim>\<open>bindReadonlyData\<close> maps the items through \<^verbatim>\<open>pickAllPropertiesAsGetters\<close> of
  \<^verbatim>\<open>pick-properties\<close>, which is not among the sources: it is the parameter \<open>pick\<close> of the
  functions below, applied to the clone of \<^verbatim>\<open>propertiesForList\<close> of the route (when the
  route has one) and the item.
\<close>

definition bindReadonlyData ::
  "(obj option \<Rightarrow> obj \<Rightarrow> obj) \<Rightarrow> route \<Rightarrow> obj list \<Rightarrow> obj list" where
  "bindReadonlyData pick rt wd = map (pick (map_option cloneObj (propertiesForList rt))) wd"

text \<open>
  \<^verbatim>\<open>cacheDataWithGetMethod\<close>. \<^verbatim>\<open>Inl\<close> is the exception thrown. A chain link whose route
  is \<^verbatim>\<open>undefined\<close> makes \<^verbatim>\<open>chainParam.route.dataCallback\<close> throw. In
  \<^verbatim>\<open>(cb && cb(opts)) || []\<close> a route without callback gives \<^verbatim>\<open>undefined\<close>, and every
  falsy value gives way to the empty array (an array is truthy); \<^verbatim>\<open>Array.isArray\<close> then
  separates the two kinds of results.
\<close>

definition cacheDataWithGetMethod ::
  "(obj option \<Rightarrow> obj \<Rightarrow> obj) \<Rightarrow> service \<Rightarrow> chainParam \<Rightarrow> obj list option \<Rightarrow>
   obj option \<Rightarrow> obj option \<Rightarrow> (string \<times> string list) list \<Rightarrow> (exn + mockData) \<times> service" where
  "cacheDataWithGetMethod pick sv cp prnts qp bdy hdrs =
     (case cachedData sv (cacheKey cp) of
        Some md \<Rightarrow> (Inr md, sv)
      | None \<Rightarrow>
          (case route cp of
             None \<Rightarrow> (Inl (EngineTypeError ReadOfUndefined), sv)
           | Some rt \<Rightarrow>
               (let opts = \<lparr>items = [], itemId = restId cp, httpMethod = GET, parents = prnts,
                             queryParams = qp, reqBody = bdy, reqHeaders = transformHeaders hdrs\<rparr>;
                    returned = (case dataCallback rt of
                                  None \<Rightarrow> NonList NoUndefined
                                | Some cb \<Rightarrow> cb opts);
                    wd = (case returned of
                            ItemList xs \<Rightarrow> ItemList xs
                          | NonList v \<Rightarrow> if truthy (jsValue v) then NonList v else ItemList [])
                in case wd of
                     ItemList xs \<Rightarrow>
                       (let md = \<lparr>writeableData = xs,
                                   readonlyData = bindReadonlyData pick rt xs\<rparr>
                        in (Inr md, sv\<lparr>cachedData := (cachedData sv)(cacheKey cp \<mapsto> md)\<rparr>))
                   | NonList v \<Rightarrow>
                       (Inl (TypeError ''route.dataCallback() should returns an array''), sv))))"

text \<open>
  \<^verbatim>\<open>getParents\<close>: the loop runs over the chain without its last link. The result is the
  exception thrown (\<^verbatim>\<open>Inl\<close>), or the \<^verbatim>\<open>HttpErrorResponse\<close> returned, or the parents.
\<close>

fun getParentsLoop ::
  "runtime \<Rightarrow> (obj option \<Rightarrow> obj \<Rightarrow> obj) \<Rightarrow> request \<Rightarrow> service \<Rightarrow> chainParam list \<Rightarrow>
   obj list \<Rightarrow> (exn + httpErrorResponse + obj list) \<times> service" where
  "getParentsLoop js pick req sv [] ps = (Inr (Inr ps), sv)"
| "getParentsLoop js pick req sv [lastParam] ps = (Inr (Inr ps), sv)"
| "getParentsLoop js pick req sv (cp # next # rest) ps =
     (let currParents = (if ps = [] then None else Some ps)
      in case cacheDataWithGetMethod pick sv cp currParents (getQueryParams req) (body req)
                (headers req) of
           (Inl e, sv1) \<Rightarrow> (Inl e, sv1)
         | (Inr md, sv1) \<Rightarrow>
             (case find (\<lambda>ob. truthy (getProp ob (primaryKey cp))
                              \<and> looseEq js (getProp ob (primaryKey cp)) (idVal (restId cp)))
                     (writeableData md) of
                None \<Rightarrow> (Inr (Inl (makeError req NOT_FOUND ''item not found'')), sv1)
              | Some item \<Rightarrow> getParentsLoop js pick req sv1 (next # rest) (ps @ [item])))"

definition getParents ::
  "runtime \<Rightarrow> (obj option \<Rightarrow> obj \<Rightarrow> obj) \<Rightarrow> request \<Rightarrow> service \<Rightarrow> chainParam list \<Rightarrow>
   (exn + httpErrorResponse + obj list option) \<times> service" where
  "getParents js pick req sv cps =
     (case getParentsLoop js pick req sv cps [] of
        (Inl e, sv1) \<Rightarrow> (Inl e, sv1)
      | (Inr (Inl err), sv1) \<Rightarrow> (Inr (Inl err), sv1)
      | (Inr (Inr ps), sv1) \<Rightarrow> (Inr (Inr (if ps = [] then None else Some ps)), sv1))"

definition getResponse ::
  "request \<Rightarrow> chainParam \<Rightarrow> route \<Rightarrow> obj list option \<Rightarrow> obj option \<Rightarrow> responseOptions \<Rightarrow>
   httpEvent" where
  "getResponse req cp rt prnts qp ro =
     (let anyBody = resBody ro;
          bodyList = (if anyBody \<noteq> JUndefined
                      then (case anyBody of JArr xs \<Rightarrow> xs | v \<Rightarrow> [v]) else []);
          clonedBody = cloneList bodyList;
          resOrBody =
            (case responseCallback rt of
               None \<Rightarrow> RetBody (JArr clonedBody)
             | Some rcb \<Rightarrow>
                 rcb \<lparr>respItems = clonedBody, respItemId = restId cp,
                      respHttpMethod = reqMethod req,
                      respParents = map_option (map cloneObj) prnts,
                      respQueryParams = qp,
                      respReqBody = map_option cloneObj (body req),
                      respReqHeaders = transformHeaders (headers req),
                      resBodyOpt = resBody ro\<rparr>)
      in case resOrBody of
           RetError e \<Rightarrow> Fails e
         | RetResponse r \<Rightarrow> Emits r
         | RetBody b \<Rightarrow>
             Emits (ro\<lparr>resStatus := Some (case resStatus ro of None \<Rightarrow> OK | Some st \<Rightarrow> st),
                       resBody := b\<rparr>))"

text \<open>
  \<^verbatim>\<open>sendResponse\<close>. The handlers have changed the cached array in place, so the cache
  holds what they left also when the request ends early. After a request other than
  \<^verbatim>\<open>GET\<close> the data callback is called again on the items and its result replaces the
  cache entry; \<^verbatim>\<open>bindReadonlyData\<close> then calls \<^verbatim>\<open>map\<close> on it, which the engine refuses on
  a result that is no array (the source has by then put that value into the cache, which
  the typed cache here cannot hold: it keeps the list the handler left).
\<close>

definition sendResponse ::
  "runtime \<Rightarrow> (obj option \<Rightarrow> obj \<Rightarrow> obj) \<Rightarrow> service \<Rightarrow> request \<Rightarrow> chainParam list \<Rightarrow>
   (exn + httpEvent) \<times> service" where
  "sendResponse js pick sv req cps =
     (let qp = getQueryParams req;
          hm = reqMethod req
      in case getParents js pick req sv cps of
           (Inl e, sv1) \<Rightarrow> (Inl e, sv1)
         | (Inr (Inl err), sv1) \<Rightarrow> (Inr (Fails err), sv1)
         | (Inr (Inr prnts), sv1) \<Rightarrow>
             (case lastOpt cps of
                None \<Rightarrow> (Inl (EngineTypeError ReadOfUndefined), sv1)
              | Some cp \<Rightarrow>
                  (case route cp of
                     None \<Rightarrow> (Inl (EngineTypeError ReadOfUndefined), sv1)
                   | Some rt \<Rightarrow>
                       (case dataCallback rt of
                          None \<Rightarrow>
                            (Inr (getResponse req cp rt prnts qp
                                    \<lparr>resHeaders = [], resStatus = None, resBody = JUndefined\<rparr>),
                             sv1)
                        | Some cb \<Rightarrow>
                            (case cacheDataWithGetMethod pick sv1 cp prnts qp (body req)
                                    (headers req) of
                               (Inl e, sv2) \<Rightarrow> (Inl e, sv2)
                             | (Inr md, sv2) \<Rightarrow>
                                 (case callRequestMethod js (config sv2) req cp md of
                                    (ro, wd) \<Rightarrow>
                                      (let sv3 = sv2\<lparr>cachedData := (cachedData sv2)
                                                   (cacheKey cp \<mapsto> md\<lparr>writeableData := wd\<rparr>)\<rparr>
                                       in case ro of
                                            Inl err \<Rightarrow> (Inr (Fails err), sv3)
                                          | Inr opts \<Rightarrow>
                                              if hm \<noteq> GET then
                                                (case cb \<lparr>items = wd, itemId = restId cp,
                                                          httpMethod = hm, parents = prnts,
                                                          queryParams = qp, reqBody = body req,
                                                          reqHeaders = transformHeaders (headers req)\<rparr>
                                                 of
                                                   ItemList xs \<Rightarrow>
                                                     (Inr (getResponse req cp rt prnts qp opts),
                                                      sv3\<lparr>cachedData := (cachedData sv3)
                                                        (cacheKey cp \<mapsto>
                                                           \<lparr>writeableData = xs,
                                                            readonlyData =
                                                              bindReadonlyData pick rt xs\<rparr>)\<rparr>)
                                                 | NonList v \<Rightarrow>
                                                     (Inl (EngineTypeError (MapOfNonArray v)),
                                                      sv3))
                                              else (Inr (getResponse req cp rt prnts qp opts),
                                                    sv3))))))))"

definition send404Error :: "service \<Rightarrow> request \<Rightarrow> httpEvent" where
  "send404Error sv req =
     (if passThruUnknownUrl (config sv) then PassThru req
      else Fails (makeError req NOT_FOUND ''Error 404: Not found''))"

text \<open>The loop of \<^verbatim>\<open>handleReq\<close> over the candidates: the first that gives a chain.\<close>

fun firstChain :: "routeDryMatch list \<Rightarrow> chainParam list option" where
  "firstChain [] = None"
| "firstChain (m # ms) =
     (case getChainParams m of Some chainParams \<Rightarrow> Some chainParams | None \<Rightarrow> firstChain ms)"

text \<open>\<^verbatim>\<open>req.url.charAt(0) == '/' ? req.url.slice(1) : req.url\<close>.\<close>

definition normalizeUrl :: "string \<Rightarrow> string" where
  "normalizeUrl u = (case u of [] \<Rightarrow> [] | c # cs \<Rightarrow> if c = CHR ''/'' then cs else c # cs)"

definition handleReq ::
  "runtime \<Rightarrow> (obj option \<Rightarrow> obj \<Rightarrow> obj) \<Rightarrow> service \<Rightarrow> request \<Rightarrow>
   (exn + httpEvent) \<times> service" where
  "handleReq js pick sv req =
     (let normalizedUrl = normalizeUrl (url req);
          routeIndex = findRouteIndex (rootRoutes sv) normalizedUrl
      in if routeIndex = - 1 then (Inr (send404Error sv req), sv)
         else
           (case nthOpt (apiRoutes sv) (nat routeIndex) of
              None \<Rightarrow> (Inl (EngineTypeError ReadOfUndefined), sv)
            | Some rootRoute \<Rightarrow>
                (case firstChain (getRouteDryMatch normalizedUrl rootRoute) of
                   Some chainParams \<Rightarrow> sendResponse js pick sv req chainParams
                 | None \<Rightarrow> (Inr (send404Error sv req), sv))))"

text \<open>\<^verbatim>\<open>handle\<close>: whatever \<^verbatim>\<open>handleReq\<close> throws becomes the error response 500.\<close>

definition handle ::
  "runtime \<Rightarrow> (obj option \<Rightarrow> obj \<Rightarrow> obj) \<Rightarrow> service \<Rightarrow> request \<Rightarrow> httpEvent \<times> service" where
  "handle js pick sv req =
     (case handleReq js pick sv req of
        (Inl err, sv1) \<Rightarrow>
          (Fails (makeError req INTERNAL_SERVER_ERROR (exnMessage js err)), sv1)
      | (Inr ev, sv1) \<Rightarrow> (ev, sv1))"

section \<open>Reference functions for the properties\<close>

text \<open>A list without the first of its elements that satisfies a predicate.\<close>

fun removeFirst :: "('a \<Rightarrow> bool) \<Rightarrow> 'a list \<Rightarrow> 'a list" where
  "removeFirst P [] = []"
| "removeFirst P (x # xs) = (if P x then xs else x # removeFirst P xs)"

text \<open>
  The comparison of a stored item with a bound id, as the lookups of \<^verbatim>\<open>post\<close>,
  \<^verbatim>\<open>putOrPatch\<close> and \<^verbatim>\<open>delete\<close> make it, and as \<^verbatim>\<open>get\<close> and \<^verbatim>\<open>getParents\<close> make it.
\<close>

definition looseMatch :: "runtime \<Rightarrow> string \<Rightarrow> jsval \<Rightarrow> obj \<Rightarrow> bool" where
  "looseMatch js pk v item = looseEq js (getProp item pk) v"

definition truthyMatch :: "runtime \<Rightarrow> string \<Rightarrow> jsval \<Rightarrow> obj \<Rightarrow> bool" where
  "truthyMatch js pk v item = (truthy (getProp item pk) \<and> looseEq js (getProp item pk) v)"

text \<open>
  The numbers held under the primary key, item by item; the numbers that are integers
  below \<open>2\<^sup>5\<^sup>3\<close> in magnitude (\<^verbatim>\<open>Number.isSafeInteger\<close>), and those that do not exceed zero;
  and what one item contributes to the maximum when its numbers are integers: its numeric
  primary key, else zero.
\<close>

definition numericIds :: "obj list \<Rightarrow> string \<Rightarrow> jsnum list" where
  "numericIds its pk =
     concat (map (\<lambda>item. case getProp item pk of JNum n \<Rightarrow> [n] | _ \<Rightarrow> []) its)"

fun safeInteger :: "jsnum \<Rightarrow> bool" where
  "safeInteger (Fin x) = (of_int \<lfloor>x\<rfloor> = x \<and> \<bar>x\<bar> < 2 ^ 53)"
| "safeInteger n = False"

fun notAboveZero :: "jsnum \<Rightarrow> bool" where
  "notAboveZero (Fin x) = (x \<le> 0)"
| "notAboveZero NegInfinity = True"
| "notAboveZero n = False"

definition idContribution :: "string \<Rightarrow> obj \<Rightarrow> int" where
  "idContribution pk item = (case getProp item pk of JNum (Fin x) \<Rightarrow> \<lfloor>x\<rfloor> | _ \<Rightarrow> 0)"

text \<open>The entry of the root index that the \<open>i\<close>-th declared route gives.\<close>

definition declaredEntry :: "route list \<Rightarrow> nat \<Rightarrow> rootEntry" where
  "declaredEntry rts i = rootEntryOf (i, rts ! i)"

text \<open>
  The defaults of \<^verbatim>\<open>ApiMockConfig\<close> in \<^verbatim>\<open>types.ts\<close>, and a request without headers and
  query parameters, for the examples.
\<close>

definition defaultConfig :: config where
  "defaultConfig =
     \<lparr>passThruUnknownUrl = False, postUpdate204 = True, postUpdate409 = False,
      putUpdate204 = True, putUpdate404 = True, patchUpdate204 = True,
      deleteNotFound404 = True\<rparr>"

definition requestTo :: "httpMethod \<Rightarrow> string \<Rightarrow> obj option \<Rightarrow> request" where
  "requestTo m u b =
     \<lparr>reqMethod = m, url = u, urlWithParams = u, body = b, headers = [], params = []\<rparr>"

text \<open>
  The item that \<^verbatim>\<open>putOrPatch\<close> works with: the clone of the request body, with the bound
  id as primary key when the body has none (or \<^verbatim>\<open>null\<close>).
\<close>

definition requestItem :: "request \<Rightarrow> chainParam \<Rightarrow> obj" where
  "requestItem req cp =
     (if isNullish (getProp (cloneItem (body req)) (primaryKey cp))
      then AList.update (primaryKey cp) (idVal (restId cp)) (cloneItem (body req))
      else cloneItem (body req))"

text \<open>
  For the examples, a runtime. It reads a string of decimal digits, with or without a
  minus sign, as that integer (rounded to a double), the empty string as zero and every
  other string as \<^verbatim>\<open>NaN\<close>; the examples compare with no other strings than decimal
  numerals, where \<^verbatim>\<open>Number\<close> does the same. They print no number beyond the integers up
  to \<open>2\<^sup>5\<^sup>3\<close> and raise no \<^verbatim>\<open>TypeError\<close> of the engine, so the two other fields are
  placeholders.
\<close>

definition digitVal :: "char \<Rightarrow> nat option" where
  "digitVal c = map_of (zip ''0123456789'' [0, 1, 2, 3, 4, 5, 6, 7, 8, 9]) c"

fun parseDigits :: "nat \<Rightarrow> string \<Rightarrow> nat option" where
  "parseDigits acc [] = Some acc"
| "parseDigits acc (c # cs) =
     (case digitVal c of None \<Rightarrow> None | Some d \<Rightarrow> parseDigits (10 * acc + d) cs)"

definition readDecimal :: "string \<Rightarrow> jsnum" where
  "readDecimal s =
     (case s of
        [] \<Rightarrow> Fin 0
      | c # cs \<Rightarrow>
          if c = CHR ''-'' \<and> cs \<noteq> []
          then (case parseDigits 0 cs of None \<Rightarrow> NaN | Some n \<Rightarrow> roundDouble (- of_nat n))
          else (case parseDigits 0 (c # cs) of None \<Rightarrow> NaN | Some n \<Rightarrow> roundDouble (of_nat n)))"

definition exampleRuntime :: runtime where
  "exampleRuntime =
     \<lparr>stringToNumber = readDecimal, numberToString = (\<lambda>x. []), faultMessage = (\<lambda>f. [])\<rparr>"

text \<open>
  For the examples: data callbacks that return \<^verbatim>\<open>null\<close>, the number 5 and a given list of
  items, whatever the options; and the identity on the item in the place of
  \<^verbatim>\<open>pickAllPropertiesAsGetters\<close>.
\<close>

definition nullCallback :: "cbOpts \<Rightarrow> cbData" where
  "nullCallback opts = NonList NoNull"

definition numberCallback :: "cbOpts \<Rightarrow> cbData" where
  "numberCallback opts = NonList (NoNum (Fin 5))"

definition listCallback :: "obj list \<Rightarrow> cbOpts \<Rightarrow> cbData" where
  "listCallback xs opts = ItemList xs"

definition pickAll :: "obj option \<Rightarrow> obj \<Rightarrow> obj" where
  "pickAll template item = item"

text \<open>
  For the examples: the service of the one route \<^verbatim>\<open>posts/:id\<close> with a given data
  callback, before its first request, and the chain link of the collection \<^verbatim>\<open>posts\<close>.
\<close>

definition postsRoute :: "(cbOpts \<Rightarrow> cbData) \<Rightarrow> route" where
  "postsRoute cb = Route ''posts/:id'' None (Some cb) None None []"

definition postsService :: "(cbOpts \<Rightarrow> cbData) \<Rightarrow> service" where
  "postsService cb =
     \<lparr>config = defaultConfig, apiRoutes = [postsRoute cb],
      rootRoutes = getRootPaths [postsRoute cb], cachedData = Map.empty\<rparr>"

definition postsLink :: "(cbOpts \<Rightarrow> cbData) \<Rightarrow> chainParam" where
  "postsLink cb =
     \<lparr>cacheKey = ''posts'', primaryKey = ''id'', restId = None, route = Some (postsRoute cb)\<rparr>"

text \<open>
  And the service of the route \<^verbatim>\<open>posts/:postId\<close> with the nested route
  \<^verbatim>\<open>comments/:commentId\<close>, each with a given data callback, before its first request; the
  chain of the URL \<^verbatim>\<open>posts/<id>/comments\<close> has the link of the post and the link of its
  comments.
\<close>

definition commentsRoute :: "(cbOpts \<Rightarrow> cbData) \<Rightarrow> route" where
  "commentsRoute cb = Route ''comments/:commentId'' None (Some cb) None None []"

definition blogRoute :: "(cbOpts \<Rightarrow> cbData) \<Rightarrow> (cbOpts \<Rightarrow> cbData) \<Rightarrow> route" where
  "blogRoute postsCb commentsCb =
     Route ''posts/:postId'' None (Some postsCb) None None [commentsRoute commentsCb]"

definition blogService :: "(cbOpts \<Rightarrow> cbData) \<Rightarrow> (cbOpts \<Rightarrow> cbData) \<Rightarrow> service" where
  "blogService postsCb commentsCb =
     \<lparr>config = defaultConfig, apiRoutes = [blogRoute postsCb commentsCb],
      rootRoutes = getRootPaths [blogRoute postsCb commentsCb], cachedData = Map.empty\<rparr>"

definition postLink ::
  "(cbOpts \<Rightarrow> cbData) \<Rightarrow> (cbOpts \<Rightarrow> cbData) \<Rightarrow> string \<Rightarrow> chainParam" where
  "postLink postsCb commentsCb ident =
     \<lparr>cacheKey = ''posts'', primaryKey = ''postId'', restId = Some ident,
      route = Some (blogRoute postsCb commentsCb)\<rparr>"

definition commentsLink :: "(cbOpts \<Rightarrow> cbData) \<Rightarrow> string \<Rightarrow> chainParam" where
  "commentsLink commentsCb ident =
     \<lparr>cacheKey = ''posts/'' @ ident @ ''/comments'', primaryKey = ''commentId'', restId = None,
      route = Some (commentsRoute commentsCb)\<rparr>"

text \<open>
  The first steps of \<^verbatim>\<open>handleReq\<close>, up to the chain that \<^verbatim>\<open>sendResponse\<close> is called
  with: the chain that the URL of a request resolves to, if it resolves to one.
\<close>

definition resolveChain :: "service \<Rightarrow> request \<Rightarrow> chainParam list option" where
  "resolveChain sv req =
     (let normalizedUrl = normalizeUrl (url req);
          routeIndex = findRouteIndex (rootRoutes sv) normalizedUrl
      in if routeIndex = - 1 then None
         else
           (case nthOpt (apiRoutes sv) (nat routeIndex) of
              None \<Rightarrow> None
            | Some rootRoute \<Rightarrow> firstChain (getRouteDryMatch normalizedUrl rootRoute)))"

text \<open>\<^verbatim>\<open>parents.length ? parents : undefined\<close>.\<close>

definition parentsOrNone :: "obj list \<Rightarrow> obj list option" where
  "parentsOrNone ps = (if ps = [] then None else Some ps)"

text \<open>
  The options that \<^verbatim>\<open>cacheDataWithGetMethod\<close> calls the data callback of a chain link
  with, for a request and the parents found so far.
\<close>

definition missOpts :: "request \<Rightarrow> chainParam \<Rightarrow> obj list \<Rightarrow> cbOpts" where
  "missOpts req cp ps =
     \<lparr>items = [], itemId = restId cp, httpMethod = GET, parents = parentsOrNone ps,
      queryParams = getQueryParams req, reqBody = body req,
      reqHeaders = transformHeaders (headers req)\<rparr>"

section \<open>Properties of the arithmetic\<close>

lemma halfEven_of_int: "halfEven (of_int k) = k"
  by (simp add: halfEven_def)

lemma binade_of_int:
  assumes "0 < a"
  shows "binade (of_int a) = bitlen a - 1"
proof -
  from bitlen_bounds [OF assms] have lo: "2 ^ nat (bitlen a - 1) \<le> a" by simp
  from assms have pos: "0 < bitlen a"
    using bitlen_eq_zero_iff [of a] bitlen_nonneg [of a] by linarith
  have "(2::rat) powi (bitlen a - 1) = 2 ^ nat (bitlen a - 1)"
    using pos by (simp add: power_int_def)
  also have "\<dots> = of_int (2 ^ nat (bitlen a - 1))" by simp
  also have "\<dots> \<le> of_int a" using lo by (simp only: of_int_le_iff)
  finally have "(2::rat) powi (bitlen a - 1) \<le> of_int a" .
  moreover have "bitlen 1 = 1" by (simp add: bitlen_def floorlog_def)
  ultimately show ?thesis
    by (simp add: binade_def Let_def)
qed

lemma bitlen_safe:
  assumes pos: "0 < a" and le: "a \<le> 2 ^ 53"
  shows "0 \<le> bitlen a - 1" "bitlen a - 1 \<le> 53" "bitlen a - 1 = 53 \<Longrightarrow> a = 2 ^ 53"
proof -
  from pos show "0 \<le> bitlen a - 1"
    using bitlen_eq_zero_iff [of a] bitlen_nonneg [of a] by linarith
  from le have "a < 2 ^ nat 54" by simp
  with bitlen_le_iff_power [of a 54] show "bitlen a - 1 \<le> 53" by simp
  assume "bitlen a - 1 = 53"
  with bitlen_bounds [OF pos] have "2 ^ 53 \<le> a" by simp
  with le show "a = 2 ^ 53" by simp
qed

lemma round_exact:
  assumes pos: "0 < a" and le: "a \<le> 2 ^ 53" and e: "e = bitlen a - 1"
  shows "of_int (halfEven (of_int a / 2 powi (e - 52))) * (2::rat) powi (e - 52) = of_int a"
proof (cases "e = 53")
  case True
  with bitlen_safe(3) [OF pos le] e have a: "a = 2 ^ 53" by simp
  have "(of_int a :: rat) / 2 powi (e - 52) = of_int (2 ^ 52)"
    by (simp add: True a)
  then show ?thesis
    by (simp only: halfEven_of_int) (simp add: True a)
next
  case False
  with bitlen_safe(2) [OF pos le] e have d: "e \<le> 52" by simp
  define k where "k = nat (52 - e)"
  have "e - 52 = - int k" using d by (simp add: k_def)
  then have ulp: "(2::rat) powi (e - 52) = inverse (2 ^ k)"
    by (simp add: power_int_minus)
  have "(of_int a :: rat) / 2 powi (e - 52) = of_int (a * 2 ^ k)"
    by (simp add: ulp divide_inverse)
  then show ?thesis
    by (simp only: halfEven_of_int) (simp add: ulp)
qed

lemma roundDouble_pos:
  assumes pos: "0 < a" and le: "a \<le> 2 ^ 53"
  shows "roundDouble (of_int a) = Fin (of_int a)" "roundDouble (- of_int a) = Fin (- of_int a)"
proof -
  define e where "e = bitlen a - 1"
  have e: "max (binade (of_int a)) (- 1022) = e"
    using bitlen_safe(1) [OF pos le] by (simp add: binade_of_int [OF pos] e_def)
  have small: "\<not> (2::rat) powi 1024 \<le> of_int a"
  proof -
    have "a < 2 ^ 1024" using le by (rule order_le_less_trans) simp
    then have "(of_int a :: rat) < of_int (2 ^ 1024)" by (simp only: of_int_less_iff)
    then show ?thesis by simp
  qed
  from pos have ne: "(of_int a :: rat) \<noteq> 0" "(0::rat) < of_int a" by simp_all
  note ex = round_exact [OF pos le e_def]
  show "roundDouble (of_int a) = Fin (of_int a)"
    unfolding roundDouble_def Let_def using ne small by (simp only: abs_of_pos e ex if_False if_True)
  have ab: "\<bar>- (of_int a :: rat)\<bar> = of_int a" using ne by simp
  have neg: "\<not> (0::rat) < - of_int a" "- (of_int a :: rat) \<noteq> 0" using ne by simp_all
  show "roundDouble (- of_int a) = Fin (- of_int a)"
    unfolding roundDouble_def Let_def using neg small by (simp only: ab e ex if_False if_True)
qed

text \<open>Every integer up to \<open>2\<^sup>5\<^sup>3\<close> in magnitude is a double: rounding leaves it as it is.\<close>

lemma roundDouble_int:
  assumes "\<bar>n\<bar> \<le> 2 ^ 53"
  shows "roundDouble (of_int n) = Fin (of_int n)"
proof -
  consider "n = 0" | "0 < n" | "n < 0" by linarith
  then show ?thesis
  proof cases
    case 1
    then show ?thesis by (simp add: roundDouble_def)
  next
    case 2
    with assms roundDouble_pos(1) [of n] show ?thesis by simp
  next
    case 3
    with assms roundDouble_pos(2) [of "- n"] show ?thesis by simp
  qed
qed

lemma roundDouble_numeral [simp]:
  "numeral k \<le> (2::int) ^ 53 \<Longrightarrow> roundDouble (numeral k) = Fin (numeral k)"
  "numeral k \<le> (2::int) ^ 53 \<Longrightarrow> roundDouble (- numeral k) = Fin (- numeral k)"
  "roundDouble 0 = Fin 0" "roundDouble 1 = Fin 1" "roundDouble (- 1) = Fin (- 1)"
  using roundDouble_int [of "numeral k"] roundDouble_int [of "- numeral k"]
    roundDouble_int [of 0] roundDouble_int [of 1] roundDouble_int [of "- 1"]
  by simp_all

text \<open>The first number that is no double of its own: \<open>2\<^sup>5\<^sup>3 + 1\<close> rounds to \<open>2\<^sup>5\<^sup>3\<close>.\<close>

lemma roundDouble_beyond: "roundDouble (2 ^ 53 + 1) = Fin (2 ^ 53)"
proof -
  have b: "bitlen 9007199254740993 = 54"
    using bitlen_twopow_add_eq [of 1 53] by simp
  have one: "bitlen 1 = 1"
    by (simp add: bitlen_def floorlog_def)
  have q: "quotient_of 9007199254740993 = (9007199254740993, 1)"
    using quotient_of_int [of 9007199254740993] by simp
  have "binade 9007199254740993 = 53"
    unfolding binade_def Let_def q fst_conv snd_conv b one by simp
  moreover have "\<lfloor>(9007199254740993::rat) / 2\<rfloor> = 4503599627370496"
    by (rule floor_unique) simp_all
  ultimately show ?thesis
    by (simp add: roundDouble_def halfEven_def Let_def)
qed

section \<open>Properties of the generated ids\<close>

lemma jsMax_same: "jsMax a a = a"
  by (cases a) simp_all

lemma jsMax_NaN: "jsMax a NaN = NaN"
  by (cases a) simp_all

lemma foldl_genIdStep:
  "foldl (genIdStep pk) m its = fold (\<lambda>n a. jsMax a n) (numericIds its pk) m"
proof (induction its arbitrary: m)
  case Nil
  show ?case by (simp add: numericIds_def)
next
  case (Cons item its)
  have app: "numericIds (item # its) pk = numericIds [item] pk @ numericIds its pk"
    by (simp add: numericIds_def)
  have step: "genIdStep pk m item = fold (\<lambda>n a. jsMax a n) (numericIds [item] pk) m"
    by (cases "getProp item pk") (simp_all add: genIdStep_def numericIds_def jsMax_same)
  show ?case
    by (simp add: Cons.IH step app)
qed

lemma fold_jsMax_NaN: "fold (\<lambda>n a. jsMax a n) ns NaN = NaN"
  by (induction ns) simp_all

lemma fold_jsMax_has_NaN:
  "NaN \<in> set ns \<Longrightarrow> fold (\<lambda>n a. jsMax a n) ns m = NaN"
  by (induction ns arbitrary: m) (auto simp: jsMax_NaN fold_jsMax_NaN)

lemma fold_jsMax_zero:
  "\<forall>n \<in> set ns. notAboveZero n \<Longrightarrow> fold (\<lambda>n a. jsMax a n) ns (Fin 0) = Fin 0"
proof (induction ns)
  case Nil
  show ?case by simp
next
  case (Cons n ns)
  then have "jsMax (Fin 0) n = Fin 0"
    by (cases n) simp_all
  with Cons show ?case by simp
qed

text \<open>The integers that the safe numbers of a list are.\<close>

lemma safeInteger_int:
  assumes "safeInteger n"
  obtains k where "n = Fin (of_int k)" "\<bar>k\<bar> < 2 ^ 53"
proof (cases n)
  case (Fin x)
  define k where "k = \<lfloor>x\<rfloor>"
  from assms Fin have xk: "x = of_int k" and b: "\<bar>x\<bar> < 2 ^ 53"
    by (auto simp: k_def)
  from b have "\<bar>k\<bar> < 2 ^ 53"
    unfolding xk by (simp add: abs_less_iff)
  with xk Fin that [of k] show ?thesis by simp
qed (use assms in simp_all)

lemma fold_jsMax_ints:
  "fold (\<lambda>n a. jsMax a n) (map (\<lambda>k. Fin (of_int k)) ks) (Fin (of_int m))
   = Fin (of_int (fold max ks m))"
  by (induction ks arbitrary: m) (simp_all add: max.commute of_int_max [symmetric])

lemma safe_numericIds:
  assumes "\<forall>n \<in> set (numericIds its pk). safeInteger n"
  shows "\<exists>ks. numericIds its pk = map (\<lambda>k. Fin (of_int k)) ks
              \<and> (\<forall>k \<in> set ks. \<bar>k\<bar> < 2 ^ 53)
              \<and> insert 0 (set ks) = insert 0 (set (map (idContribution pk) its))"
  using assms
proof (induction its)
  case Nil
  show ?case by (simp add: numericIds_def)
next
  case (Cons item its)
  have app: "numericIds (item # its) pk = numericIds [item] pk @ numericIds its pk"
    by (simp add: numericIds_def)
  with Cons.prems have "\<forall>n \<in> set (numericIds its pk). safeInteger n" by simp
  from Cons.IH [OF this] obtain ks where ks: "numericIds its pk = map (\<lambda>k. Fin (of_int k)) ks"
      "\<forall>k \<in> set ks. \<bar>k\<bar> < 2 ^ 53"
      "insert 0 (set ks) = insert 0 (set (map (idContribution pk) its))"
    by blast
  show ?case
  proof (cases "\<exists>n. getProp item pk = JNum n")
    case True
    then obtain n where n: "getProp item pk = JNum n" by blast
    with Cons.prems app have "safeInteger n" by (simp add: numericIds_def)
    then obtain k where k: "n = Fin (of_int k)" "\<bar>k\<bar> < 2 ^ 53"
      by (rule safeInteger_int)
    have one: "numericIds [item] pk = [Fin (of_int k)]"
      by (simp add: numericIds_def n k)
    have contrib: "idContribution pk item = k"
      by (simp add: idContribution_def n k)
    from ks(3) have "insert 0 (set (k # ks)) = insert 0 (set (map (idContribution pk) (item # its)))"
      by (auto simp: contrib)
    with ks k one app show ?thesis
      by (intro exI [of _ "k # ks"]) simp
  next
    case False
    then have one: "numericIds [item] pk = []"
      by (cases "getProp item pk") (simp_all add: numericIds_def)
    from False have contrib: "idContribution pk item = 0"
      by (cases "getProp item pk") (simp_all add: idContribution_def)
    from ks(3) have "insert 0 (set ks) = insert 0 (set (map (idContribution pk) (item # its)))"
      by (auto simp: contrib)
    with ks one app show ?thesis
      by (intro exI [of _ ks]) simp
  qed
qed

lemma genId_safe:
  assumes "\<forall>n \<in> set (numericIds its pk). safeInteger n"
  shows "genId its pk = Fin (of_int (Max (insert 0 (set (map (idContribution pk) its))) + 1))"
proof -
  from safe_numericIds [OF assms] obtain ks where ks: "numericIds its pk = map (\<lambda>k. Fin (of_int k)) ks"
      "\<forall>k \<in> set ks. \<bar>k\<bar> < 2 ^ 53"
      "insert 0 (set ks) = insert 0 (set (map (idContribution pk) its))"
    by blast
  define M where "M = Max (insert 0 (set ks))"
  have fold: "fold max ks 0 = M"
    using Max.set_eq_fold [of 0 ks] by (simp add: M_def)
  have "M \<in> insert 0 (set ks)"
    unfolding M_def by (rule Max_in) simp_all
  with ks(2) have hi: "M < 2 ^ 53" by auto
  have lo: "0 \<le> M"
    unfolding M_def by (rule Max_ge) simp_all
  from lo hi have "\<bar>M + 1\<bar> \<le> 2 ^ 53" by simp
  then have round: "roundDouble (of_int (M + 1)) = Fin (of_int (M + 1))"
    by (rule roundDouble_int)
  have "foldl (genIdStep pk) (Fin 0) its = Fin (of_int M)"
    using fold_jsMax_ints [of ks 0] by (simp add: foldl_genIdStep ks(1) fold)
  then have "genId its pk = roundDouble (of_int (M + 1))"
    by (simp add: genId_def)
  with round show ?thesis
    by (simp add: M_def ks(3))
qed

text \<open>
  Claim C8, amended. \<^verbatim>\<open>genId\<close> returns 1 for the empty list. When every number held
  under the primary key is a safe integer (an integer below \<open>2\<^sup>5\<^sup>3\<close> in magnitude), it
  returns one more than the maximum of zero and these numbers: an item whose primary key
  is absent or not a number contributes zero, and the maximum starts from zero. When no
  number under the key exceeds zero, in particular when the only numeric keys are
  negative, the result is 1. Beyond the safe integers \<^verbatim>\<open>maxId + 1\<close> is a sum of doubles:
  a key that holds \<^verbatim>\<open>NaN\<close> gives \<^verbatim>\<open>NaN\<close>, and the key \<open>2\<^sup>5\<^sup>3\<close> gives \<open>2\<^sup>5\<^sup>3\<close> again.
\<close>

theorem genId_max_with_zero:
  "genId [] pk = Fin 1
   \<and> ((\<forall>n \<in> set (numericIds its pk). safeInteger n) \<longrightarrow>
        genId its pk = Fin (of_int (Max (insert 0 (set (map (idContribution pk) its))) + 1)))
   \<and> ((\<forall>n \<in> set (numericIds its pk). notAboveZero n) \<longrightarrow> genId its pk = Fin 1)
   \<and> (NaN \<in> set (numericIds its pk) \<longrightarrow> genId its pk = NaN)
   \<and> genId [[(pk, JNum (Fin (2 ^ 53)))]] pk = Fin (2 ^ 53)"
proof -
  have empty: "genId [] pk = Fin 1"
    by (simp add: genId_def)
  have nonpos: "genId its pk = Fin 1" if "\<forall>n \<in> set (numericIds its pk). notAboveZero n"
    using fold_jsMax_zero [OF that] by (simp add: genId_def foldl_genIdStep)
  have nan: "genId its pk = NaN" if "NaN \<in> set (numericIds its pk)"
    using fold_jsMax_has_NaN [OF that] by (simp add: genId_def foldl_genIdStep)
  have "genId [[(pk, JNum (Fin (2 ^ 53)))]] pk = roundDouble (2 ^ 53 + 1)"
    by (simp add: genId_def genIdStep_def getProp_def)
  then have beyond: "genId [[(pk, JNum (Fin (2 ^ 53)))]] pk = Fin (2 ^ 53)"
    by (simp only: roundDouble_beyond)
  from empty genId_safe nonpos nan beyond show ?thesis by blast
qed

text \<open>
  The amended claim at the items with the ids 3, 7 and the string \<^verbatim>\<open>9\<close>, where the next
  id is 8, at a list with one negative and one missing id, where it is 1, and at a list
  with an id \<^verbatim>\<open>NaN\<close>.
\<close>

theorem genId_max_with_zero_witness:
  "genId [[(''id'', JNum (Fin 3))], [(''id'', JNum (Fin 7))], [(''id'', JStr ''9'')]] ''id''
     = Fin 8
   \<and> genId [[(''id'', JNum (Fin (- 5)))], [(''name'', JStr ''x'')]] ''id'' = Fin 1
   \<and> genId [[(''id'', JNum (Fin 3))], [(''id'', JNum NaN)]] ''id'' = NaN"
  using
    genId_max_with_zero
      [of "''id''" "[[(''id'', JNum (Fin 3))], [(''id'', JNum (Fin 7))], [(''id'', JStr ''9'')]]"]
    genId_max_with_zero
      [of "''id''" "[[(''id'', JNum (Fin (- 5)))], [(''name'', JStr ''x'')]]"]
    genId_max_with_zero
      [of "''id''" "[[(''id'', JNum (Fin 3))], [(''id'', JNum NaN)]]"]
  by (simp add: numericIds_def idContribution_def getProp_def)

text \<open>
  Claim C8 as stated fails: for the collection whose only item has the id \<open>-5\<close>, the
  maximum numeric id is \<open>-5\<close>, one more is \<open>-4\<close>, and \<^verbatim>\<open>genId\<close> gives 1.
\<close>

theorem genId_negative_counterexample:
  "numericIds [[(''id'', JNum (Fin (- 5)))]] ''id'' = [Fin (- 5)]
   \<and> jsAdd (Fin (- 5)) (Fin 1) = Fin (- 4)
   \<and> genId [[(''id'', JNum (Fin (- 5)))]] ''id'' = Fin 1
   \<and> genId [[(''id'', JNum (Fin (- 5)))]] ''id'' \<noteq> jsAdd (Fin (- 5)) (Fin 1)"
  by (simp add: numericIds_def genId_def genIdStep_def getProp_def)

section \<open>Properties of the root index\<close>

lemma set_getRootPaths: "set (getRootPaths rts) = rootEntryOf ` set (enumerate 0 rts)"
  by (simp add: getRootPaths_def)

lemma getRootPaths_sorted:
  "sorted_wrt (\<lambda>a b. rootLength b \<le> rootLength a) (getRootPaths rts)"
proof -
  have "sorted (map (\<lambda>e. - int (rootLength e)) (getRootPaths rts))"
    by (simp add: getRootPaths_def)
  then show ?thesis
    by (simp add: sorted_map)
qed

lemma rootEntry_of_index:
  assumes "e \<in> set (getRootPaths rts)"
  shows "rootIndex e < length rts \<and> e = rootEntryOf (rootIndex e, rts ! rootIndex e)
         \<and> rootLength e = length (rootPath e)"
proof -
  from assms obtain i r where ir: "(i, r) \<in> set (enumerate 0 rts)" and e: "e = rootEntryOf (i, r)"
    by (auto simp: set_getRootPaths)
  from ir have "i < length rts" "r = rts ! i"
    by (auto simp: in_set_enumerate_eq)
  with e show ?thesis
    by (simp add: rootEntryOf_def Let_def)
qed

lemma findRouteIndex_find:
  "findRouteIndex es u =
     (case find (\<lambda>e. rootMatches e u) es of None \<Rightarrow> - 1 | Some e \<Rightarrow> int (rootIndex e))"
  by (induction es) (simp_all add: rootMatches_def Let_def)

lemma find_SomeD: "find P xs = Some x \<Longrightarrow> P x \<and> x \<in> set xs"
  by (induction xs) (auto split: if_splits)

lemma find_first_of_sorted:
  assumes sorted: "sorted_wrt R xs" and found: "find P xs = Some w"
      and e: "e \<in> set xs" and pe: "P e"
  shows "e = w \<or> R w e"
proof -
  from found obtain i where i: "i < length xs" "w = xs ! i" "\<forall>j<i. \<not> P (xs ! j)"
    by (auto simp: find_Some_iff)
  from e obtain k where k: "k < length xs" "e = xs ! k"
    by (auto simp: in_set_conv_nth)
  with pe i have "\<not> k < i" by auto
  then consider "k = i" | "i < k" by linarith
  then show ?thesis
  proof cases
    case 1
    with i k show ?thesis by simp
  next
    case 2
    with sorted k i have "R (xs ! i) (xs ! k)"
      by (simp add: sorted_wrt_iff_nth_less)
    with i k show ?thesis by simp
  qed
qed

lemma rootMatches_other_char:
  assumes "rootLength e = length (rootPath e)" and "c \<noteq> CHR ''/''"
  shows "\<not> rootMatches e (rootPath e @ c # rest)"
  using assms by (simp add: rootMatches_def)

lemma declared_entries:
  "set (getRootPaths rts) = declaredEntry rts ` {..<length rts}"
proof -
  have "set (enumerate 0 rts) = (\<lambda>i. (i, rts ! i)) ` {..<length rts}"
    by (auto simp: in_set_enumerate_eq)
  then show ?thesis
    by (simp add: set_getRootPaths image_image declaredEntry_def)
qed

lemma length_getRootPaths: "length (getRootPaths rts) = length rts"
  by (simp add: getRootPaths_def)

lemma declaredEntry_fields:
  "rootPath (declaredEntry rts i)
     = joinWith ''/'' (filterTruthy [host (rts ! i), Some (beforePk (path (rts ! i)))])"
  "rootLength (declaredEntry rts i) = length (rootPath (declaredEntry rts i))"
  "rootIndex (declaredEntry rts i) = i"
  by (simp_all add: declaredEntry_def rootEntryOf_def Let_def)

text \<open>
  Claim C1. For every list of declared routes the root index holds one entry for each
  route, the entry that \<open>declaredEntry\<close> names: its path is the host and the path of the
  route up to the first \<^verbatim>\<open>/:\<close>, its length is the length of that path, its index is the
  position of the route. The index is sorted by descending length. \<^verbatim>\<open>findRouteIndex\<close>
  returns \<open>-1\<close> exactly when the entry of no declared route matches the URL by the
  criterion \<open>rootMatches\<close> (the URL cut to the entry's length plus one is the path or the
  path with a slash); otherwise it returns the position of a declared route whose entry
  matches, and the entry of no declared route that matches is longer. An entry never
  matches a URL that continues its path with a character other than the slash, as
  \<^verbatim>\<open>posts-other/...\<close> continues \<^verbatim>\<open>posts\<close>.
\<close>

theorem findRouteIndex_longest_root:
  "sorted_wrt (\<lambda>a b. rootLength b \<le> rootLength a) (getRootPaths rts)
   \<and> set (getRootPaths rts) = declaredEntry rts ` {..<length rts}
   \<and> length (getRootPaths rts) = length rts
   \<and> (\<forall>i < length rts.
         rootPath (declaredEntry rts i)
           = joinWith ''/'' (filterTruthy [host (rts ! i), Some (beforePk (path (rts ! i)))])
         \<and> rootLength (declaredEntry rts i) = length (rootPath (declaredEntry rts i))
         \<and> rootIndex (declaredEntry rts i) = i)
   \<and> (findRouteIndex (getRootPaths rts) u = - 1
        \<longleftrightarrow> (\<forall>i < length rts. \<not> rootMatches (declaredEntry rts i) u))
   \<and> (findRouteIndex (getRootPaths rts) u \<noteq> - 1 \<longrightarrow>
        (\<exists>k < length rts.
           findRouteIndex (getRootPaths rts) u = int k
           \<and> rootMatches (declaredEntry rts k) u
           \<and> (\<forall>j < length rts. rootMatches (declaredEntry rts j) u \<longrightarrow>
                  rootLength (declaredEntry rts j) \<le> rootLength (declaredEntry rts k))))
   \<and> (\<forall>i < length rts. \<forall>c rest.
          c \<noteq> CHR ''/'' \<longrightarrow>
          \<not> rootMatches (declaredEntry rts i) (rootPath (declaredEntry rts i) @ c # rest))"
proof -
  let ?idx = "getRootPaths rts"
  have srt: "sorted_wrt (\<lambda>a b. rootLength b \<le> rootLength a) ?idx"
    by (rule getRootPaths_sorted)
  have mem: "declaredEntry rts i \<in> set ?idx" if "i < length rts" for i
    using that by (simp add: declared_entries)
  have none: "findRouteIndex ?idx u = - 1
      \<longleftrightarrow> (\<forall>i < length rts. \<not> rootMatches (declaredEntry rts i) u)"
  proof -
    have "findRouteIndex ?idx u = - 1 \<longleftrightarrow> (\<forall>e \<in> set ?idx. \<not> rootMatches e u)"
      by (auto simp: findRouteIndex_find find_None_iff split: option.splits dest: find_SomeD)
    then show ?thesis
      by (auto simp: declared_entries)
  qed
  have some: "\<exists>k < length rts.
           findRouteIndex ?idx u = int k
           \<and> rootMatches (declaredEntry rts k) u
           \<and> (\<forall>j < length rts. rootMatches (declaredEntry rts j) u \<longrightarrow>
                  rootLength (declaredEntry rts j) \<le> rootLength (declaredEntry rts k))"
    if ne: "findRouteIndex ?idx u \<noteq> - 1"
  proof -
    from ne obtain w where w: "find (\<lambda>e. rootMatches e u) ?idx = Some w"
      by (auto simp: findRouteIndex_find split: option.splits)
    then have win: "w \<in> set ?idx" and wm: "rootMatches w u"
      by (auto dest: find_SomeD)
    from win obtain k where k: "k < length rts" "w = declaredEntry rts k"
      by (auto simp: declared_entries)
    have longest: "rootLength (declaredEntry rts j) \<le> rootLength w"
      if "j < length rts" "rootMatches (declaredEntry rts j) u" for j
      using find_first_of_sorted [OF srt w mem [OF that(1)] that(2)] by auto
    from w have "findRouteIndex ?idx u = int (rootIndex w)"
      by (simp add: findRouteIndex_find)
    with k have "findRouteIndex ?idx u = int k"
      by (simp add: declaredEntry_fields)
    with k wm longest show ?thesis
      by blast
  qed
  have other: "\<not> rootMatches (declaredEntry rts i) (rootPath (declaredEntry rts i) @ c # rest)"
    if "c \<noteq> CHR ''/''" for i c rest
    using that by (rule rootMatches_other_char [OF declaredEntry_fields(2)])
  have fields: "\<forall>i < length rts.
         rootPath (declaredEntry rts i)
           = joinWith ''/'' (filterTruthy [host (rts ! i), Some (beforePk (path (rts ! i)))])
         \<and> rootLength (declaredEntry rts i) = length (rootPath (declaredEntry rts i))
         \<and> rootIndex (declaredEntry rts i) = i"
    by (simp only: declaredEntry_fields simp_thms)
  have others: "\<forall>i < length rts. \<forall>c rest.
          c \<noteq> CHR ''/'' \<longrightarrow>
          \<not> rootMatches (declaredEntry rts i) (rootPath (declaredEntry rts i) @ c # rest)"
    using other by blast
  have found: "findRouteIndex ?idx u \<noteq> - 1 \<longrightarrow>
        (\<exists>k < length rts.
           findRouteIndex ?idx u = int k
           \<and> rootMatches (declaredEntry rts k) u
           \<and> (\<forall>j < length rts. rootMatches (declaredEntry rts j) u \<longrightarrow>
                  rootLength (declaredEntry rts j) \<le> rootLength (declaredEntry rts k)))"
    using some by (rule impI)
  note ents = declared_entries [of rts] and len = length_getRootPaths [of rts]
  from srt ents len fields none found others show ?thesis
    by (intro conjI) assumption+
qed

text \<open>
  The roots \<^verbatim>\<open>posts\<close> and \<^verbatim>\<open>posts/featured\<close>: both match the URL \<^verbatim>\<open>posts/featured/1\<close>, the
  longer one is selected; \<^verbatim>\<open>posts\<close> does not match \<^verbatim>\<open>posts-other/123\<close>, which no root owns.
\<close>

theorem findRouteIndex_longest_root_witness:
  "findRouteIndex
     (getRootPaths [Route ''posts/:id'' None None None None [],
                    Route ''posts/featured/:id'' None None None None []])
     ''posts/featured/1'' = 1
   \<and> declaredEntry [Route ''posts/:id'' None None None None [],
                    Route ''posts/featured/:id'' None None None None []] 0
     = \<lparr>rootPath = ''posts'', rootLength = 5, rootIndex = 0\<rparr>
   \<and> declaredEntry [Route ''posts/:id'' None None None None [],
                    Route ''posts/featured/:id'' None None None None []] 1
     = \<lparr>rootPath = ''posts/featured'', rootLength = 14, rootIndex = 1\<rparr>
   \<and> rootMatches \<lparr>rootPath = ''posts'', rootLength = 5, rootIndex = 0\<rparr> ''posts/featured/1''
   \<and> rootMatches \<lparr>rootPath = ''posts/featured'', rootLength = 14, rootIndex = 1\<rparr>
         ''posts/featured/1''
   \<and> \<not> rootMatches \<lparr>rootPath = ''posts'', rootLength = 5, rootIndex = 0\<rparr> ''posts-other/123''
   \<and> findRouteIndex
       (getRootPaths [Route ''posts/:id'' None None None None [],
                      Route ''posts/featured/:id'' None None None None []])
       ''posts-other/123'' = - 1"
  using findRouteIndex_longest_root
          [of "[Route ''posts/:id'' None None None None [],
                Route ''posts/featured/:id'' None None None None []]" "''posts/featured/1''"]
  by (simp add: getRootPaths_def rootEntryOf_def rootMatches_def declaredEntry_def)

section \<open>Properties of the dry match\<close>

lemma splitOn_nonempty: "splitOn c s \<noteq> []"
  by (induction s) (auto split: list.splits)

lemma lastOpt_splitOn: "lastOpt (splitOn c s) = Some (last (splitOn c s))"
  by (simp add: lastOpt_def splitOn_nonempty)

lemma setRouteDryMatch_node:
  "setRouteDryMatch sUrl rt p rts acc =
     (if int (length sUrl) > int (length (nodeSegments rt p)) then
        fold (\<lambda>child a. setRouteDryMatch sUrl child (Some (nodePath rt p))
                (Some (nodeChain rt rts)) a) (children rt) acc
      else if int (length sUrl) < int (length (nodeSegments rt p)) - 1 then acc
      else if int (length sUrl) = int (length (nodeSegments rt p)) - 1 then
        (if startsWithColon (last (nodeSegments rt p)) then
           acc @ [\<lparr>splitedUrl = sUrl, splitedRoute = butlast (nodeSegments rt p),
                   hasLastRestId = False,
                   lastPrimaryKey = drop 1 (last (nodeSegments rt p)),
                   routes = nodeChain rt rts\<rparr>]
         else acc)
      else
        (if startsWithColon (last (nodeSegments rt p)) then
           acc @ [\<lparr>splitedUrl = sUrl, splitedRoute = nodeSegments rt p,
                   hasLastRestId = True,
                   lastPrimaryKey = drop 1 (last (nodeSegments rt p)),
                   routes = nodeChain rt rts\<rparr>]
         else
           acc @ [\<lparr>splitedUrl = sUrl, splitedRoute = nodeSegments rt p,
                   hasLastRestId = False, lastPrimaryKey = [],
                   routes = nodeChain rt rts\<rparr>]))"
  by (cases rt)
     (simp only: setRouteDryMatch.simps Let_def nodeSegments_def nodePath_def nodeChain_def
        lastOpt_splitOn option.case route.sel)

declare setRouteDryMatch.simps [simp del]

lemma fold_append_acc:
  assumes "\<And>x a. x \<in> set xs \<Longrightarrow> f x a = a @ f x []"
  shows "fold f xs acc = acc @ concat (map (\<lambda>x. f x []) xs)"
  using assms
proof (induction xs arbitrary: acc)
  case Nil
  show ?case by simp
next
  case (Cons x xs)
  have "fold f (x # xs) acc = fold f xs (f x acc)" by simp
  also have "\<dots> = f x acc @ concat (map (\<lambda>x. f x []) xs)"
    by (rule Cons.IH) (rule Cons.prems, simp)
  also have "f x acc = acc @ f x []"
    by (rule Cons.prems) simp
  finally show ?case by simp
qed

lemma setRouteDryMatch_acc:
  "setRouteDryMatch sUrl rt p rts acc = acc @ setRouteDryMatch sUrl rt p rts []"
proof (induction rt arbitrary: p rts acc)
  case (Route pth h dc pl rc cs)
  let ?rt = "Route pth h dc pl rc cs"
  let ?f = "\<lambda>child a. setRouteDryMatch sUrl child (Some (nodePath ?rt p))
                (Some (nodeChain ?rt rts)) a"
  have kids: "fold ?f cs a = a @ concat (map (\<lambda>x. ?f x []) cs)" for a
    by (rule fold_append_acc) (rule Route.IH)
  show ?case
    by (subst (1 2) setRouteDryMatch_node) (simp add: kids [of acc] kids [of "[]"])
qed

lemma setRouteDryMatch_chain:
  "m \<in> set (setRouteDryMatch sUrl rt p rts []) \<Longrightarrow> \<exists>sfx. routes m = nodeChain rt rts @ sfx"
proof (induction rt arbitrary: p rts m)
  case (Route pth h dc pl rc cs)
  let ?rt = "Route pth h dc pl rc cs"
  let ?f = "\<lambda>child a. setRouteDryMatch sUrl child (Some (nodePath ?rt p))
                (Some (nodeChain ?rt rts)) a"
  have "fold ?f cs [] = [] @ concat (map (\<lambda>x. ?f x []) cs)"
    by (rule fold_append_acc) (rule setRouteDryMatch_acc)
  then have kids: "fold ?f cs [] = concat (map (\<lambda>x. ?f x []) cs)"
    by simp
  show ?case
  proof (cases "int (length sUrl) > int (length (nodeSegments ?rt p))")
    case True
    with Route.prems have "m \<in> set (fold ?f cs [])"
      by (subst (asm) setRouteDryMatch_node) simp
    then obtain child where child: "child \<in> set cs" and m: "m \<in> set (?f child [])"
      by (auto simp: kids)
    from Route.IH [OF child m] obtain sfx
      where "routes m = nodeChain child (Some (nodeChain ?rt rts)) @ sfx" by blast
    then have "routes m = nodeChain ?rt rts @ (child # sfx)"
      by (simp add: nodeChain_def)
    then show ?thesis by blast
  next
    case False
    with Route.prems have "routes m = nodeChain ?rt rts"
      by (subst (asm) setRouteDryMatch_node) (auto split: if_splits)
    then show ?thesis by simp
  qed
qed

lemma setRouteDryMatch_deeper:
  assumes deeper: "int (length sUrl) > int (length (nodeSegments rt p))"
      and m: "m \<in> set (setRouteDryMatch sUrl rt p rts [])"
  shows "\<exists>child sfx. child \<in> set (children rt) \<and> routes m = nodeChain rt rts @ child # sfx"
proof -
  let ?f = "\<lambda>child a. setRouteDryMatch sUrl child (Some (nodePath rt p))
                (Some (nodeChain rt rts)) a"
  have "fold ?f (children rt) [] = [] @ concat (map (\<lambda>x. ?f x []) (children rt))"
    by (rule fold_append_acc) (rule setRouteDryMatch_acc)
  then have kids: "fold ?f (children rt) [] = concat (map (\<lambda>x. ?f x []) (children rt))"
    by simp
  from m deeper have "m \<in> set (fold ?f (children rt) [])"
    by (subst (asm) setRouteDryMatch_node) simp
  then obtain child where child: "child \<in> set (children rt)" and mc: "m \<in> set (?f child [])"
    by (auto simp: kids)
  from setRouteDryMatch_chain [OF mc] obtain sfx
    where "routes m = nodeChain child (Some (nodeChain rt rts)) @ sfx" by blast
  then have "routes m = nodeChain rt rts @ child # sfx"
    by (simp add: nodeChain_def)
  with child show ?thesis by blast
qed


text \<open>
  Claim C2. A visited node compares the number of URL segments with the number of
  segments of its accumulated path. With more URL segments it only visits its children,
  in order, and every candidate that comes out of the visit has a chain of routes that
  goes on below this node: nothing is emitted at this level. With fewer than the count
  minus one it emits nothing. With exactly the count minus one it emits a candidate
  without trailing id when the last route segment starts with a colon (the name after the
  colon is the trailing primary key, and the candidate's route segments are those before
  it), and nothing otherwise. With equal counts it always emits a candidate, whose
  trailing id is bound exactly when the last route segment starts with a colon.
  \<^verbatim>\<open>getRouteDryMatch\<close> is the visit of the root route with an empty array.
\<close>

theorem setRouteDryMatch_four_cases:
  "(int (length sUrl) > int (length (nodeSegments rt p)) \<longrightarrow>
      setRouteDryMatch sUrl rt p rts acc =
        fold (\<lambda>child a. setRouteDryMatch sUrl child (Some (nodePath rt p))
                (Some (nodeChain rt rts)) a) (children rt) acc
      \<and> (\<exists>new. setRouteDryMatch sUrl rt p rts acc = acc @ new
            \<and> (\<forall>m \<in> set new. \<exists>child sfx. child \<in> set (children rt)
                    \<and> routes m = nodeChain rt rts @ child # sfx)))
   \<and> (int (length sUrl) < int (length (nodeSegments rt p)) - 1 \<longrightarrow>
        setRouteDryMatch sUrl rt p rts acc = acc)
   \<and> (int (length sUrl) = int (length (nodeSegments rt p)) - 1 \<longrightarrow>
        setRouteDryMatch sUrl rt p rts acc =
          (if startsWithColon (last (nodeSegments rt p)) then
             acc @ [\<lparr>splitedUrl = sUrl, splitedRoute = butlast (nodeSegments rt p),
                     hasLastRestId = False,
                     lastPrimaryKey = drop 1 (last (nodeSegments rt p)),
                     routes = nodeChain rt rts\<rparr>]
           else acc))
   \<and> (int (length sUrl) = int (length (nodeSegments rt p)) \<longrightarrow>
        setRouteDryMatch sUrl rt p rts acc =
          acc @ [\<lparr>splitedUrl = sUrl, splitedRoute = nodeSegments rt p,
                  hasLastRestId = startsWithColon (last (nodeSegments rt p)),
                  lastPrimaryKey = (if startsWithColon (last (nodeSegments rt p))
                                    then drop 1 (last (nodeSegments rt p)) else []),
                  routes = nodeChain rt rts\<rparr>])
   \<and> getRouteDryMatch u rt =
       setRouteDryMatch (splitOn CHR ''/'' u) rt
         (Some (case host rt of None \<Rightarrow> [] | Some x \<Rightarrow> x)) None []"
proof -
  let ?cu = "int (length sUrl)" and ?cr = "int (length (nodeSegments rt p))"
  let ?visit = "setRouteDryMatch sUrl rt p rts"
  have deeper: "?visit acc =
        fold (\<lambda>child a. setRouteDryMatch sUrl child (Some (nodePath rt p))
                (Some (nodeChain rt rts)) a) (children rt) acc
      \<and> (\<exists>new. ?visit acc = acc @ new
            \<and> (\<forall>m \<in> set new. \<exists>child sfx. child \<in> set (children rt)
                    \<and> routes m = nodeChain rt rts @ child # sfx))"
    if gt: "?cu > ?cr"
  proof
    from gt show "?visit acc =
        fold (\<lambda>child a. setRouteDryMatch sUrl child (Some (nodePath rt p))
                (Some (nodeChain rt rts)) a) (children rt) acc"
      by (subst setRouteDryMatch_node) simp
    have "?visit acc = acc @ ?visit []"
      by (rule setRouteDryMatch_acc)
    moreover have "\<forall>m \<in> set (?visit []). \<exists>child sfx. child \<in> set (children rt)
                    \<and> routes m = nodeChain rt rts @ child # sfx"
      using setRouteDryMatch_deeper [OF gt] by blast
    ultimately show "\<exists>new. ?visit acc = acc @ new
            \<and> (\<forall>m \<in> set new. \<exists>child sfx. child \<in> set (children rt)
                    \<and> routes m = nodeChain rt rts @ child # sfx)"
      by blast
  qed
  have shorter: "?visit acc = acc" if "?cu < ?cr - 1"
    using that by (subst setRouteDryMatch_node) simp
  have coll: "?visit acc =
          (if startsWithColon (last (nodeSegments rt p)) then
             acc @ [\<lparr>splitedUrl = sUrl, splitedRoute = butlast (nodeSegments rt p),
                     hasLastRestId = False,
                     lastPrimaryKey = drop 1 (last (nodeSegments rt p)),
                     routes = nodeChain rt rts\<rparr>]
           else acc)" if "?cu = ?cr - 1"
    using that by (subst setRouteDryMatch_node) simp
  have equal: "?visit acc =
          acc @ [\<lparr>splitedUrl = sUrl, splitedRoute = nodeSegments rt p,
                  hasLastRestId = startsWithColon (last (nodeSegments rt p)),
                  lastPrimaryKey = (if startsWithColon (last (nodeSegments rt p))
                                    then drop 1 (last (nodeSegments rt p)) else []),
                  routes = nodeChain rt rts\<rparr>]" if "?cu = ?cr"
    using that by (subst setRouteDryMatch_node) simp
  have root: "getRouteDryMatch u rt =
       setRouteDryMatch (splitOn CHR ''/'' u) rt
         (Some (case host rt of None \<Rightarrow> [] | Some x \<Rightarrow> x)) None []"
    by (simp add: getRouteDryMatch_def)
  from deeper shorter coll equal root show ?thesis by blast
qed

text \<open>
  The four cases on the route \<^verbatim>\<open>api/posts/:postId\<close> with the child
  \<^verbatim>\<open>comments/:commentId\<close>: the URL \<^verbatim>\<open>api/posts/7/comments\<close> is deeper than the root and one
  short of the child, \<^verbatim>\<open>api/posts/7\<close> has the root's count, \<^verbatim>\<open>api/posts\<close> is one short of it,
  and \<^verbatim>\<open>api\<close> is too short.
\<close>

theorem setRouteDryMatch_four_cases_witness:
  "getRouteDryMatch ''api/posts/7/comments''
     (Route ''api/posts/:postId'' None None None None
        [Route ''comments/:commentId'' None None None None []])
   = [\<lparr>splitedUrl = [''api'', ''posts'', ''7'', ''comments''],
       splitedRoute = [''api'', ''posts'', '':postId'', ''comments''],
       hasLastRestId = False, lastPrimaryKey = ''commentId'',
       routes = [Route ''api/posts/:postId'' None None None None
                   [Route ''comments/:commentId'' None None None None []],
                 Route ''comments/:commentId'' None None None None []]\<rparr>]
   \<and> getRouteDryMatch ''api/posts/7'' (Route ''api/posts/:postId'' None None None None [])
     = [\<lparr>splitedUrl = [''api'', ''posts'', ''7''],
         splitedRoute = [''api'', ''posts'', '':postId''],
         hasLastRestId = True, lastPrimaryKey = ''postId'',
         routes = [Route ''api/posts/:postId'' None None None None []]\<rparr>]
   \<and> getRouteDryMatch ''api/posts'' (Route ''api/posts/:postId'' None None None None [])
     = [\<lparr>splitedUrl = [''api'', ''posts''],
         splitedRoute = [''api'', ''posts''],
         hasLastRestId = False, lastPrimaryKey = ''postId'',
         routes = [Route ''api/posts/:postId'' None None None None []]\<rparr>]
   \<and> getRouteDryMatch ''api'' (Route ''api/posts/:postId'' None None None None []) = []"
  using
    setRouteDryMatch_four_cases
      [where sUrl = "[''api'', ''posts'', ''7'', ''comments'']"
         and rt = "Route ''api/posts/:postId'' None None None None
                     [Route ''comments/:commentId'' None None None None []]"
         and p = "Some []" and rts = None and acc = "[]" and u = "''api/posts/7/comments''"]
    setRouteDryMatch_four_cases
      [where sUrl = "[''api'', ''posts'', ''7'', ''comments'']"
         and rt = "Route ''comments/:commentId'' None None None None []"
         and p = "Some ''api/posts/:postId''"
         and rts = "Some [Route ''api/posts/:postId'' None None None None
                            [Route ''comments/:commentId'' None None None None []]]"
         and acc = "[]" and u = "[]"]
    setRouteDryMatch_four_cases
      [where sUrl = "[''api'', ''posts'', ''7'']"
         and rt = "Route ''api/posts/:postId'' None None None None []"
         and p = "Some []" and rts = None and acc = "[]" and u = "''api/posts/7''"]
    setRouteDryMatch_four_cases
      [where sUrl = "[''api'', ''posts'']"
         and rt = "Route ''api/posts/:postId'' None None None None []"
         and p = "Some []" and rts = None and acc = "[]" and u = "''api/posts''"]
    setRouteDryMatch_four_cases
      [where sUrl = "[''api'']"
         and rt = "Route ''api/posts/:postId'' None None None None []"
         and p = "Some []" and rts = None and acc = "[]" and u = "''api''"]
  by (simp add: nodeSegments_def nodePath_def nodeChain_def)

section \<open>Properties of the chain of resources\<close>

lemma filter_upt_snoc:
  "filter (\<lambda>i. P ((xs @ [x]) ! i)) [0..<length xs] = filter (\<lambda>i. P (xs ! i)) [0..<length xs]"
  by (rule filter_cong) (auto simp: nth_append)

lemma tokenPositions_snoc:
  "tokenPositions (xs @ [x]) = tokenPositions xs @ (if startsWithColon x then [length xs] else [])"
  by (simp add: tokenPositions_def filter_upt_snoc)

lemma literalPositions_snoc:
  "literalPositions (xs @ [x]) = literalPositions xs @ (if startsWithColon x then [] else [length xs])"
  by (simp add: literalPositions_def filter_upt_snoc [where P = "\<lambda>s. \<not> startsWithColon s"])

lemma tokenPositions_less: "i \<in> set (tokenPositions xs) \<Longrightarrow> i < length xs"
  by (simp add: tokenPositions_def)

lemma literalPositions_less: "i \<in> set (literalPositions xs) \<Longrightarrow> i < length xs"
  by (simp add: literalPositions_def)

lemma tokenLink_snoc:
  "map (tokenLink sUrl (xs @ [x]) rts) (enumerate 0 (tokenPositions xs))
   = map (tokenLink sUrl xs rts) (enumerate 0 (tokenPositions xs))"
proof (rule map_cong [OF refl])
  fix ki assume "ki \<in> set (enumerate 0 (tokenPositions xs))"
  then have "fst ki < length (tokenPositions xs)" "snd ki = tokenPositions xs ! fst ki"
    by (simp_all add: in_set_enumerate_eq)
  then have "snd ki \<in> set (tokenPositions xs)"
    by simp
  then have "snd ki < length xs"
    by (rule tokenPositions_less)
  then show "tokenLink sUrl (xs @ [x]) rts ki = tokenLink sUrl xs rts ki"
    by (simp add: tokenLink_def nth_append)
qed

lemma fold_chainStep:
  "fold (chainStep sUrl rts) (enumerate 0 sRoute) ([], [], [])
   = (map (tokenLink sUrl sRoute rts) (enumerate 0 (tokenPositions sRoute)),
      map (nthOpt sUrl) (literalPositions sRoute),
      map (\<lambda>i. sRoute ! i) (literalPositions sRoute))"
proof (induction sRoute rule: rev_induct)
  case Nil
  show ?case by (simp add: tokenPositions_def literalPositions_def)
next
  case (snoc x xs)
  have lit: "map (\<lambda>i. (xs @ [x]) ! i) (literalPositions xs) = map (\<lambda>i. xs ! i) (literalPositions xs)"
    by (rule map_cong [OF refl]) (simp add: nth_append literalPositions_less)
  have step: "fold (chainStep sUrl rts) (enumerate 0 (xs @ [x])) ([], [], [])
      = chainStep sUrl rts (length xs, x)
          (map (tokenLink sUrl xs rts) (enumerate 0 (tokenPositions xs)),
           map (nthOpt sUrl) (literalPositions xs),
           map (\<lambda>i. xs ! i) (literalPositions xs))"
    by (simp add: enumerate_append_eq snoc.IH)
  show ?case
  proof (cases "startsWithColon x")
    case True
    then show ?thesis
      by (subst step)
         (simp add: chainStep_def tokenPositions_snoc literalPositions_snoc
            tokenLink_snoc lit enumerate_append_eq, simp add: tokenLink_def)
  next
    case False
    then show ?thesis
      by (subst step)
         (simp add: chainStep_def tokenPositions_snoc literalPositions_snoc
            tokenLink_snoc lit)
  qed
qed

lemma getChainParams_links:
  "getChainParams m = (if literalRoute m = literalUrl m then Some (chainLinks m) else None)"
  by (simp add: getChainParams_def fold_chainStep chainLinks_def finalLink_def
        literalRoute_def literalUrl_def joinOpt_def)


lemma chainLinks_last_token:
  assumes ne: "splitedRoute m \<noteq> []" and colon: "startsWithColon (last (splitedRoute m))"
      and has: "hasLastRestId m"
  shows "chainLinks m \<noteq> [] \<and>
         restId (last (chainLinks m)) = segmentId (splitedUrl m) (length (splitedRoute m) - 1)"
proof -
  from ne obtain ys y where sr: "splitedRoute m = ys @ [y]"
    by (metis append_butlast_last_id)
  with colon have y: "startsWithColon y" by simp
  have tps: "tokenPositions (splitedRoute m) = tokenPositions ys @ [length ys]"
    by (simp add: sr tokenPositions_snoc y)
  have "chainLinks m =
      map (tokenLink (splitedUrl m) (splitedRoute m) (routes m)) (enumerate 0 (tokenPositions ys))
      @ [tokenLink (splitedUrl m) (splitedRoute m) (routes m)
           (length (tokenPositions ys), length ys)]"
    by (simp add: chainLinks_def has tps enumerate_append_eq)
  then show ?thesis
    by (simp add: tokenLink_def sr)
qed

lemma segmentId_last:
  assumes "sUrl \<noteq> []" and "last sUrl \<noteq> []"
  shows "segmentId sUrl (length sUrl - 1) = Some (last sUrl)"
  using assms by (simp add: segmentId_def nthOpt_def last_conv_nth)

lemma setRouteDryMatch_trailing:
  assumes "m \<in> set (setRouteDryMatch sUrl rt p rts [])" and "hasLastRestId m"
  shows "splitedUrl m = sUrl \<and> length (splitedRoute m) = length sUrl
         \<and> splitedRoute m \<noteq> [] \<and> startsWithColon (last (splitedRoute m))"
  using assms
proof (induction rt arbitrary: p rts)
  case (Route pth h dc pl rc cs)
  let ?rt = "Route pth h dc pl rc cs"
  let ?f = "\<lambda>child a. setRouteDryMatch sUrl child (Some (nodePath ?rt p))
                (Some (nodeChain ?rt rts)) a"
  have "fold ?f cs [] = [] @ concat (map (\<lambda>x. ?f x []) cs)"
    by (rule fold_append_acc) (rule setRouteDryMatch_acc)
  then have kids: "fold ?f cs [] = concat (map (\<lambda>x. ?f x []) cs)"
    by simp
  show ?case
  proof (cases "int (length sUrl) > int (length (nodeSegments ?rt p))")
    case True
    with Route.prems have "m \<in> set (fold ?f cs [])"
      by (subst (asm) setRouteDryMatch_node) simp
    then obtain child where child: "child \<in> set cs" and m: "m \<in> set (?f child [])"
      by (auto simp: kids)
    from Route.IH [OF child m Route.prems(2)] show ?thesis .
  next
    case False
    have "nodeSegments ?rt p \<noteq> []"
      by (simp add: nodeSegments_def splitOn_nonempty)
    with False Route.prems show ?thesis
      by (subst (asm) setRouteDryMatch_node) (auto split: if_splits)
  qed
qed


text \<open>
  Claim C3, amended. \<^verbatim>\<open>getChainParams\<close> returns a chain exactly when the URL segments
  at the positions of the literal route segments, joined by slashes, are those literal
  route segments joined by slashes; the chain is then \<open>chainLinks\<close>. In it every primary
  key token, at its position \<open>i\<close>, gives a link whose cache key is the URL segments before
  \<open>i\<close> joined by slashes and whose resource id is the URL segment at \<open>i\<close> when that segment
  exists and is not empty, and is absent otherwise. A candidate without trailing id gets
  one more link, the last, with the whole URL as cache key and no resource id. For every
  candidate of the dry match with a trailing id, when the last segment of the URL is not
  empty, the last link's resource id is that segment.
\<close>

theorem getChainParams_resolves:
  "(getChainParams m \<noteq> None \<longleftrightarrow> literalUrl m = literalRoute m)
   \<and> (literalUrl m = literalRoute m \<longrightarrow> getChainParams m = Some (chainLinks m))
   \<and> (\<forall>ki \<in> set (enumerate 0 (tokenPositions (splitedRoute m))).
          startsWithColon (splitedRoute m ! snd ki)
          \<and> cacheKey (tokenLink (splitedUrl m) (splitedRoute m) (routes m) ki)
              = joinWith ''/'' (take (snd ki) (splitedUrl m))
          \<and> restId (tokenLink (splitedUrl m) (splitedRoute m) (routes m) ki)
              = (if snd ki < length (splitedUrl m) \<and> splitedUrl m ! snd ki \<noteq> []
                 then Some (splitedUrl m ! snd ki) else None))
   \<and> (\<not> hasLastRestId m \<longrightarrow>
          chainLinks m \<noteq> []
          \<and> cacheKey (last (chainLinks m)) = joinWith ''/'' (splitedUrl m)
          \<and> restId (last (chainLinks m)) = None)
   \<and> (\<forall>c \<in> set (getRouteDryMatch u rt).
          hasLastRestId c \<and> last (splitOn CHR ''/'' u) \<noteq> [] \<longrightarrow>
            chainLinks c \<noteq> []
            \<and> restId (last (chainLinks c)) = Some (last (splitOn CHR ''/'' u)))"
proof -
  have accept: "getChainParams m \<noteq> None \<longleftrightarrow> literalUrl m = literalRoute m"
    by (auto simp: getChainParams_links)
  have chain: "getChainParams m = Some (chainLinks m)" if "literalUrl m = literalRoute m"
    using that by (simp add: getChainParams_links)
  have token: "startsWithColon (splitedRoute m ! snd ki)
          \<and> cacheKey (tokenLink (splitedUrl m) (splitedRoute m) (routes m) ki)
              = joinWith ''/'' (take (snd ki) (splitedUrl m))
          \<and> restId (tokenLink (splitedUrl m) (splitedRoute m) (routes m) ki)
              = (if snd ki < length (splitedUrl m) \<and> splitedUrl m ! snd ki \<noteq> []
                 then Some (splitedUrl m ! snd ki) else None)"
    if ki: "ki \<in> set (enumerate 0 (tokenPositions (splitedRoute m)))" for ki
  proof -
    from ki have "fst ki < length (tokenPositions (splitedRoute m))"
      "snd ki = tokenPositions (splitedRoute m) ! fst ki"
      by (simp_all add: in_set_enumerate_eq)
    then have "snd ki \<in> set (tokenPositions (splitedRoute m))"
      by simp
    then have "startsWithColon (splitedRoute m ! snd ki)"
      by (simp add: tokenPositions_def)
    then show ?thesis
      by (simp add: tokenLink_def segmentId_def nthOpt_def)
  qed
  have final: "chainLinks m \<noteq> []
          \<and> cacheKey (last (chainLinks m)) = joinWith ''/'' (splitedUrl m)
          \<and> restId (last (chainLinks m)) = None" if "\<not> hasLastRestId m"
    using that by (simp add: chainLinks_def finalLink_def)
  have trailing: "chainLinks c \<noteq> []
            \<and> restId (last (chainLinks c)) = Some (last (splitOn CHR ''/'' u))"
    if c: "c \<in> set (getRouteDryMatch u rt)" and has: "hasLastRestId c"
      and seg: "last (splitOn CHR ''/'' u) \<noteq> []" for c
  proof -
    from c have "c \<in> set (setRouteDryMatch (splitOn CHR ''/'' u) rt
         (Some (case host rt of None \<Rightarrow> [] | Some x \<Rightarrow> x)) None [])"
      by (simp add: getRouteDryMatch_def)
    from setRouteDryMatch_trailing [OF this has]
    have su: "splitedUrl c = splitOn CHR ''/'' u"
      and len: "length (splitedRoute c) = length (splitOn CHR ''/'' u)"
      and ne: "splitedRoute c \<noteq> []" and colon: "startsWithColon (last (splitedRoute c))"
      by simp_all
    from chainLinks_last_token [OF ne colon has]
    have "chainLinks c \<noteq> []"
      and "restId (last (chainLinks c)) = segmentId (splitedUrl c) (length (splitedRoute c) - 1)"
      by simp_all
    moreover have "segmentId (splitedUrl c) (length (splitedRoute c) - 1)
        = Some (last (splitOn CHR ''/'' u))"
      using segmentId_last [of "splitOn CHR ''/'' u"] seg
      by (simp add: su len splitOn_nonempty)
    ultimately show ?thesis by simp
  qed
  from accept chain token final trailing show ?thesis by blast
qed

text \<open>
  The item URL \<^verbatim>\<open>api/posts/7/comments/9\<close> and the collection URL \<^verbatim>\<open>api/posts\<close> resolve; a
  candidate whose literal segment differs (\<^verbatim>\<open>api/other\<close> against \<^verbatim>\<open>api/posts\<close>) does not.
\<close>

theorem getChainParams_resolves_witness:
  "getChainParams
     \<lparr>splitedUrl = [''api'', ''posts'', ''7'', ''comments'', ''9''],
      splitedRoute = [''api'', ''posts'', '':postId'', ''comments'', '':commentId''],
      hasLastRestId = True, lastPrimaryKey = ''commentId'',
      routes = [Route ''api/posts/:postId'' None None None None
                  [Route ''comments/:commentId'' None None None None []],
                Route ''comments/:commentId'' None None None None []]\<rparr>
   = Some [\<lparr>cacheKey = ''api/posts'', primaryKey = ''postId'', restId = Some ''7'',
             route = Some (Route ''api/posts/:postId'' None None None None
                             [Route ''comments/:commentId'' None None None None []])\<rparr>,
           \<lparr>cacheKey = ''api/posts/7/comments'', primaryKey = ''commentId'',
             restId = Some ''9'',
             route = Some (Route ''comments/:commentId'' None None None None [])\<rparr>]
   \<and> getChainParams
       \<lparr>splitedUrl = [''api'', ''posts''], splitedRoute = [''api'', ''posts''],
        hasLastRestId = False, lastPrimaryKey = ''postId'',
        routes = [Route ''api/posts/:postId'' None None None None []]\<rparr>
     = Some [\<lparr>cacheKey = ''api/posts'', primaryKey = ''postId'', restId = None,
               route = Some (Route ''api/posts/:postId'' None None None None [])\<rparr>]
   \<and> getChainParams
       \<lparr>splitedUrl = [''api'', ''other''], splitedRoute = [''api'', ''posts''],
        hasLastRestId = False, lastPrimaryKey = ''postId'',
        routes = [Route ''api/posts/:postId'' None None None None []]\<rparr>
     = None"
  using
    getChainParams_resolves
      [where m = "\<lparr>splitedUrl = [''api'', ''posts'', ''7'', ''comments'', ''9''],
                   splitedRoute = [''api'', ''posts'', '':postId'', ''comments'', '':commentId''],
                   hasLastRestId = True, lastPrimaryKey = ''commentId'',
                   routes = [Route ''api/posts/:postId'' None None None None
                               [Route ''comments/:commentId'' None None None None []],
                             Route ''comments/:commentId'' None None None None []]\<rparr>"
         and u = "''api/posts/7/comments/9''"
         and rt = "Route ''api/posts/:postId'' None None None None
                     [Route ''comments/:commentId'' None None None None []]"]
    getChainParams_resolves
      [where m = "\<lparr>splitedUrl = [''api'', ''posts''], splitedRoute = [''api'', ''posts''],
                   hasLastRestId = False, lastPrimaryKey = ''postId'',
                   routes = [Route ''api/posts/:postId'' None None None None []]\<rparr>"
         and u = "''api/posts''"
         and rt = "Route ''api/posts/:postId'' None None None None []"]
    getChainParams_resolves
      [where m = "\<lparr>splitedUrl = [''api'', ''other''], splitedRoute = [''api'', ''posts''],
                   hasLastRestId = False, lastPrimaryKey = ''postId'',
                   routes = [Route ''api/posts/:postId'' None None None None []]\<rparr>"
         and u = "''api/other''"
         and rt = "Route ''api/posts/:postId'' None None None None []"]
  by (simp add: chainLinks_def tokenPositions_def literalPositions_def tokenLink_def
        finalLink_def literalUrl_def literalRoute_def joinOpt_def segmentId_def nthOpt_def
        lastOpt_def getRouteDryMatch_def setRouteDryMatch.simps)

text \<open>
  Claim C3 as stated fails on a URL with an empty trailing segment. \<^verbatim>\<open>posts/\<close> matches
  the route \<^verbatim>\<open>posts/:id\<close> with a trailing id, and the chain has one link, but its resource
  id is absent (\<^verbatim>\<open>splitedUrl[i] || undefined\<close>), not the empty segment of the URL.
\<close>

theorem getChainParams_empty_segment_counterexample:
  "getRouteDryMatch ''posts/'' (Route ''posts/:id'' None None None None [])
   = [\<lparr>splitedUrl = [''posts'', []], splitedRoute = [''posts'', '':id''],
       hasLastRestId = True, lastPrimaryKey = ''id'',
       routes = [Route ''posts/:id'' None None None None []]\<rparr>]
   \<and> getChainParams
       \<lparr>splitedUrl = [''posts'', []], splitedRoute = [''posts'', '':id''],
        hasLastRestId = True, lastPrimaryKey = ''id'',
        routes = [Route ''posts/:id'' None None None None []]\<rparr>
     = Some [\<lparr>cacheKey = ''posts'', primaryKey = ''id'', restId = None,
               route = Some (Route ''posts/:id'' None None None None [])\<rparr>]
   \<and> restId \<lparr>cacheKey = ''posts'', primaryKey = ''id'', restId = None,
               route = Some (Route ''posts/:id'' None None None None [])\<rparr>
       \<noteq> Some ([''posts'', []] ! 1)
   \<and> restId \<lparr>cacheKey = ''posts'', primaryKey = ''id'', restId = None,
               route = Some (Route ''posts/:id'' None None None None [])\<rparr>
       \<noteq> Some (last (splitOn CHR ''/'' ''posts/''))"
  by (simp add: getRouteDryMatch_def setRouteDryMatch.simps lastOpt_def getChainParams_def
        chainStep_def segmentId_def nthOpt_def joinOpt_def)

section \<open>Properties of DELETE\<close>

lemma findIndex_lower: "- 1 \<le> findIndex P xs"
  by (induction xs) (auto simp: Let_def)

lemma findIndex_none: "findIndex P xs = - 1 \<longleftrightarrow> (\<forall>x \<in> set xs. \<not> P x)"
proof (induction xs)
  case Nil
  show ?case by simp
next
  case (Cons x xs)
  from findIndex_lower [of P xs] have "findIndex P xs + 1 \<noteq> - 1" by simp
  with Cons show ?case by (auto simp: Let_def)
qed

lemma findIndex_found:
  "findIndex P xs \<noteq> - 1 \<Longrightarrow>
     0 \<le> findIndex P xs \<and> nat (findIndex P xs) < length xs \<and> P (xs ! nat (findIndex P xs))
     \<and> (\<forall>j < nat (findIndex P xs). \<not> P (xs ! j))"
proof (induction xs)
  case Nil
  then show ?case by simp
next
  case (Cons x xs)
  show ?case
  proof (cases "P x")
    case True
    then show ?thesis by simp
  next
    case False
    with Cons.prems have ne: "findIndex P xs \<noteq> - 1"
      by (auto simp: Let_def split: if_splits)
    with False have eq: "findIndex P (x # xs) = findIndex P xs + 1"
      by (simp add: Let_def)
    from Cons.IH [OF ne] have ih: "0 \<le> findIndex P xs" "nat (findIndex P xs) < length xs"
      "P (xs ! nat (findIndex P xs))" "\<forall>j < nat (findIndex P xs). \<not> P (xs ! j)"
      by simp_all
    from ih(1) have nat_eq: "nat (findIndex P xs + 1) = Suc (nat (findIndex P xs))"
      by simp
    show ?thesis
      using ih False by (auto simp: eq nat_eq nth_Cons split: nat.splits)
  qed
qed

lemma splice1_removeFirst:
  "findIndex P xs \<noteq> - 1 \<Longrightarrow> splice1 (nat (findIndex P xs)) xs = removeFirst P xs"
proof (induction xs)
  case Nil
  then show ?case by simp
next
  case (Cons x xs)
  show ?case
  proof (cases "P x")
    case True
    then show ?thesis by (simp add: splice1_def)
  next
    case False
    with Cons.prems have ne: "findIndex P xs \<noteq> - 1"
      by (auto simp: Let_def split: if_splits)
    with False have eq: "findIndex P (x # xs) = findIndex P xs + 1"
      by (simp add: Let_def)
    from findIndex_found [OF ne] have "0 \<le> findIndex P xs" by simp
    then have nat_eq: "nat (findIndex P xs + 1) = Suc (nat (findIndex P xs))"
      by simp
    from Cons.IH [OF ne] False show ?thesis
      by (simp add: eq nat_eq splice1_def del: findIndex.simps)
  qed
qed

lemma looseMatch_fun: "looseMatch js pk v = (\<lambda>item. looseEq js (getProp item pk) v)"
  by (simp add: fun_eq_iff looseMatch_def)

lemma removeFirst_none: "(\<forall>x \<in> set xs. \<not> P x) \<Longrightarrow> removeFirst P xs = xs"
  by (induction xs) auto

text \<open>
  Claim C7. \<^verbatim>\<open>delete\<close> answers 400 when the chain link has no primary key. Otherwise it
  answers 404 and leaves the collection as it is when no id is bound, or when no item
  matches the id and \<^verbatim>\<open>deleteNotFound404\<close> is set. In every other case it answers 204
  without content, and the collection is the old one without the first item that matches
  the id; with \<^verbatim>\<open>deleteNotFound404\<close> off and no matching item that is the unchanged
  collection.
\<close>

theorem delete_cases:
  "(primaryKey cp = [] \<longrightarrow>
      (\<exists>e. delete js cfg req hdrs cp wd = (Inl e, wd) \<and> statusCode (errStatus e) = 400))
   \<and> (primaryKey cp \<noteq> [] \<and>
        (restId cp = None \<or>
         ((\<forall>item \<in> set wd. \<not> looseMatch js (primaryKey cp) (idVal (restId cp)) item)
          \<and> deleteNotFound404 cfg)) \<longrightarrow>
      (\<exists>e. delete js cfg req hdrs cp wd = (Inl e, wd) \<and> statusCode (errStatus e) = 404))
   \<and> (primaryKey cp \<noteq> [] \<and> restId cp \<noteq> None \<and>
        \<not> ((\<forall>item \<in> set wd. \<not> looseMatch js (primaryKey cp) (idVal (restId cp)) item)
            \<and> deleteNotFound404 cfg) \<longrightarrow>
      delete js cfg req hdrs cp wd =
        (Inr \<lparr>resHeaders = hdrs, resStatus = Some NO_CONTENT, resBody = JUndefined\<rparr>,
         removeFirst (looseMatch js (primaryKey cp) (idVal (restId cp))) wd)
      \<and> statusCode NO_CONTENT = 204)
   \<and> (primaryKey cp \<noteq> [] \<and> restId cp \<noteq> None \<and> \<not> deleteNotFound404 cfg \<and>
        (\<forall>item \<in> set wd. \<not> looseMatch js (primaryKey cp) (idVal (restId cp)) item) \<longrightarrow>
      delete js cfg req hdrs cp wd =
        (Inr \<lparr>resHeaders = hdrs, resStatus = Some NO_CONTENT, resBody = JUndefined\<rparr>, wd))"
proof -
  let ?P = "looseMatch js (primaryKey cp) (idVal (restId cp))"
  have idx: "findIndex (\<lambda>itemLocal. looseEq js (getProp itemLocal (primaryKey cp)) (JStr r)) wd
             = findIndex ?P wd" if "restId cp = Some r" for r
    using that by (simp add: looseMatch_fun idVal_def)
  have c400: "\<exists>e. delete js cfg req hdrs cp wd = (Inl e, wd) \<and> statusCode (errStatus e) = 400"
    if "primaryKey cp = []"
    using that by (simp add: delete_def makeError_def Let_def)
  have c404: "\<exists>e. delete js cfg req hdrs cp wd = (Inl e, wd) \<and> statusCode (errStatus e) = 404"
    if pk: "primaryKey cp \<noteq> []"
      and no: "restId cp = None \<or> ((\<forall>item \<in> set wd. \<not> ?P item) \<and> deleteNotFound404 cfg)"
  proof (cases "restId cp")
    case None
    with pk show ?thesis by (simp add: delete_def makeError_def Let_def)
  next
    case (Some r)
    with no have "findIndex ?P wd = - 1" and "deleteNotFound404 cfg"
      by (simp_all add: findIndex_none)
    with pk Some show ?thesis
      by (simp add: delete_def idx [OF Some] makeError_def Let_def)
  qed
  have c204: "delete js cfg req hdrs cp wd =
        (Inr \<lparr>resHeaders = hdrs, resStatus = Some NO_CONTENT, resBody = JUndefined\<rparr>,
         removeFirst ?P wd)"
    if pk: "primaryKey cp \<noteq> []" and rid: "restId cp \<noteq> None"
      and ok: "\<not> ((\<forall>item \<in> set wd. \<not> ?P item) \<and> deleteNotFound404 cfg)"
  proof -
    from rid obtain r where r: "restId cp = Some r" by auto
    show ?thesis
    proof (cases "findIndex ?P wd = - 1")
      case True
      then have none: "\<forall>item \<in> set wd. \<not> ?P item" by (simp add: findIndex_none)
      with ok have "\<not> deleteNotFound404 cfg" by simp
      with pk r True none show ?thesis
        by (simp add: delete_def idx [OF r] Let_def removeFirst_none)
    next
      case False
      with pk r show ?thesis
        by (simp add: delete_def idx [OF r] Let_def splice1_removeFirst)
    qed
  qed
  have keep: "delete js cfg req hdrs cp wd =
        (Inr \<lparr>resHeaders = hdrs, resStatus = Some NO_CONTENT, resBody = JUndefined\<rparr>, wd)"
    if pk: "primaryKey cp \<noteq> []" and rid: "restId cp \<noteq> None" and off: "\<not> deleteNotFound404 cfg"
      and none: "\<forall>item \<in> set wd. \<not> ?P item"
    using c204 [OF pk rid] off none by (simp add: removeFirst_none)
  from c400 c404 c204 keep show ?thesis by simp
qed


text \<open>The definitions that evaluate a loose comparison on concrete values.\<close>

lemmas looseEq_eval =
  looseEq_def numEq_def exampleRuntime_def readDecimal_def digitVal_def getProp_def idVal_def
  looseMatch_def plainInteger_def

text \<open>
  The cases on a collection with the ids 1, 2 (and 3): no primary key; a missing id 9
  under the default \<^verbatim>\<open>deleteNotFound404\<close>; the present id 2; the missing id 9 with
  \<^verbatim>\<open>deleteNotFound404\<close> off.
\<close>

theorem delete_cases_witness:
  "(\<exists>e. delete exampleRuntime defaultConfig (requestTo DELETE ''posts'' None) jsonHeaders
          \<lparr>cacheKey = ''posts'', primaryKey = [], restId = None, route = None\<rparr>
          [[(''id'', JNum (Fin 1))], [(''id'', JNum (Fin 2))]]
        = (Inl e, [[(''id'', JNum (Fin 1))], [(''id'', JNum (Fin 2))]]) \<and> statusCode (errStatus e) = 400)
   \<and> (\<exists>e. delete exampleRuntime defaultConfig (requestTo DELETE ''posts/9'' None) jsonHeaders
          \<lparr>cacheKey = ''posts'', primaryKey = ''id'', restId = Some ''9'', route = None\<rparr>
          [[(''id'', JNum (Fin 1))], [(''id'', JNum (Fin 2))]]
        = (Inl e, [[(''id'', JNum (Fin 1))], [(''id'', JNum (Fin 2))]]) \<and> statusCode (errStatus e) = 404)
   \<and> delete exampleRuntime defaultConfig (requestTo DELETE ''posts/2'' None) jsonHeaders
          \<lparr>cacheKey = ''posts'', primaryKey = ''id'', restId = Some ''2'', route = None\<rparr>
          [[(''id'', JNum (Fin 1))], [(''id'', JNum (Fin 2))], [(''id'', JNum (Fin 3))]]
        = (Inr \<lparr>resHeaders = jsonHeaders, resStatus = Some NO_CONTENT, resBody = JUndefined\<rparr>,
           [[(''id'', JNum (Fin 1))], [(''id'', JNum (Fin 3))]])
   \<and> delete exampleRuntime (defaultConfig\<lparr>deleteNotFound404 := False\<rparr>) (requestTo DELETE ''posts/9'' None)
          jsonHeaders
          \<lparr>cacheKey = ''posts'', primaryKey = ''id'', restId = Some ''9'', route = None\<rparr>
          [[(''id'', JNum (Fin 1))], [(''id'', JNum (Fin 2))]]
        = (Inr \<lparr>resHeaders = jsonHeaders, resStatus = Some NO_CONTENT, resBody = JUndefined\<rparr>,
           [[(''id'', JNum (Fin 1))], [(''id'', JNum (Fin 2))]])"
  using
    delete_cases [where js = exampleRuntime and cfg = defaultConfig and req = "requestTo DELETE ''posts'' None"
      and hdrs = jsonHeaders
      and cp = "\<lparr>cacheKey = ''posts'', primaryKey = [], restId = None, route = None\<rparr>"
      and wd = "[[(''id'', JNum (Fin 1))], [(''id'', JNum (Fin 2))]]"]
    delete_cases [where js = exampleRuntime and cfg = defaultConfig and req = "requestTo DELETE ''posts/9'' None"
      and hdrs = jsonHeaders
      and cp = "\<lparr>cacheKey = ''posts'', primaryKey = ''id'', restId = Some ''9'', route = None\<rparr>"
      and wd = "[[(''id'', JNum (Fin 1))], [(''id'', JNum (Fin 2))]]"]
    delete_cases [where js = exampleRuntime and cfg = defaultConfig and req = "requestTo DELETE ''posts/2'' None"
      and hdrs = jsonHeaders
      and cp = "\<lparr>cacheKey = ''posts'', primaryKey = ''id'', restId = Some ''2'', route = None\<rparr>"
      and wd = "[[(''id'', JNum (Fin 1))], [(''id'', JNum (Fin 2))], [(''id'', JNum (Fin 3))]]"]
    delete_cases [where js = exampleRuntime and cfg = "defaultConfig\<lparr>deleteNotFound404 := False\<rparr>"
      and req = "requestTo DELETE ''posts/9'' None" and hdrs = jsonHeaders
      and cp = "\<lparr>cacheKey = ''posts'', primaryKey = ''id'', restId = Some ''9'', route = None\<rparr>"
      and wd = "[[(''id'', JNum (Fin 1))], [(''id'', JNum (Fin 2))]]"]
  by (simp add: looseEq_eval defaultConfig_def)

section \<open>Properties of PUT and PATCH\<close>

lemma getProp_update:
  "getProp (AList.update k v al) k' = (if k' = k then v else getProp al k')"
  by (simp add: getProp_def update_conv')

lemma getProp_Cons:
  "getProp (kv # al) k = (if k = fst kv then snd kv else getProp al k)"
  by (cases kv) (simp add: getProp_def)

lemma getProp_objectAssign:
  assumes "distinct (objKeys source)"
  shows "getProp (objectAssign target source) k
         = (if k \<in> set (objKeys source) then getProp source k else getProp target k)"
  using assms unfolding objectAssign_def
proof (induction source arbitrary: target)
  case Nil
  show ?case by (simp add: objKeys_def)
next
  case (Cons kv source)
  from Cons.prems have d: "distinct (objKeys source)" and new: "fst kv \<notin> set (objKeys source)"
    by (simp_all add: objKeys_def)
  show ?case
    using new by (auto simp: Cons.IH [OF d] getProp_update getProp_Cons objKeys_def)
qed

lemma objKeys_update:
  "set (objKeys (AList.update k v al)) = insert k (set (objKeys al))"
  by (simp add: objKeys_def update_keys image_iff) (auto simp: update_keys)

lemma objKeys_objectAssign:
  "set (objKeys (objectAssign target source)) = set (objKeys target) \<union> set (objKeys source)"
  unfolding objectAssign_def
proof (induction source arbitrary: target)
  case Nil
  show ?case by (simp add: objKeys_def)
next
  case (Cons kv source)
  have "set (objKeys (kv # source)) = insert (fst kv) (set (objKeys source))"
    by (simp add: objKeys_def)
  then show ?case
    by (simp add: Cons.IH objKeys_update)
qed

lemma objKeys_delete: "set (objKeys (AList.delete k al)) = set (objKeys al) - {k}"
  by (simp add: objKeys_def delete_keys)

lemma objKeys_delete_fold:
  "set (objKeys (fold (\<lambda>k t. if k \<in> A then t else AList.delete k t) ks al))
   = set (objKeys al) - (set ks - A)"
  by (induction ks arbitrary: al) (auto simp: objKeys_delete)

lemma objKeys_deleteMissingKeys:
  "set (objKeys (deleteMissingKeys stored item)) = set (objKeys stored) \<inter> set (objKeys item)"
  by (auto simp: deleteMissingKeys_def Let_def objKeys_delete_fold)

lemma map_of_delete_fold:
  "map_of (fold (\<lambda>k t. if k \<in> A then t else AList.delete k t) ks al) k
   = (if k \<in> set ks \<and> k \<notin> A then None else map_of al k)"
  by (induction ks arbitrary: al) (auto simp: delete_conv')

lemma getProp_deleteMissingKeys:
  "getProp (deleteMissingKeys stored item) k
   = (if k \<in> set (objKeys item) then getProp stored k else JUndefined)"
proof -
  have "k \<notin> set (objKeys stored) \<Longrightarrow> map_of stored k = None"
    by (simp add: objKeys_def map_of_eq_None_iff)
  then show ?thesis
    by (auto simp: getProp_def deleteMissingKeys_def Let_def map_of_delete_fold)
qed

lemma distinct_cloneObj: "distinct (objKeys ob) \<Longrightarrow> distinct (objKeys (cloneObj ob))"
  by (simp add: cloneObj_def objKeys_def distinct_map_filter comp_def case_prod_unfold)


lemma putOrPatch_after_guards:
  assumes pk: "primaryKey cp \<noteq> []" and rid: "restId cp = Some r"
      and ok: "looseEq js (JStr r) (getProp (requestItem req cp) (primaryKey cp))"
  shows "putOrPatch js cfg req hdrs cp wd =
     (if findIndex (looseMatch js (primaryKey cp) (JStr r)) wd \<noteq> - 1 then
        ((if (if reqMethod req = PUT then putUpdate204 cfg else patchUpdate204 cfg)
          then Inr \<lparr>resHeaders = hdrs, resStatus = Some NO_CONTENT, resBody = JUndefined\<rparr>
          else Inr \<lparr>resHeaders = hdrs, resStatus = Some OK,
                    resBody = JObj (requestItem req cp)\<rparr>),
         wd[nat (findIndex (looseMatch js (primaryKey cp) (JStr r)) wd) :=
              objectAssign
                (if reqMethod req = PUT
                 then deleteMissingKeys
                        (wd ! nat (findIndex (looseMatch js (primaryKey cp) (JStr r)) wd))
                        (requestItem req cp)
                 else wd ! nat (findIndex (looseMatch js (primaryKey cp) (JStr r)) wd))
                (requestItem req cp)])
      else if putUpdate404 cfg \<or> reqMethod req = PATCH then
        (Inl (makeError req NOT_FOUND
           (''Error 404: Not found; item.'' @ primaryKey cp @ ''='' @ r
              @ '' not found and may not be created with ''
              @ methodName (reqMethod req) @ ''; use POST instead.'')), wd)
      else
        (Inr \<lparr>resHeaders = hdrs, resStatus = Some CREATED,
              resBody = JObj (requestItem req cp)\<rparr>,
         wd @ [requestItem req cp]))"
proof -
  have item: "(if isNullish (getProp (cloneItem (body req)) (primaryKey cp))
               then AList.update (primaryKey cp) (idVal (Some r)) (cloneItem (body req))
               else cloneItem (body req)) = requestItem req cp"
    by (simp add: requestItem_def rid)
  from ok have ok': "looseEq js (JStr r) (getProp (requestItem req cp) (primaryKey cp)) = True"
    by simp
  show ?thesis
    unfolding putOrPatch_def Let_def rid option.case item looseMatch_fun [symmetric] ok'
    using pk by simp
qed

text \<open>
  Claim C6, amended. Take a PUT or PATCH on a route with a primary key, with a bound id,
  whose request item (the body, with the bound id as primary key when the body has none)
  has a primary key loosely equal to the bound id, and let no stored item match the id.
  When \<^verbatim>\<open>putUpdate404\<close> is set or the method is PATCH, the answer is 404 and the
  collection is unchanged. Otherwise (PUT with \<^verbatim>\<open>putUpdate404\<close> off) the request item is
  appended to the collection and the answer is 201 with that item.
\<close>

theorem putOrPatch_missing_item:
  "primaryKey cp \<noteq> [] \<Longrightarrow> restId cp = Some r \<Longrightarrow>
   reqMethod req = PUT \<or> reqMethod req = PATCH \<Longrightarrow>
   looseEq js (JStr r) (getProp (requestItem req cp) (primaryKey cp)) \<Longrightarrow>
   \<forall>item \<in> set wd. \<not> looseMatch js (primaryKey cp) (JStr r) item \<Longrightarrow>
   (putUpdate404 cfg \<or> reqMethod req = PATCH \<longrightarrow>
      (\<exists>e. putOrPatch js cfg req hdrs cp wd = (Inl e, wd) \<and> statusCode (errStatus e) = 404))
   \<and> (\<not> putUpdate404 cfg \<and> reqMethod req = PUT \<longrightarrow>
        putOrPatch js cfg req hdrs cp wd =
          (Inr \<lparr>resHeaders = hdrs, resStatus = Some CREATED,
                resBody = JObj (requestItem req cp)\<rparr>,
           wd @ [requestItem req cp])
        \<and> statusCode CREATED = 201)"
proof -
  assume pk: "primaryKey cp \<noteq> []" and rid: "restId cp = Some r"
    and ok: "looseEq js (JStr r) (getProp (requestItem req cp) (primaryKey cp))"
    and none: "\<forall>item \<in> set wd. \<not> looseMatch js (primaryKey cp) (JStr r) item"
  from none have idx: "findIndex (looseMatch js (primaryKey cp) (JStr r)) wd = - 1"
    by (simp add: findIndex_none)
  show ?thesis
    by (simp add: putOrPatch_after_guards [OF pk rid ok] idx makeError_def)
qed


text \<open>
  A PATCH and a PUT of the missing id 5 under the defaults, and the PUT with
  \<^verbatim>\<open>putUpdate404\<close> off, which appends the body with the id of the URL.
\<close>

theorem putOrPatch_missing_item_witness:
  "(\<exists>e. putOrPatch exampleRuntime defaultConfig (requestTo PATCH ''posts/5'' (Some [(''title'', JStr ''x'')]))
          jsonHeaders
          \<lparr>cacheKey = ''posts'', primaryKey = ''id'', restId = Some ''5'', route = None\<rparr>
          [[(''id'', JNum (Fin 1))]]
        = (Inl e, [[(''id'', JNum (Fin 1))]]) \<and> statusCode (errStatus e) = 404)
   \<and> (\<exists>e. putOrPatch exampleRuntime defaultConfig (requestTo PUT ''posts/5'' (Some [(''title'', JStr ''x'')]))
          jsonHeaders
          \<lparr>cacheKey = ''posts'', primaryKey = ''id'', restId = Some ''5'', route = None\<rparr>
          [[(''id'', JNum (Fin 1))]]
        = (Inl e, [[(''id'', JNum (Fin 1))]]) \<and> statusCode (errStatus e) = 404)
   \<and> putOrPatch exampleRuntime (defaultConfig\<lparr>putUpdate404 := False\<rparr>)
          (requestTo PUT ''posts/5'' (Some [(''title'', JStr ''x'')])) jsonHeaders
          \<lparr>cacheKey = ''posts'', primaryKey = ''id'', restId = Some ''5'', route = None\<rparr>
          [[(''id'', JNum (Fin 1))]]
        = (Inr \<lparr>resHeaders = jsonHeaders, resStatus = Some CREATED,
                 resBody = JObj [(''title'', JStr ''x''), (''id'', JStr ''5'')]\<rparr>,
           [[(''id'', JNum (Fin 1))], [(''title'', JStr ''x''), (''id'', JStr ''5'')]])"
  using
    putOrPatch_missing_item [where js = exampleRuntime and cfg = defaultConfig
      and req = "requestTo PATCH ''posts/5'' (Some [(''title'', JStr ''x'')])"
      and hdrs = jsonHeaders and r = "''5''"
      and cp = "\<lparr>cacheKey = ''posts'', primaryKey = ''id'', restId = Some ''5'', route = None\<rparr>"
      and wd = "[[(''id'', JNum (Fin 1))]]"]
    putOrPatch_missing_item [where js = exampleRuntime and cfg = defaultConfig
      and req = "requestTo PUT ''posts/5'' (Some [(''title'', JStr ''x'')])"
      and hdrs = jsonHeaders and r = "''5''"
      and cp = "\<lparr>cacheKey = ''posts'', primaryKey = ''id'', restId = Some ''5'', route = None\<rparr>"
      and wd = "[[(''id'', JNum (Fin 1))]]"]
    putOrPatch_missing_item [where js = exampleRuntime and cfg = "defaultConfig\<lparr>putUpdate404 := False\<rparr>"
      and req = "requestTo PUT ''posts/5'' (Some [(''title'', JStr ''x'')])"
      and hdrs = jsonHeaders and r = "''5''"
      and cp = "\<lparr>cacheKey = ''posts'', primaryKey = ''id'', restId = Some ''5'', route = None\<rparr>"
      and wd = "[[(''id'', JNum (Fin 1))]]"]
  by (simp add: looseEq_eval defaultConfig_def requestTo_def requestItem_def cloneItem_def
        cloneObj_def)

text \<open>
  Claim C6 as stated fails when the body names another id than the URL: no item has the
  id 5 and \<^verbatim>\<open>putUpdate404\<close> is off, yet the PUT of a body with id 6 to \<^verbatim>\<open>posts/5\<close> is
  answered 400 and nothing is appended.
\<close>

theorem putOrPatch_missing_item_counterexample:
  "filter (looseMatch exampleRuntime ''id'' (JStr ''5'')) [[(''id'', JNum (Fin 1))]] = []
   \<and> map_sum errStatus resStatus
       (fst (putOrPatch exampleRuntime (defaultConfig\<lparr>putUpdate404 := False\<rparr>)
               (requestTo PUT ''posts/5'' (Some [(''id'', JNum (Fin 6))])) jsonHeaders
               \<lparr>cacheKey = ''posts'', primaryKey = ''id'', restId = Some ''5'', route = None\<rparr>
               [[(''id'', JNum (Fin 1))]]))
     = Inl BAD_REQUEST
   \<and> snd (putOrPatch exampleRuntime (defaultConfig\<lparr>putUpdate404 := False\<rparr>)
            (requestTo PUT ''posts/5'' (Some [(''id'', JNum (Fin 6))])) jsonHeaders
            \<lparr>cacheKey = ''posts'', primaryKey = ''id'', restId = Some ''5'', route = None\<rparr>
            [[(''id'', JNum (Fin 1))]])
     = [[(''id'', JNum (Fin 1))]]"
  by (simp add: putOrPatch_def looseEq_eval defaultConfig_def requestTo_def cloneItem_def
        cloneObj_def makeError_def Let_def)

text \<open>
  Claim C5, amended. Take a PUT or PATCH on a route with a primary key, with a bound id,
  whose request item (the body, with the bound id as primary key when the body has none;
  an object with one entry per key) has a primary key loosely equal to the bound id, and
  let some stored item match the id. Then the first matching item, and no other, is
  replaced in the collection. After a PUT its fields are exactly those of the request
  item: every field the request item lacks is deleted, the others are merged in. After a
  PATCH it has its old fields and those of the request item, with the values of the
  request item where both have one. The answer is 204 without content when the flag of
  the method (\<^verbatim>\<open>putUpdate204\<close>, \<^verbatim>\<open>patchUpdate204\<close>) is set, and 200 otherwise, for a PUT
  with the request item, whose fields are those of the updated item.
\<close>

theorem putOrPatch_existing_item:
  "primaryKey cp \<noteq> [] \<Longrightarrow> restId cp = Some r \<Longrightarrow>
   reqMethod req = PUT \<or> reqMethod req = PATCH \<Longrightarrow>
   looseEq js (JStr r) (getProp (requestItem req cp) (primaryKey cp)) \<Longrightarrow>
   distinct (objKeys (requestItem req cp)) \<Longrightarrow>
   \<exists>item \<in> set wd. looseMatch js (primaryKey cp) (JStr r) item \<Longrightarrow>
   \<exists>i updated.
      i < length wd \<and> looseMatch js (primaryKey cp) (JStr r) (wd ! i)
      \<and> (\<forall>j < i. \<not> looseMatch js (primaryKey cp) (JStr r) (wd ! j))
      \<and> snd (putOrPatch js cfg req hdrs cp wd) = wd[i := updated]
      \<and> (reqMethod req = PUT \<longrightarrow>
            set (objKeys updated) = set (objKeys (requestItem req cp))
            \<and> (\<forall>k. getProp updated k = getProp (requestItem req cp) k))
      \<and> (reqMethod req = PATCH \<longrightarrow>
            set (objKeys updated) = set (objKeys (wd ! i)) \<union> set (objKeys (requestItem req cp))
            \<and> (\<forall>k. getProp updated k =
                   (if k \<in> set (objKeys (requestItem req cp))
                    then getProp (requestItem req cp) k else getProp (wd ! i) k)))
      \<and> ((if reqMethod req = PUT then putUpdate204 cfg else patchUpdate204 cfg) \<longrightarrow>
            fst (putOrPatch js cfg req hdrs cp wd) =
              Inr \<lparr>resHeaders = hdrs, resStatus = Some NO_CONTENT, resBody = JUndefined\<rparr>
            \<and> statusCode NO_CONTENT = 204)
      \<and> (\<not> (if reqMethod req = PUT then putUpdate204 cfg else patchUpdate204 cfg) \<longrightarrow>
            (\<exists>ro. fst (putOrPatch js cfg req hdrs cp wd) = Inr ro
                  \<and> resHeaders ro = hdrs \<and> resStatus ro = Some OK \<and> statusCode OK = 200
                  \<and> (reqMethod req = PUT \<longrightarrow> resBody ro = JObj (requestItem req cp))))"
proof -
  assume pk: "primaryKey cp \<noteq> []" and rid: "restId cp = Some r"
    and ok: "looseEq js (JStr r) (getProp (requestItem req cp) (primaryKey cp))"
    and dist: "distinct (objKeys (requestItem req cp))"
    and ex: "\<exists>item \<in> set wd. looseMatch js (primaryKey cp) (JStr r) item"
    and meth: "reqMethod req = PUT \<or> reqMethod req = PATCH"
  let ?P = "looseMatch js (primaryKey cp) (JStr r)"
  let ?i = "nat (findIndex ?P wd)"
  let ?item = "requestItem req cp"
  let ?upd = "objectAssign
                (if reqMethod req = PUT then deleteMissingKeys (wd ! ?i) ?item else wd ! ?i) ?item"
  from ex have ne: "findIndex ?P wd \<noteq> - 1"
    by (simp add: findIndex_none)
  from findIndex_found [OF ne]
  have i: "?i < length wd" "?P (wd ! ?i)" "\<forall>j < ?i. \<not> ?P (wd ! j)"
    by simp_all
  have res: "putOrPatch js cfg req hdrs cp wd =
      ((if (if reqMethod req = PUT then putUpdate204 cfg else patchUpdate204 cfg)
          then Inr \<lparr>resHeaders = hdrs, resStatus = Some NO_CONTENT, resBody = JUndefined\<rparr>
          else Inr \<lparr>resHeaders = hdrs, resStatus = Some OK, resBody = JObj ?item\<rparr>),
       wd[?i := ?upd])"
    using ne by (simp add: putOrPatch_after_guards [OF pk rid ok])
  have put: "set (objKeys ?upd) = set (objKeys ?item) \<and> (\<forall>k. getProp ?upd k = getProp ?item k)"
    if "reqMethod req = PUT"
  proof -
    have absent: "getProp ?item k = JUndefined" if "k \<notin> set (objKeys ?item)" for k
    proof -
      from that have "map_of ?item k = None"
        by (simp add: objKeys_def map_of_eq_None_iff)
      then show ?thesis by (simp add: getProp_def)
    qed
    show ?thesis
      using that absent
      by (auto simp: objKeys_objectAssign objKeys_deleteMissingKeys
            getProp_objectAssign [OF dist] getProp_deleteMissingKeys)
  qed
  have patch: "set (objKeys ?upd) = set (objKeys (wd ! ?i)) \<union> set (objKeys ?item)
      \<and> (\<forall>k. getProp ?upd k =
             (if k \<in> set (objKeys ?item) then getProp ?item k else getProp (wd ! ?i) k))"
    if "reqMethod req = PATCH"
    using that by (simp add: objKeys_objectAssign getProp_objectAssign [OF dist])
  from i res put patch show ?thesis
    by (intro exI [of _ ?i] exI [of _ ?upd]) simp
qed


text \<open>
  A PUT and a PATCH of the body \<^verbatim>\<open>{title: 'x'}\<close> to \<^verbatim>\<open>posts/1\<close> on the stored item
  \<^verbatim>\<open>{id: 1, title: 'a', text: 'b'}\<close>: the PUT drops \<^verbatim>\<open>text\<close>, the PATCH keeps it.
\<close>

theorem putOrPatch_existing_item_witness:
  "putOrPatch exampleRuntime defaultConfig (requestTo PUT ''posts/1'' (Some [(''title'', JStr ''x'')]))
      jsonHeaders
      \<lparr>cacheKey = ''posts'', primaryKey = ''id'', restId = Some ''1'', route = None\<rparr>
      [[(''id'', JNum (Fin 1)), (''title'', JStr ''a''), (''text'', JStr ''b'')]]
    = (Inr \<lparr>resHeaders = jsonHeaders, resStatus = Some NO_CONTENT, resBody = JUndefined\<rparr>,
       [[(''id'', JStr ''1''), (''title'', JStr ''x'')]])
   \<and> putOrPatch exampleRuntime (defaultConfig\<lparr>putUpdate204 := False\<rparr>)
        (requestTo PUT ''posts/1'' (Some [(''title'', JStr ''x'')])) jsonHeaders
        \<lparr>cacheKey = ''posts'', primaryKey = ''id'', restId = Some ''1'', route = None\<rparr>
        [[(''id'', JNum (Fin 1)), (''title'', JStr ''a''), (''text'', JStr ''b'')]]
      = (Inr \<lparr>resHeaders = jsonHeaders, resStatus = Some OK,
               resBody = JObj [(''title'', JStr ''x''), (''id'', JStr ''1'')]\<rparr>,
         [[(''id'', JStr ''1''), (''title'', JStr ''x'')]])
   \<and> snd (putOrPatch exampleRuntime defaultConfig
             (requestTo PATCH ''posts/1'' (Some [(''title'', JStr ''x'')])) jsonHeaders
             \<lparr>cacheKey = ''posts'', primaryKey = ''id'', restId = Some ''1'', route = None\<rparr>
             [[(''id'', JNum (Fin 1)), (''title'', JStr ''a''), (''text'', JStr ''b'')]])
      = [[(''id'', JStr ''1''), (''title'', JStr ''x''), (''text'', JStr ''b'')]]
   \<and> map_sum errStatus resStatus
        (fst (putOrPatch exampleRuntime (defaultConfig\<lparr>patchUpdate204 := False\<rparr>)
               (requestTo PATCH ''posts/1'' (Some [(''title'', JStr ''x'')])) jsonHeaders
               \<lparr>cacheKey = ''posts'', primaryKey = ''id'', restId = Some ''1'', route = None\<rparr>
               [[(''id'', JNum (Fin 1)), (''title'', JStr ''a''), (''text'', JStr ''b'')]]))
      = Inr (Some OK)"
  using
    putOrPatch_existing_item [where js = exampleRuntime and cfg = defaultConfig
      and req = "requestTo PUT ''posts/1'' (Some [(''title'', JStr ''x'')])"
      and hdrs = jsonHeaders and r = "''1''"
      and cp = "\<lparr>cacheKey = ''posts'', primaryKey = ''id'', restId = Some ''1'', route = None\<rparr>"
      and wd = "[[(''id'', JNum (Fin 1)), (''title'', JStr ''a''), (''text'', JStr ''b'')]]"]
    putOrPatch_existing_item [where js = exampleRuntime and cfg = "defaultConfig\<lparr>putUpdate204 := False\<rparr>"
      and req = "requestTo PUT ''posts/1'' (Some [(''title'', JStr ''x'')])"
      and hdrs = jsonHeaders and r = "''1''"
      and cp = "\<lparr>cacheKey = ''posts'', primaryKey = ''id'', restId = Some ''1'', route = None\<rparr>"
      and wd = "[[(''id'', JNum (Fin 1)), (''title'', JStr ''a''), (''text'', JStr ''b'')]]"]
    putOrPatch_existing_item [where js = exampleRuntime and cfg = defaultConfig
      and req = "requestTo PATCH ''posts/1'' (Some [(''title'', JStr ''x'')])"
      and hdrs = jsonHeaders and r = "''1''"
      and cp = "\<lparr>cacheKey = ''posts'', primaryKey = ''id'', restId = Some ''1'', route = None\<rparr>"
      and wd = "[[(''id'', JNum (Fin 1)), (''title'', JStr ''a''), (''text'', JStr ''b'')]]"]
    putOrPatch_existing_item [where js = exampleRuntime and cfg = "defaultConfig\<lparr>patchUpdate204 := False\<rparr>"
      and req = "requestTo PATCH ''posts/1'' (Some [(''title'', JStr ''x'')])"
      and hdrs = jsonHeaders and r = "''1''"
      and cp = "\<lparr>cacheKey = ''posts'', primaryKey = ''id'', restId = Some ''1'', route = None\<rparr>"
      and wd = "[[(''id'', JNum (Fin 1)), (''title'', JStr ''a''), (''text'', JStr ''b'')]]"]
  by (simp add: putOrPatch_def looseEq_eval defaultConfig_def requestTo_def requestItem_def
        cloneItem_def cloneObj_def objKeys_def deleteMissingKeys_def objectAssign_def Let_def)

text \<open>
  Claim C5 as stated fails in two places. The item with id 1 exists, but a PUT to
  \<^verbatim>\<open>posts/1\<close> whose body names the id 2 is answered 400 and replaces nothing. And the
  answer 200 of a PATCH carries the request item, which lacks the field \<^verbatim>\<open>text\<close> that the
  updated item still has.
\<close>

theorem putOrPatch_existing_item_counterexample:
  "filter (looseMatch exampleRuntime ''id'' (JStr ''1'')) [[(''id'', JNum (Fin 1)), (''title'', JStr ''a'')]]
     = [[(''id'', JNum (Fin 1)), (''title'', JStr ''a'')]]
   \<and> map_sum errStatus resStatus
       (fst (putOrPatch exampleRuntime defaultConfig
               (requestTo PUT ''posts/1'' (Some [(''id'', JNum (Fin 2))])) jsonHeaders
               \<lparr>cacheKey = ''posts'', primaryKey = ''id'', restId = Some ''1'', route = None\<rparr>
               [[(''id'', JNum (Fin 1)), (''title'', JStr ''a'')]]))
     = Inl BAD_REQUEST
   \<and> snd (putOrPatch exampleRuntime defaultConfig
            (requestTo PUT ''posts/1'' (Some [(''id'', JNum (Fin 2))])) jsonHeaders
            \<lparr>cacheKey = ''posts'', primaryKey = ''id'', restId = Some ''1'', route = None\<rparr>
            [[(''id'', JNum (Fin 1)), (''title'', JStr ''a'')]])
     = [[(''id'', JNum (Fin 1)), (''title'', JStr ''a'')]]
   \<and> putOrPatch exampleRuntime (defaultConfig\<lparr>patchUpdate204 := False\<rparr>)
        (requestTo PATCH ''posts/1'' (Some [(''title'', JStr ''x'')])) jsonHeaders
        \<lparr>cacheKey = ''posts'', primaryKey = ''id'', restId = Some ''1'', route = None\<rparr>
        [[(''id'', JNum (Fin 1)), (''title'', JStr ''a''), (''text'', JStr ''b'')]]
     = (Inr \<lparr>resHeaders = jsonHeaders, resStatus = Some OK,
              resBody = JObj [(''title'', JStr ''x''), (''id'', JStr ''1'')]\<rparr>,
        [[(''id'', JStr ''1''), (''title'', JStr ''x''), (''text'', JStr ''b'')]])
   \<and> getProp [(''title'', JStr ''x''), (''id'', JStr ''1'')] ''text''
       \<noteq> getProp [(''id'', JStr ''1''), (''title'', JStr ''x''), (''text'', JStr ''b'')] ''text''"
  by (simp add: putOrPatch_def looseEq_eval defaultConfig_def requestTo_def cloneItem_def
        cloneObj_def objKeys_def deleteMissingKeys_def objectAssign_def makeError_def Let_def)

section \<open>Properties of POST\<close>

lemma toStringJs_1: "toStringJs js (JNum (Fin 1)) = ''1''"
  by (simp add: plainInteger_def showInt_def digitChar_def)

lemma toStringJs_2: "toStringJs js (JNum (Fin 2)) = ''2''"
  by (simp add: plainInteger_def showInt_def digitChar_def)

lemma looseEq_nums: "looseEq js (JNum a) (JNum b) \<longleftrightarrow> a \<noteq> NaN \<and> a = b"
  by (simp add: looseEq_def numEq_def)

text \<open>
  Claim C4. On a chain link with the primary key \<^verbatim>\<open>id\<close> and no bound id, a POST whose
  (cloned) body has no \<^verbatim>\<open>id\<close> on the empty collection stores the body with the id 1 and
  answers 201 with the header \<^verbatim>\<open>Location\<close> set to the URL of the request followed by
  \<^verbatim>\<open>/1\<close>; a second such POST on the resulting collection stores its body with the id 2.
  A third POST with the body \<^verbatim>\<open>{id: 1}\<close> is answered 409, the collection unchanged, when
  \<^verbatim>\<open>postUpdate409\<close> is set; when it is not, the first item is overwritten by the body,
  and the answer is 204 without content under \<^verbatim>\<open>postUpdate204\<close>, else 200 with the item.
\<close>

theorem post_sequence:
  "primaryKey cp = ''id'' \<Longrightarrow> restId cp = None \<Longrightarrow>
   getProp (cloneItem (body reqA)) ''id'' = JUndefined \<Longrightarrow>
   getProp (cloneItem (body reqB)) ''id'' = JUndefined \<Longrightarrow>
   body reqC = Some [(''id'', JNum (Fin 1))] \<Longrightarrow>
   post js cfg reqA hdrs cp [] =
     (Inr \<lparr>resHeaders = AList.update ''Location'' (url reqA @ ''/1'') hdrs,
           resStatus = Some CREATED,
           resBody = JObj (AList.update ''id'' (JNum (Fin 1)) (cloneItem (body reqA)))\<rparr>,
      [AList.update ''id'' (JNum (Fin 1)) (cloneItem (body reqA))])
   \<and> getProp (AList.update ''id'' (JNum (Fin 1)) (cloneItem (body reqA))) ''id'' = JNum (Fin 1)
   \<and> statusCode CREATED = 201
   \<and> post js cfg reqB hdrs cp [AList.update ''id'' (JNum (Fin 1)) (cloneItem (body reqA))] =
       (Inr \<lparr>resHeaders = AList.update ''Location'' (url reqB @ ''/2'') hdrs,
             resStatus = Some CREATED,
             resBody = JObj (AList.update ''id'' (JNum (Fin 2)) (cloneItem (body reqB)))\<rparr>,
        [AList.update ''id'' (JNum (Fin 1)) (cloneItem (body reqA)),
         AList.update ''id'' (JNum (Fin 2)) (cloneItem (body reqB))])
   \<and> getProp (AList.update ''id'' (JNum (Fin 2)) (cloneItem (body reqB))) ''id'' = JNum (Fin 2)
   \<and> (postUpdate409 cfg \<longrightarrow>
        (\<exists>e. post js cfg reqC hdrs cp
               [AList.update ''id'' (JNum (Fin 1)) (cloneItem (body reqA)),
                AList.update ''id'' (JNum (Fin 2)) (cloneItem (body reqB))]
             = (Inl e, [AList.update ''id'' (JNum (Fin 1)) (cloneItem (body reqA)),
                        AList.update ''id'' (JNum (Fin 2)) (cloneItem (body reqB))])
             \<and> statusCode (errStatus e) = 409))
   \<and> (\<not> postUpdate409 cfg \<longrightarrow>
        post js cfg reqC hdrs cp
          [AList.update ''id'' (JNum (Fin 1)) (cloneItem (body reqA)),
           AList.update ''id'' (JNum (Fin 2)) (cloneItem (body reqB))]
        = (if postUpdate204 cfg
           then Inr \<lparr>resHeaders = hdrs, resStatus = Some NO_CONTENT, resBody = JUndefined\<rparr>
           else Inr \<lparr>resHeaders = hdrs, resStatus = Some OK,
                     resBody = JObj [(''id'', JNum (Fin 1))]\<rparr>,
           [[(''id'', JNum (Fin 1))], AList.update ''id'' (JNum (Fin 2)) (cloneItem (body reqB))])
        \<and> statusCode NO_CONTENT = 204 \<and> statusCode OK = 200)"
proof -
  assume pk: "primaryKey cp = ''id''" and rid: "restId cp = None"
    and b1: "getProp (cloneItem (body reqA)) ''id'' = JUndefined"
    and b2: "getProp (cloneItem (body reqB)) ''id'' = JUndefined"
    and b3: "body reqC = Some [(''id'', JNum (Fin 1))]"
  let ?item1 = "AList.update ''id'' (JNum (Fin 1)) (cloneItem (body reqA))"
  let ?item2 = "AList.update ''id'' (JNum (Fin 2)) (cloneItem (body reqB))"
  have id1: "getProp ?item1 ''id'' = JNum (Fin 1)" and id2: "getProp ?item2 ''id'' = JNum (Fin 2)"
    by (simp_all add: getProp_update)
  have gen0: "genId [] ''id'' = Fin 1"
    by (simp add: genId_def)
  have gen1: "genId [?item1] ''id'' = Fin 2"
    by (simp add: genId_def genIdStep_def id1)
  have first: "post js cfg reqA hdrs cp [] =
     (Inr \<lparr>resHeaders = AList.update ''Location'' (url reqA @ ''/1'') hdrs,
           resStatus = Some CREATED, resBody = JObj ?item1\<rparr>, [?item1])"
    by (simp add: post_def pk rid b1 gen0 idVal_def id1 toStringJs_1 Let_def
          del: toStringJs.simps)
  have second: "post js cfg reqB hdrs cp [?item1] =
     (Inr \<lparr>resHeaders = AList.update ''Location'' (url reqB @ ''/2'') hdrs,
           resStatus = Some CREATED, resBody = JObj ?item2\<rparr>, [?item1, ?item2])"
    by (simp add: post_def pk rid b2 gen1 idVal_def id1 id2 looseEq_nums toStringJs_2 Let_def
          del: toStringJs.simps)
  have item3: "cloneItem (body reqC) = [(''id'', JNum (Fin 1))]"
    by (simp add: b3 cloneItem_def cloneObj_def)
  have id3: "getProp [(''id'', JNum (Fin 1))] ''id'' = JNum (Fin 1)"
    by (simp add: getProp_def)
  have idx: "findIndex (\<lambda>itm. looseEq js (getProp itm ''id'') (JNum (Fin 1))) [?item1, ?item2] = 0"
    by (simp add: id1 looseEq_nums)
  have conflict: "\<exists>e. post js cfg reqC hdrs cp [?item1, ?item2] = (Inl e, [?item1, ?item2])
             \<and> statusCode (errStatus e) = 409" if "postUpdate409 cfg"
    using that
    by (simp add: post_def pk rid item3 id3 idVal_def idx makeError_def Let_def
          del: findIndex.simps toStringJs.simps)
  have overwrite: "post js cfg reqC hdrs cp [?item1, ?item2]
        = (if postUpdate204 cfg
           then Inr \<lparr>resHeaders = hdrs, resStatus = Some NO_CONTENT, resBody = JUndefined\<rparr>
           else Inr \<lparr>resHeaders = hdrs, resStatus = Some OK,
                     resBody = JObj [(''id'', JNum (Fin 1))]\<rparr>,
           [[(''id'', JNum (Fin 1))], ?item2])" if "\<not> postUpdate409 cfg"
    using that
    by (simp add: post_def pk rid item3 id3 idVal_def idx Let_def
          del: findIndex.simps toStringJs.simps)
  from first second id1 id2 conflict overwrite show ?thesis
    by simp
qed


text \<open>
  The three requests on \<^verbatim>\<open>posts\<close>, the third under the default configuration, with
  \<^verbatim>\<open>postUpdate204\<close> off, and with \<^verbatim>\<open>postUpdate409\<close> on.
\<close>

theorem post_sequence_witness:
  "post exampleRuntime defaultConfig (requestTo POST ''posts'' (Some [(''title'', JStr ''a'')])) jsonHeaders
     \<lparr>cacheKey = ''posts'', primaryKey = ''id'', restId = None, route = None\<rparr> []
   = (Inr \<lparr>resHeaders = [(''Content-Type'', ''application/json''), (''Location'', ''posts/1'')],
           resStatus = Some CREATED,
           resBody = JObj [(''title'', JStr ''a''), (''id'', JNum (Fin 1))]\<rparr>,
      [[(''title'', JStr ''a''), (''id'', JNum (Fin 1))]])
   \<and> post exampleRuntime defaultConfig (requestTo POST ''posts'' None) jsonHeaders
       \<lparr>cacheKey = ''posts'', primaryKey = ''id'', restId = None, route = None\<rparr>
       [[(''title'', JStr ''a''), (''id'', JNum (Fin 1))]]
     = (Inr \<lparr>resHeaders = [(''Content-Type'', ''application/json''), (''Location'', ''posts/2'')],
             resStatus = Some CREATED, resBody = JObj [(''id'', JNum (Fin 2))]\<rparr>,
        [[(''title'', JStr ''a''), (''id'', JNum (Fin 1))], [(''id'', JNum (Fin 2))]])
   \<and> post exampleRuntime defaultConfig (requestTo POST ''posts'' (Some [(''id'', JNum (Fin 1))])) jsonHeaders
       \<lparr>cacheKey = ''posts'', primaryKey = ''id'', restId = None, route = None\<rparr>
       [[(''title'', JStr ''a''), (''id'', JNum (Fin 1))], [(''id'', JNum (Fin 2))]]
     = (Inr \<lparr>resHeaders = jsonHeaders, resStatus = Some NO_CONTENT, resBody = JUndefined\<rparr>,
        [[(''id'', JNum (Fin 1))], [(''id'', JNum (Fin 2))]])
   \<and> post exampleRuntime (defaultConfig\<lparr>postUpdate204 := False\<rparr>)
       (requestTo POST ''posts'' (Some [(''id'', JNum (Fin 1))])) jsonHeaders
       \<lparr>cacheKey = ''posts'', primaryKey = ''id'', restId = None, route = None\<rparr>
       [[(''title'', JStr ''a''), (''id'', JNum (Fin 1))], [(''id'', JNum (Fin 2))]]
     = (Inr \<lparr>resHeaders = jsonHeaders, resStatus = Some OK,
             resBody = JObj [(''id'', JNum (Fin 1))]\<rparr>,
        [[(''id'', JNum (Fin 1))], [(''id'', JNum (Fin 2))]])
   \<and> (\<exists>e. post exampleRuntime (defaultConfig\<lparr>postUpdate409 := True\<rparr>)
            (requestTo POST ''posts'' (Some [(''id'', JNum (Fin 1))])) jsonHeaders
            \<lparr>cacheKey = ''posts'', primaryKey = ''id'', restId = None, route = None\<rparr>
            [[(''title'', JStr ''a''), (''id'', JNum (Fin 1))], [(''id'', JNum (Fin 2))]]
          = (Inl e, [[(''title'', JStr ''a''), (''id'', JNum (Fin 1))], [(''id'', JNum (Fin 2))]])
          \<and> statusCode (errStatus e) = 409)"
  using
    post_sequence [where js = exampleRuntime and cfg = "defaultConfig"
      and cp = "\<lparr>cacheKey = ''posts'', primaryKey = ''id'', restId = None, route = None\<rparr>"
      and reqA = "requestTo POST ''posts'' (Some [(''title'', JStr ''a'')])"
      and reqB = "requestTo POST ''posts'' None"
      and reqC = "requestTo POST ''posts'' (Some [(''id'', JNum (Fin 1))])"
      and hdrs = jsonHeaders]
    post_sequence [where js = exampleRuntime and cfg = "defaultConfig\<lparr>postUpdate204 := False\<rparr>"
      and cp = "\<lparr>cacheKey = ''posts'', primaryKey = ''id'', restId = None, route = None\<rparr>"
      and reqA = "requestTo POST ''posts'' (Some [(''title'', JStr ''a'')])"
      and reqB = "requestTo POST ''posts'' None"
      and reqC = "requestTo POST ''posts'' (Some [(''id'', JNum (Fin 1))])"
      and hdrs = jsonHeaders]
    post_sequence [where js = exampleRuntime and cfg = "defaultConfig\<lparr>postUpdate409 := True\<rparr>"
      and cp = "\<lparr>cacheKey = ''posts'', primaryKey = ''id'', restId = None, route = None\<rparr>"
      and reqA = "requestTo POST ''posts'' (Some [(''title'', JStr ''a'')])"
      and reqB = "requestTo POST ''posts'' None"
      and reqC = "requestTo POST ''posts'' (Some [(''id'', JNum (Fin 1))])"
      and hdrs = jsonHeaders]
  by (simp add: defaultConfig_def requestTo_def cloneItem_def cloneObj_def getProp_def
        jsonHeaders_def)

section \<open>Properties of the request pipeline\<close>

lemma truthyMatch_fun:
  "truthyMatch js pk v = (\<lambda>ob. truthy (getProp ob pk) \<and> looseEq js (getProp ob pk) v)"
  by (simp add: fun_eq_iff truthyMatch_def)

lemma find_None_falsy:
  assumes "\<forall>item \<in> set wd. looseMatch js pk v item \<longrightarrow> \<not> truthy (getProp item pk)"
  shows "find (truthyMatch js pk v) wd = None"
  using assms by (auto simp: find_None_iff truthyMatch_def looseMatch_def)

lemma cacheDataWithGetMethod_hit:
  "cachedData sv (cacheKey cp) = Some md \<Longrightarrow>
   cacheDataWithGetMethod pick sv cp prnts qp bdy hdrs = (Inr md, sv)"
  by (simp add: cacheDataWithGetMethod_def)

lemma cacheDataWithGetMethod_miss:
  assumes miss: "cachedData sv (cacheKey cp) = None" and rt: "route cp = Some rt"
      and cb: "dataCallback rt = Some cb"
  shows "cacheDataWithGetMethod pick sv cp prnts qp bdy hdrs =
     (case cb \<lparr>items = [], itemId = restId cp, httpMethod = GET, parents = prnts,
                queryParams = qp, reqBody = bdy, reqHeaders = transformHeaders hdrs\<rparr> of
        ItemList xs \<Rightarrow>
          (Inr \<lparr>writeableData = xs, readonlyData = bindReadonlyData pick rt xs\<rparr>,
           sv\<lparr>cachedData := (cachedData sv)(cacheKey cp \<mapsto>
                 \<lparr>writeableData = xs, readonlyData = bindReadonlyData pick rt xs\<rparr>)\<rparr>)
      | NonList v \<Rightarrow>
          if truthy (jsValue v)
          then (Inl (TypeError ''route.dataCallback() should returns an array''), sv)
          else (Inr \<lparr>writeableData = [], readonlyData = []\<rparr>,
                sv\<lparr>cachedData := (cachedData sv)(cacheKey cp \<mapsto>
                      \<lparr>writeableData = [], readonlyData = []\<rparr>)\<rparr>))"
  by (simp add: cacheDataWithGetMethod_def miss rt cb Let_def bindReadonlyData_def
        split: cbData.splits)

text \<open>One round of the loop of \<^verbatim>\<open>getParents\<close>, on a link that is not the last.\<close>

lemma getParentsLoop_step:
  assumes "xs \<noteq> []"
  shows "getParentsLoop js pick req sv (cp # xs) ps =
     (case cacheDataWithGetMethod pick sv cp (parentsOrNone ps) (getQueryParams req) (body req)
             (headers req) of
        (Inl e, sv1) \<Rightarrow> (Inl e, sv1)
      | (Inr md, sv1) \<Rightarrow>
          (case find (truthyMatch js (primaryKey cp) (idVal (restId cp))) (writeableData md) of
             None \<Rightarrow> (Inr (Inl (makeError req NOT_FOUND ''item not found'')), sv1)
           | Some item \<Rightarrow> getParentsLoop js pick req sv1 xs (ps @ [item])))"
proof (cases xs)
  case Nil
  with assms show ?thesis by simp
next
  case (Cons nxt rest)
  show ?thesis
    unfolding Cons
    by (simp add: truthyMatch_fun parentsOrNone_def Let_def
          split: prod.splits sum.splits option.splits)
qed

text \<open>
  The loop on a chain reaches the link after a prefix in the state, and with the parents,
  that the loop on the prefix alone ends with (the loop leaves the last link of its chain
  untouched); and it ends where the prefix ends it early.
\<close>

lemma getParentsLoop_prefix:
  "getParentsLoop js pick req sv (pre @ cp # rest) ps =
     (case getParentsLoop js pick req sv (pre @ [cp]) ps of
        (Inl e, sv1) \<Rightarrow> (Inl e, sv1)
      | (Inr (Inl err), sv1) \<Rightarrow> (Inr (Inl err), sv1)
      | (Inr (Inr ps1), sv1) \<Rightarrow> getParentsLoop js pick req sv1 (cp # rest) ps1)"
proof (induction pre arbitrary: sv ps)
  case Nil
  show ?case by simp
next
  case (Cons c pre)
  have l: "getParentsLoop js pick req sv ((c # pre) @ cp # rest) ps =
     (case cacheDataWithGetMethod pick sv c (parentsOrNone ps) (getQueryParams req) (body req)
             (headers req) of
        (Inl e, sv1) \<Rightarrow> (Inl e, sv1)
      | (Inr md, sv1) \<Rightarrow>
          (case find (truthyMatch js (primaryKey c) (idVal (restId c))) (writeableData md) of
             None \<Rightarrow> (Inr (Inl (makeError req NOT_FOUND ''item not found'')), sv1)
           | Some item \<Rightarrow> getParentsLoop js pick req sv1 (pre @ cp # rest) (ps @ [item])))"
    using getParentsLoop_step [of "pre @ cp # rest" js pick req sv c ps] by simp
  have r: "getParentsLoop js pick req sv ((c # pre) @ [cp]) ps =
     (case cacheDataWithGetMethod pick sv c (parentsOrNone ps) (getQueryParams req) (body req)
             (headers req) of
        (Inl e, sv1) \<Rightarrow> (Inl e, sv1)
      | (Inr md, sv1) \<Rightarrow>
          (case find (truthyMatch js (primaryKey c) (idVal (restId c))) (writeableData md) of
             None \<Rightarrow> (Inr (Inl (makeError req NOT_FOUND ''item not found'')), sv1)
           | Some item \<Rightarrow> getParentsLoop js pick req sv1 (pre @ [cp]) (ps @ [item])))"
    using getParentsLoop_step [of "pre @ [cp]" js pick req sv c ps] by simp
  show ?case
    unfolding l r by (simp add: Cons.IH split: prod.splits sum.splits option.splits)
qed

lemma getParentsLoop_reaches:
  assumes "getParentsLoop js pick req sv (pre @ [cp]) [] = (Inr (Inr ps), sv1)"
  shows "getParentsLoop js pick req sv (pre @ cp # rest) [] =
           getParentsLoop js pick req sv1 (cp # rest) ps"
  by (simp add: getParentsLoop_prefix [of js pick req sv pre cp rest] assms)

lemma handleReq_resolved:
  "resolveChain sv req = Some cps \<Longrightarrow>
   handleReq js pick sv req = sendResponse js pick sv req cps"
  by (auto simp: resolveChain_def handleReq_def Let_def split: if_splits option.splits)

text \<open>
  An exception of \<^verbatim>\<open>cacheDataWithGetMethod\<close> at a link that the loop reaches, be it a
  parent or the last link of the chain, leaves \<^verbatim>\<open>sendResponse\<close> as it is.
\<close>

lemma sendResponse_throws:
  assumes reach: "getParentsLoop js pick req sv (pre @ [cp]) [] = (Inr (Inr ps), sv1)"
      and rt: "route cp = Some rt" and cb: "dataCallback rt = Some cb"
      and ex: "cacheDataWithGetMethod pick sv1 cp (parentsOrNone ps) (getQueryParams req)
                 (body req) (headers req) = (Inl e, sv2)"
  shows "sendResponse js pick sv req (pre @ cp # rest) = (Inl e, sv2)"
proof (cases rest)
  case Nil
  have "getParents js pick req sv (pre @ [cp]) = (Inr (Inr (parentsOrNone ps)), sv1)"
    by (simp add: getParents_def reach parentsOrNone_def)
  then show ?thesis
    by (simp add: sendResponse_def Nil lastOpt_def rt cb ex Let_def)
next
  case (Cons nxt more)
  have "getParentsLoop js pick req sv (pre @ cp # nxt # more) [] = (Inl e, sv2)"
    by (simp add: getParentsLoop_reaches [OF reach] getParentsLoop_step ex
          del: getParentsLoop.simps)
  then have "getParents js pick req sv (pre @ cp # nxt # more) = (Inl e, sv2)"
    by (simp add: getParents_def)
  then show ?thesis
    by (simp add: sendResponse_def Cons Let_def)
qed

text \<open>A parent that is not found ends the request with the error of \<^verbatim>\<open>getParents\<close>.\<close>

lemma sendResponse_parent_missing:
  assumes reach: "getParentsLoop js pick req sv (pre @ [cp]) [] = (Inr (Inr ps), sv1)"
      and md: "cacheDataWithGetMethod pick sv1 cp (parentsOrNone ps) (getQueryParams req)
                 (body req) (headers req) = (Inr md, sv2)"
      and none: "find (truthyMatch js (primaryKey cp) (idVal (restId cp))) (writeableData md) = None"
  shows "sendResponse js pick sv req (pre @ cp # nxt # rest) =
           (Inr (Fails (makeError req NOT_FOUND ''item not found'')), sv2)"
proof -
  have "getParentsLoop js pick req sv (pre @ cp # nxt # rest) [] =
      (Inr (Inl (makeError req NOT_FOUND ''item not found'')), sv2)"
    by (simp add: getParentsLoop_reaches [OF reach] getParentsLoop_step md none
          del: getParentsLoop.simps)
  then have "getParents js pick req sv (pre @ cp # nxt # rest) =
      (Inr (Inl (makeError req NOT_FOUND ''item not found'')), sv2)"
    by (simp add: getParents_def)
  then show ?thesis
    by (simp add: sendResponse_def Let_def)
qed

text \<open>A \<^verbatim>\<open>GET\<close> of an item that \<^verbatim>\<open>get\<close> does not find ends with the error of \<^verbatim>\<open>get\<close>.\<close>

lemma sendResponse_get_missing:
  assumes reach: "getParentsLoop js pick req sv (pre @ [cp]) [] = (Inr (Inr ps), sv1)"
      and rt: "route cp = Some rt" and cb: "dataCallback rt = Some cb"
      and md: "cacheDataWithGetMethod pick sv1 cp (parentsOrNone ps) (getQueryParams req)
                 (body req) (headers req) = (Inr md, sv2)"
      and meth: "reqMethod req = GET" and rid: "restId cp = Some r"
      and none: "find (truthyMatch js (primaryKey cp) (JStr r)) (writeableData md) = None"
  shows "fst (sendResponse js pick sv req (pre @ [cp])) =
           Inr (Fails (makeError req NOT_FOUND ''item not found''))"
proof -
  have "getParents js pick req sv (pre @ [cp]) = (Inr (Inr (parentsOrNone ps)), sv1)"
    by (simp add: getParents_def reach parentsOrNone_def)
  moreover have "get js req jsonHeaders cp md = Inl (makeError req NOT_FOUND ''item not found'')"
    using none by (simp add: get_def rid truthyMatch_fun Let_def)
  ultimately show ?thesis
    by (simp add: sendResponse_def lastOpt_def rt cb md callRequestMethod_def meth Let_def)
qed

text \<open>The example services resolve their URLs to the chains of their links.\<close>

lemma posts_example:
  "resolveChain (postsService cb) (requestTo m ''/posts'' b) = Some [postsLink cb]"
  "resolveChain (postsService cb) (requestTo m ''/posts/0'' b)
     = Some [(postsLink cb)\<lparr>restId := Some ''0''\<rparr>]"
  "cachedData (postsService cb) k = None"
  "route (postsLink cb) = Some (postsRoute cb)"
  "dataCallback (postsRoute cb) = Some cb"
  "restId (postsLink cb) = None"
  "cacheKey (postsLink cb) = ''posts''"
  "primaryKey (postsLink cb) = ''id''"
  by (simp_all add: resolveChain_def normalizeUrl_def requestTo_def postsService_def
        postsRoute_def postsLink_def getRootPaths_def rootEntryOf_def nthOpt_def
        getRouteDryMatch_def setRouteDryMatch.simps lastOpt_def getChainParams_def chainStep_def
        joinOpt_def segmentId_def Let_def)

lemma blog_example:
  "resolveChain (blogService pcb ccb) (requestTo m ''/posts/0/comments'' b)
     = Some [postLink pcb ccb ''0'', commentsLink ccb ''0'']"
  "resolveChain (blogService pcb ccb) (requestTo m ''/posts/1/comments'' b)
     = Some [postLink pcb ccb ''1'', commentsLink ccb ''1'']"
  "cachedData (blogService pcb ccb) k = None"
  "route (postLink pcb ccb ident) = Some (blogRoute pcb ccb)"
  "dataCallback (blogRoute pcb ccb) = Some pcb"
  "route (commentsLink ccb ident) = Some (commentsRoute ccb)"
  "dataCallback (commentsRoute ccb) = Some ccb"
  "propertiesForList (blogRoute pcb ccb) = None"
  "propertiesForList (commentsRoute ccb) = None"
  by (simp_all add: resolveChain_def normalizeUrl_def requestTo_def blogService_def
        blogRoute_def commentsRoute_def postLink_def commentsLink_def getRootPaths_def
        rootEntryOf_def nthOpt_def getRouteDryMatch_def setRouteDryMatch.simps lastOpt_def
        getChainParams_def chainStep_def joinOpt_def segmentId_def Let_def)

section \<open>Properties of the item lookups\<close>

text \<open>
  Claim C10. \<^verbatim>\<open>get\<close> with a bound id, and \<^verbatim>\<open>getParents\<close> at every link of the chain
  but the last, look an item up by \<open>truthyMatch\<close>: the primary key of the stored item must
  be truthy and loosely equal to the id. That holds for the collection of the cache as for
  the one that the data callback has just returned on a cache miss. So when every stored
  item that loosely equals the id has a falsy primary key (0, the empty string,
  \<^verbatim>\<open>false\<close>), the request is answered with the error 404 and the message
  \<^verbatim>\<open>item not found\<close>, though such an item is in the collection: for a parent at any
  depth of the chain that the URL resolves to, and for the item of a \<^verbatim>\<open>GET\<close>. The
  lookups of \<^verbatim>\<open>delete\<close>, \<^verbatim>\<open>putOrPatch\<close> and \<^verbatim>\<open>post\<close> compare by loose equality alone
  (\<open>looseMatch\<close>) and find such an item: \<^verbatim>\<open>delete\<close> removes it, \<^verbatim>\<open>putOrPatch\<close> answers with
  a response and no error, \<^verbatim>\<open>post\<close> (with \<^verbatim>\<open>postUpdate409\<close> off) overwrites it.
\<close>

theorem lookup_requires_truthy_key:
  "(restId cp = Some r \<longrightarrow>
      get js req hdrs cp md =
        (case find (truthyMatch js (primaryKey cp) (JStr r)) (writeableData md) of
           None \<Rightarrow> Inl (makeError req NOT_FOUND ''item not found'')
         | Some item \<Rightarrow>
             Inr \<lparr>resHeaders = hdrs, resStatus = Some OK, resBody = JArr [JObj item]\<rparr>))
   \<and> (restId cp = Some r \<and>
        (\<forall>item \<in> set (writeableData md).
            looseMatch js (primaryKey cp) (JStr r) item \<longrightarrow> \<not> truthy (getProp item (primaryKey cp)))
        \<longrightarrow> get js req hdrs cp md = Inl (makeError req NOT_FOUND ''item not found'')
            \<and> statusCode NOT_FOUND = 404)
   \<and> (cacheDataWithGetMethod pick sv cp (parentsOrNone ps) (getQueryParams req) (body req)
          (headers req) = (Inr md, svA) \<longrightarrow>
        getParentsLoop js pick req sv (cp # nxt # rest) ps =
          (case find (truthyMatch js (primaryKey cp) (idVal (restId cp))) (writeableData md) of
             None \<Rightarrow> (Inr (Inl (makeError req NOT_FOUND ''item not found'')), svA)
           | Some item \<Rightarrow> getParentsLoop js pick req svA (nxt # rest) (ps @ [item])))
   \<and> (cachedData sv (cacheKey cp) = Some md \<longrightarrow>
        cacheDataWithGetMethod pick sv cp (parentsOrNone ps) (getQueryParams req) (body req)
          (headers req) = (Inr md, sv))
   \<and> (cachedData sv (cacheKey cp) = None \<and> route cp = Some rt \<and> dataCallback rt = Some cb
        \<and> cb (missOpts req cp ps) = ItemList xs \<longrightarrow>
        fst (cacheDataWithGetMethod pick sv cp (parentsOrNone ps) (getQueryParams req) (body req)
               (headers req))
          = Inr \<lparr>writeableData = xs, readonlyData = bindReadonlyData pick rt xs\<rparr>)
   \<and> (resolveChain sv req = Some (pre @ cp # nxt # rest)
        \<and> getParentsLoop js pick req sv (pre @ [cp]) [] = (Inr (Inr ps), svA)
        \<and> cacheDataWithGetMethod pick svA cp (parentsOrNone ps) (getQueryParams req) (body req)
             (headers req) = (Inr md, svB)
        \<and> (\<forall>item \<in> set (writeableData md).
              looseMatch js (primaryKey cp) (idVal (restId cp)) item
                \<longrightarrow> \<not> truthy (getProp item (primaryKey cp)))
        \<longrightarrow> handle js pick sv req =
              (Fails (makeError req NOT_FOUND ''item not found''), svB))
   \<and> (resolveChain sv req = Some (pre @ [cp]) \<and> reqMethod req = GET \<and> restId cp = Some r
        \<and> route cp = Some rt \<and> dataCallback rt = Some cb
        \<and> getParentsLoop js pick req sv (pre @ [cp]) [] = (Inr (Inr ps), svA)
        \<and> cacheDataWithGetMethod pick svA cp (parentsOrNone ps) (getQueryParams req) (body req)
             (headers req) = (Inr md, svB)
        \<and> (\<forall>item \<in> set (writeableData md).
              looseMatch js (primaryKey cp) (JStr r) item
                \<longrightarrow> \<not> truthy (getProp item (primaryKey cp)))
        \<longrightarrow> fst (handle js pick sv req) = Fails (makeError req NOT_FOUND ''item not found''))
   \<and> (primaryKey cp \<noteq> [] \<and> restId cp = Some r \<and>
        (\<exists>item \<in> set wd. looseMatch js (primaryKey cp) (JStr r) item) \<longrightarrow>
        fst (delete js cfg req hdrs cp wd) =
          Inr \<lparr>resHeaders = hdrs, resStatus = Some NO_CONTENT, resBody = JUndefined\<rparr>
        \<and> snd (delete js cfg req hdrs cp wd)
            = removeFirst (looseMatch js (primaryKey cp) (JStr r)) wd
        \<and> length (snd (delete js cfg req hdrs cp wd)) < length wd)
   \<and> (primaryKey cp \<noteq> [] \<and> restId cp = Some r \<and>
        looseEq js (JStr r) (getProp (requestItem req cp) (primaryKey cp)) \<and>
        (\<exists>item \<in> set wd. looseMatch js (primaryKey cp) (JStr r) item) \<longrightarrow>
        (\<exists>ro. fst (putOrPatch js cfg req hdrs cp wd) = Inr ro))
   \<and> (primaryKey cp \<noteq> [] \<and> restId cp = None \<and> \<not> postUpdate409 cfg \<and>
        getProp (cloneItem (body req)) (primaryKey cp) \<noteq> JUndefined \<and>
        (\<exists>item \<in> set wd.
            looseMatch js (primaryKey cp) (getProp (cloneItem (body req)) (primaryKey cp)) item)
        \<longrightarrow>
        (\<exists>i < length wd.
            looseMatch js (primaryKey cp) (getProp (cloneItem (body req)) (primaryKey cp)) (wd ! i)
            \<and> snd (post js cfg req hdrs cp wd) = wd[i := cloneItem (body req)]))"
proof -
  have g: "get js req hdrs cp md =
        (case find (truthyMatch js (primaryKey cp) (JStr r)) (writeableData md) of
           None \<Rightarrow> Inl (makeError req NOT_FOUND ''item not found'')
         | Some item \<Rightarrow>
             Inr \<lparr>resHeaders = hdrs, resStatus = Some OK, resBody = JArr [JObj item]\<rparr>)"
    if "restId cp = Some r"
    using that by (simp add: get_def truthyMatch_fun Let_def)
  have g404: "get js req hdrs cp md = Inl (makeError req NOT_FOUND ''item not found'')"
    if "restId cp = Some r"
      and "\<forall>item \<in> set (writeableData md).
            looseMatch js (primaryKey cp) (JStr r) item \<longrightarrow> \<not> truthy (getProp item (primaryKey cp))"
    using that by (simp add: g find_None_falsy)
  have p: "getParentsLoop js pick req sv (cp # nxt # rest) ps =
          (case find (truthyMatch js (primaryKey cp) (idVal (restId cp))) (writeableData md) of
             None \<Rightarrow> (Inr (Inl (makeError req NOT_FOUND ''item not found'')), svA)
           | Some item \<Rightarrow> getParentsLoop js pick req svA (nxt # rest) (ps @ [item]))"
    if "cacheDataWithGetMethod pick sv cp (parentsOrNone ps) (getQueryParams req) (body req)
          (headers req) = (Inr md, svA)"
    using that by (simp add: getParentsLoop_step del: getParentsLoop.simps)
  have hit: "cacheDataWithGetMethod pick sv cp (parentsOrNone ps) (getQueryParams req) (body req)
          (headers req) = (Inr md, sv)"
    if "cachedData sv (cacheKey cp) = Some md"
    using that by (rule cacheDataWithGetMethod_hit)
  have miss: "fst (cacheDataWithGetMethod pick sv cp (parentsOrNone ps) (getQueryParams req)
               (body req) (headers req))
          = Inr \<lparr>writeableData = xs, readonlyData = bindReadonlyData pick rt xs\<rparr>"
    if "cachedData sv (cacheKey cp) = None" "route cp = Some rt" "dataCallback rt = Some cb"
      "cb (missOpts req cp ps) = ItemList xs"
    using that(4) by (simp add: cacheDataWithGetMethod_miss [OF that(1-3)] missOpts_def)
  have parent: "handle js pick sv req = (Fails (makeError req NOT_FOUND ''item not found''), svB)"
    if res: "resolveChain sv req = Some (pre @ cp # nxt # rest)"
      and reach: "getParentsLoop js pick req sv (pre @ [cp]) [] = (Inr (Inr ps), svA)"
      and md: "cacheDataWithGetMethod pick svA cp (parentsOrNone ps) (getQueryParams req)
                 (body req) (headers req) = (Inr md, svB)"
      and falsy: "\<forall>item \<in> set (writeableData md).
              looseMatch js (primaryKey cp) (idVal (restId cp)) item
                \<longrightarrow> \<not> truthy (getProp item (primaryKey cp))"
  proof -
    from falsy have "find (truthyMatch js (primaryKey cp) (idVal (restId cp))) (writeableData md)
        = None"
      by (rule find_None_falsy)
    from sendResponse_parent_missing [OF reach md this]
    show ?thesis
      by (simp add: handle_def handleReq_resolved [OF res])
  qed
  have item: "fst (handle js pick sv req) = Fails (makeError req NOT_FOUND ''item not found'')"
    if res: "resolveChain sv req = Some (pre @ [cp])"
      and meth: "reqMethod req = GET" and rid: "restId cp = Some r"
      and rt: "route cp = Some rt" and cb: "dataCallback rt = Some cb"
      and reach: "getParentsLoop js pick req sv (pre @ [cp]) [] = (Inr (Inr ps), svA)"
      and md: "cacheDataWithGetMethod pick svA cp (parentsOrNone ps) (getQueryParams req)
                 (body req) (headers req) = (Inr md, svB)"
      and falsy: "\<forall>item \<in> set (writeableData md).
              looseMatch js (primaryKey cp) (JStr r) item
                \<longrightarrow> \<not> truthy (getProp item (primaryKey cp))"
  proof -
    from falsy have "find (truthyMatch js (primaryKey cp) (JStr r)) (writeableData md) = None"
      by (rule find_None_falsy)
    from sendResponse_get_missing [OF reach rt cb md meth rid this]
    show ?thesis
      by (cases "sendResponse js pick sv req (pre @ [cp])")
        (simp add: handle_def handleReq_resolved [OF res])
  qed
  have d: "fst (delete js cfg req hdrs cp wd) =
          Inr \<lparr>resHeaders = hdrs, resStatus = Some NO_CONTENT, resBody = JUndefined\<rparr>
        \<and> snd (delete js cfg req hdrs cp wd)
            = removeFirst (looseMatch js (primaryKey cp) (JStr r)) wd
        \<and> length (snd (delete js cfg req hdrs cp wd)) < length wd"
    if pk: "primaryKey cp \<noteq> []" and rid: "restId cp = Some r"
      and ex: "\<exists>item \<in> set wd. looseMatch js (primaryKey cp) (JStr r) item"
  proof -
    from ex have ne: "findIndex (looseMatch js (primaryKey cp) (JStr r)) wd \<noteq> - 1"
      by (simp add: findIndex_none)
    from findIndex_found [OF ne]
    have "nat (findIndex (looseMatch js (primaryKey cp) (JStr r)) wd) < length wd" by simp
    then have shorter:
      "length (splice1 (nat (findIndex (looseMatch js (primaryKey cp) (JStr r)) wd)) wd)
         < length wd"
      by (simp add: splice1_def)
    from pk rid ne shorter show ?thesis
      by (simp add: delete_def looseMatch_fun [symmetric] Let_def splice1_removeFirst [symmetric])
  qed
  have u: "\<exists>ro. fst (putOrPatch js cfg req hdrs cp wd) = Inr ro"
    if pk: "primaryKey cp \<noteq> []" and rid: "restId cp = Some r"
      and ok: "looseEq js (JStr r) (getProp (requestItem req cp) (primaryKey cp))"
      and ex: "\<exists>item \<in> set wd. looseMatch js (primaryKey cp) (JStr r) item"
  proof -
    from ex have ne: "findIndex (looseMatch js (primaryKey cp) (JStr r)) wd \<noteq> - 1"
      by (simp add: findIndex_none)
    then show ?thesis
      by (simp add: putOrPatch_after_guards [OF pk rid ok])
  qed
  have c: "\<exists>i < length wd.
            looseMatch js (primaryKey cp) (getProp (cloneItem (body req)) (primaryKey cp)) (wd ! i)
            \<and> snd (post js cfg req hdrs cp wd) = wd[i := cloneItem (body req)]"
    if pk: "primaryKey cp \<noteq> []" and rid: "restId cp = None" and no409: "\<not> postUpdate409 cfg"
      and has: "getProp (cloneItem (body req)) (primaryKey cp) \<noteq> JUndefined"
      and ex: "\<exists>item \<in> set wd.
            looseMatch js (primaryKey cp) (getProp (cloneItem (body req)) (primaryKey cp)) item"
  proof -
    let ?P = "looseMatch js (primaryKey cp) (getProp (cloneItem (body req)) (primaryKey cp))"
    from ex have ne: "findIndex ?P wd \<noteq> - 1"
      by (simp add: findIndex_none)
    from findIndex_found [OF ne]
    have i: "nat (findIndex ?P wd) < length wd" "?P (wd ! nat (findIndex ?P wd))"
      by simp_all
    from pk rid no409 has ne
    have "snd (post js cfg req hdrs cp wd) = wd[nat (findIndex ?P wd) := cloneItem (body req)]"
      by (simp add: post_def looseMatch_fun [symmetric] Let_def del: toStringJs.simps)
    with i show ?thesis by blast
  qed
  show ?thesis
    apply (intro conjI impI)
    subgoal using g by blast
    subgoal using g404 by blast
    subgoal by simp
    subgoal using p by blast
    subgoal using hit by blast
    subgoal using miss by blast
    subgoal using parent by blast
    subgoal using item by blast
    subgoal using d by blast
    subgoal using d by blast
    subgoal using d by blast
    subgoal using u by blast
    subgoal using c by blast
    done
qed

text \<open>
  The item with the id 0 and the URL id \<^verbatim>\<open>0\<close>. The item loosely equals the id. \<^verbatim>\<open>get\<close>
  does not find it in the cached collection; the first \<^verbatim>\<open>GET\<close> of \<^verbatim>\<open>/posts/0\<close>, whose
  collection the data callback returns, is answered 404; so is the first \<^verbatim>\<open>GET\<close> of
  \<^verbatim>\<open>/posts/0/comments\<close>, where the item is the parent. DELETE, PUT and POST find the item.
\<close>

theorem lookup_requires_truthy_key_witness:
  "looseMatch exampleRuntime ''id'' (JStr ''0'') [(''id'', JNum (Fin 0)), (''title'', JStr ''a'')]
   \<and> get exampleRuntime (requestTo GET ''posts/0'' None) jsonHeaders
       \<lparr>cacheKey = ''posts'', primaryKey = ''id'', restId = Some ''0'', route = None\<rparr>
       \<lparr>writeableData = [[(''id'', JNum (Fin 0)), (''title'', JStr ''a'')]],
        readonlyData = [[(''id'', JNum (Fin 0)), (''title'', JStr ''a'')]]\<rparr>
     = Inl \<lparr>errUrl = ''posts/0'', errStatus = NOT_FOUND, errMessage = ''item not found''\<rparr>
   \<and> fst (handle exampleRuntime pickAll
            (postsService (listCallback [[(''id'', JNum (Fin 0)), (''title'', JStr ''a'')]]))
            (requestTo GET ''/posts/0'' None))
     = Fails \<lparr>errUrl = ''/posts/0'', errStatus = NOT_FOUND, errMessage = ''item not found''\<rparr>
   \<and> fst (handle exampleRuntime pickAll
            (blogService (listCallback [[(''postId'', JNum (Fin 0)), (''title'', JStr ''a'')]])
               (listCallback []))
            (requestTo GET ''/posts/0/comments'' None))
     = Fails \<lparr>errUrl = ''/posts/0/comments'', errStatus = NOT_FOUND,
               errMessage = ''item not found''\<rparr>
   \<and> delete exampleRuntime defaultConfig (requestTo DELETE ''posts/0'' None) jsonHeaders
       \<lparr>cacheKey = ''posts'', primaryKey = ''id'', restId = Some ''0'', route = None\<rparr>
       [[(''id'', JNum (Fin 0)), (''title'', JStr ''a'')]]
     = (Inr \<lparr>resHeaders = jsonHeaders, resStatus = Some NO_CONTENT, resBody = JUndefined\<rparr>, [])
   \<and> putOrPatch exampleRuntime defaultConfig
       (requestTo PUT ''posts/0'' (Some [(''id'', JNum (Fin 0)), (''title'', JStr ''x'')]))
       jsonHeaders
       \<lparr>cacheKey = ''posts'', primaryKey = ''id'', restId = Some ''0'', route = None\<rparr>
       [[(''id'', JNum (Fin 0)), (''title'', JStr ''a'')]]
     = (Inr \<lparr>resHeaders = jsonHeaders, resStatus = Some NO_CONTENT, resBody = JUndefined\<rparr>,
        [[(''id'', JNum (Fin 0)), (''title'', JStr ''x'')]])
   \<and> post exampleRuntime defaultConfig (requestTo POST ''posts'' (Some [(''id'', JNum (Fin 0))]))
       jsonHeaders
       \<lparr>cacheKey = ''posts'', primaryKey = ''id'', restId = None, route = None\<rparr>
       [[(''id'', JNum (Fin 0)), (''title'', JStr ''a'')]]
     = (Inr \<lparr>resHeaders = jsonHeaders, resStatus = Some NO_CONTENT, resBody = JUndefined\<rparr>,
        [[(''id'', JNum (Fin 0))]])"
proof -
  let ?item = "[(''id'', JNum (Fin 0)), (''title'', JStr ''a'')]"
  let ?post = "[(''postId'', JNum (Fin 0)), (''title'', JStr ''a'')]"
  let ?cbI = "listCallback [?item]" and ?cbP = "listCallback [?post]"
  let ?cbC = "listCallback []"
  let ?svI = "postsService ?cbI" and ?svP = "blogService ?cbP ?cbC"
  let ?reqI = "requestTo GET ''/posts/0'' None"
  let ?reqP = "requestTo GET ''/posts/0/comments'' None"
  let ?cpI = "(postsLink ?cbI)\<lparr>restId := Some ''0''\<rparr>"
  let ?cpP = "postLink ?cbP ?cbC ''0''"
  let ?mdI = "\<lparr>writeableData = [?item], readonlyData = [?item]\<rparr>"
  let ?mdP = "\<lparr>writeableData = [?post], readonlyData = [?post]\<rparr>"
  let ?svI' = "?svI\<lparr>cachedData := (cachedData ?svI)(''posts'' \<mapsto> ?mdI)\<rparr>"
  let ?svP' = "?svP\<lparr>cachedData := (cachedData ?svP)(''posts'' \<mapsto> ?mdP)\<rparr>"
  note handlers = lookup_requires_truthy_key [where js = exampleRuntime and r = "''0''"
      and cfg = defaultConfig and hdrs = jsonHeaders
      and cp = "\<lparr>cacheKey = ''posts'', primaryKey = ''id'', restId = Some ''0'', route = None\<rparr>"
      and req = "requestTo GET ''posts/0'' None" and md = ?mdI and wd = "[?item]"]
  note creating = lookup_requires_truthy_key [where js = exampleRuntime and cfg = defaultConfig
      and hdrs = jsonHeaders
      and cp = "\<lparr>cacheKey = ''posts'', primaryKey = ''id'', restId = None, route = None\<rparr>"
      and req = "requestTo POST ''posts'' (Some [(''id'', JNum (Fin 0))])" and wd = "[?item]"]
  note item = lookup_requires_truthy_key [where js = exampleRuntime and pick = pickAll
      and sv = ?svI and req = ?reqI and pre = "[]" and cp = ?cpI and r = "''0''"
      and rt = "postsRoute ?cbI" and cb = ?cbI and ps = "[]" and svA = ?svI and md = ?mdI
      and svB = ?svI']
  note parent = lookup_requires_truthy_key [where js = exampleRuntime and pick = pickAll
      and sv = ?svP and req = ?reqP and pre = "[]" and cp = ?cpP
      and nxt = "commentsLink ?cbC ''0''" and rest = "[]" and ps = "[]" and svA = ?svP
      and md = ?mdP and svB = ?svP']
  have loose: "looseMatch exampleRuntime ''id'' (JStr ''0'') ?item"
    by (simp add: looseEq_eval)
  have cacheI: "cacheDataWithGetMethod pickAll ?svI ?cpI (parentsOrNone []) (getQueryParams ?reqI)
      (body ?reqI) (headers ?reqI) = (Inr ?mdI, ?svI')"
    by (simp add: cacheDataWithGetMethod_def posts_example postsLink_def postsRoute_def
          listCallback_def bindReadonlyData_def pickAll_def Let_def)
  have cacheP: "cacheDataWithGetMethod pickAll ?svP ?cpP (parentsOrNone []) (getQueryParams ?reqP)
      (body ?reqP) (headers ?reqP) = (Inr ?mdP, ?svP')"
    by (simp add: cacheDataWithGetMethod_def blog_example postLink_def
          listCallback_def bindReadonlyData_def pickAll_def Let_def)
  have falsyI: "\<forall>it \<in> set (writeableData ?mdI).
      looseMatch exampleRuntime (primaryKey ?cpI) (JStr ''0'') it
        \<longrightarrow> \<not> truthy (getProp it (primaryKey ?cpI))"
    by (simp add: postsLink_def getProp_def)
  have falsyP: "\<forall>it \<in> set (writeableData ?mdP).
      looseMatch exampleRuntime (primaryKey ?cpP) (idVal (restId ?cpP)) it
        \<longrightarrow> \<not> truthy (getProp it (primaryKey ?cpP))"
    by (simp add: postLink_def getProp_def)
  have resI: "resolveChain ?svI ?reqI = Some ([] @ [?cpI])"
    by (simp add: posts_example)
  have resP: "resolveChain ?svP ?reqP = Some ([] @ ?cpP # commentsLink ?cbC ''0'' # [])"
    by (simp add: blog_example)
  have c3: "fst (handle exampleRuntime pickAll ?svI ?reqI)
      = Fails (makeError ?reqI NOT_FOUND ''item not found'')"
    using item resI cacheI falsyI
    by (simp add: posts_example postsLink_def requestTo_def)
  have c4: "handle exampleRuntime pickAll ?svP ?reqP
      = (Fails (makeError ?reqP NOT_FOUND ''item not found''), ?svP')"
    using parent resP cacheP falsyP
    by (simp add: blog_example)
  from handlers have c2: "get exampleRuntime (requestTo GET ''posts/0'' None) jsonHeaders
       \<lparr>cacheKey = ''posts'', primaryKey = ''id'', restId = Some ''0'', route = None\<rparr> ?mdI
     = Inl (makeError (requestTo GET ''posts/0'' None) NOT_FOUND ''item not found'')"
    by (simp add: looseEq_eval truthyMatch_def)
  from handlers have c5: "delete exampleRuntime defaultConfig (requestTo DELETE ''posts/0'' None)
       jsonHeaders
       \<lparr>cacheKey = ''posts'', primaryKey = ''id'', restId = Some ''0'', route = None\<rparr> [?item]
     = (Inr \<lparr>resHeaders = jsonHeaders, resStatus = Some NO_CONTENT, resBody = JUndefined\<rparr>, [])"
    by (simp add: looseEq_eval delete_def defaultConfig_def splice1_def Let_def)
  from handlers have c6: "putOrPatch exampleRuntime defaultConfig
       (requestTo PUT ''posts/0'' (Some [(''id'', JNum (Fin 0)), (''title'', JStr ''x'')]))
       jsonHeaders
       \<lparr>cacheKey = ''posts'', primaryKey = ''id'', restId = Some ''0'', route = None\<rparr> [?item]
     = (Inr \<lparr>resHeaders = jsonHeaders, resStatus = Some NO_CONTENT, resBody = JUndefined\<rparr>,
        [[(''id'', JNum (Fin 0)), (''title'', JStr ''x'')]])"
    by (simp add: looseEq_eval putOrPatch_def defaultConfig_def requestTo_def cloneItem_def
          cloneObj_def objKeys_def deleteMissingKeys_def objectAssign_def Let_def)
  from creating have c7: "post exampleRuntime defaultConfig
       (requestTo POST ''posts'' (Some [(''id'', JNum (Fin 0))])) jsonHeaders
       \<lparr>cacheKey = ''posts'', primaryKey = ''id'', restId = None, route = None\<rparr> [?item]
     = (Inr \<lparr>resHeaders = jsonHeaders, resStatus = Some NO_CONTENT, resBody = JUndefined\<rparr>,
        [[(''id'', JNum (Fin 0))]])"
    by (simp add: looseEq_eval post_def defaultConfig_def requestTo_def cloneItem_def
          cloneObj_def Let_def)
  from loose c2 c3 c4 c5 c6 c7 show ?thesis
    by (simp add: makeError_def requestTo_def)
qed

section \<open>Properties of the cache miss\<close>

text \<open>
  Claim C9, amended. On a cache miss \<^verbatim>\<open>cacheDataWithGetMethod\<close> calls the data callback
  of the route with \<^verbatim>\<open>items: []\<close> and \<^verbatim>\<open>httpMethod: 'GET'\<close>. A list that the callback
  returns becomes the collection. A value that is no list but falsy is replaced by the
  empty list (\<^verbatim>\<open>|| []\<close>) and raises nothing. Every truthy value that is no list raises
  the \<^verbatim>\<open>TypeError\<close>. Raised at any link that the request reaches, a parent at any depth of
  the chain or its last link, the exception leaves \<^verbatim>\<open>sendResponse\<close>, and \<^verbatim>\<open>handle\<close>
  turns it into the error response 500 with the message of the exception: a request
  whose URL resolves to such a chain is answered 500.
\<close>

theorem cache_miss_callback:
  "(cachedData sv (cacheKey cp) = None \<and> route cp = Some rt \<and> dataCallback rt = Some cb \<longrightarrow>
      cacheDataWithGetMethod pick sv cp prnts qp bdy hdrs =
        (case cb \<lparr>items = [], itemId = restId cp, httpMethod = GET, parents = prnts,
                   queryParams = qp, reqBody = bdy, reqHeaders = transformHeaders hdrs\<rparr> of
           ItemList xs \<Rightarrow>
             (Inr \<lparr>writeableData = xs, readonlyData = bindReadonlyData pick rt xs\<rparr>,
              sv\<lparr>cachedData := (cachedData sv)(cacheKey cp \<mapsto>
                    \<lparr>writeableData = xs, readonlyData = bindReadonlyData pick rt xs\<rparr>)\<rparr>)
         | NonList v \<Rightarrow>
             if truthy (jsValue v)
             then (Inl (TypeError ''route.dataCallback() should returns an array''), sv)
             else (Inr \<lparr>writeableData = [], readonlyData = []\<rparr>,
                   sv\<lparr>cachedData := (cachedData sv)(cacheKey cp \<mapsto>
                         \<lparr>writeableData = [], readonlyData = []\<rparr>)\<rparr>)))
   \<and> (cachedData sv (cacheKey cp) = None \<and> route cp = Some rt \<and> dataCallback rt = Some cb
        \<and> cb \<lparr>items = [], itemId = restId cp, httpMethod = GET, parents = prnts,
                queryParams = qp, reqBody = bdy, reqHeaders = transformHeaders hdrs\<rparr> = NonList v
        \<and> truthy (jsValue v) \<longrightarrow>
        cacheDataWithGetMethod pick sv cp prnts qp bdy hdrs =
          (Inl (TypeError ''route.dataCallback() should returns an array''), sv))
   \<and> (cachedData sv (cacheKey cp) = None \<and> route cp = Some rt \<and> dataCallback rt = Some cb
        \<and> cb \<lparr>items = [], itemId = restId cp, httpMethod = GET, parents = prnts,
                queryParams = qp, reqBody = bdy, reqHeaders = transformHeaders hdrs\<rparr> = NonList v
        \<and> \<not> truthy (jsValue v) \<longrightarrow>
        fst (cacheDataWithGetMethod pick sv cp prnts qp bdy hdrs) =
          Inr \<lparr>writeableData = [], readonlyData = []\<rparr>)
   \<and> (getParentsLoop js pick req sv (pre @ [cp]) [] = (Inr (Inr ps), svA)
        \<and> cachedData svA (cacheKey cp) = None \<and> route cp = Some rt \<and> dataCallback rt = Some cb
        \<and> cb (missOpts req cp ps) = NonList v \<and> truthy (jsValue v) \<longrightarrow>
        sendResponse js pick sv req (pre @ cp # rest) =
          (Inl (TypeError ''route.dataCallback() should returns an array''), svA))
   \<and> (resolveChain sv req = Some (pre @ cp # rest)
        \<and> getParentsLoop js pick req sv (pre @ [cp]) [] = (Inr (Inr ps), svA)
        \<and> cachedData svA (cacheKey cp) = None \<and> route cp = Some rt \<and> dataCallback rt = Some cb
        \<and> cb (missOpts req cp ps) = NonList v \<and> truthy (jsValue v) \<longrightarrow>
        handle js pick sv req =
          (Fails \<lparr>errUrl = urlWithParams req, errStatus = INTERNAL_SERVER_ERROR,
                  errMessage = ''route.dataCallback() should returns an array''\<rparr>, svA)
        \<and> statusCode INTERNAL_SERVER_ERROR = 500)"
proof -
  have call: "cacheDataWithGetMethod pick sv cp prnts qp bdy hdrs =
        (case cb \<lparr>items = [], itemId = restId cp, httpMethod = GET, parents = prnts,
                   queryParams = qp, reqBody = bdy, reqHeaders = transformHeaders hdrs\<rparr> of
           ItemList xs \<Rightarrow>
             (Inr \<lparr>writeableData = xs, readonlyData = bindReadonlyData pick rt xs\<rparr>,
              sv\<lparr>cachedData := (cachedData sv)(cacheKey cp \<mapsto>
                    \<lparr>writeableData = xs, readonlyData = bindReadonlyData pick rt xs\<rparr>)\<rparr>)
         | NonList v \<Rightarrow>
             if truthy (jsValue v)
             then (Inl (TypeError ''route.dataCallback() should returns an array''), sv)
             else (Inr \<lparr>writeableData = [], readonlyData = []\<rparr>,
                   sv\<lparr>cachedData := (cachedData sv)(cacheKey cp \<mapsto>
                         \<lparr>writeableData = [], readonlyData = []\<rparr>)\<rparr>))"
    if "cachedData sv (cacheKey cp) = None" "route cp = Some rt" "dataCallback rt = Some cb"
    using that by (rule cacheDataWithGetMethod_miss)
  have throws: "cacheDataWithGetMethod pick sv cp prnts qp bdy hdrs =
          (Inl (TypeError ''route.dataCallback() should returns an array''), sv)"
    if "cachedData sv (cacheKey cp) = None" "route cp = Some rt" "dataCallback rt = Some cb"
      "cb \<lparr>items = [], itemId = restId cp, httpMethod = GET, parents = prnts,
           queryParams = qp, reqBody = bdy, reqHeaders = transformHeaders hdrs\<rparr> = NonList v"
      "truthy (jsValue v)"
    using that(4,5) by (simp add: call [OF that(1-3)])
  have falsy: "fst (cacheDataWithGetMethod pick sv cp prnts qp bdy hdrs) =
          Inr \<lparr>writeableData = [], readonlyData = []\<rparr>"
    if "cachedData sv (cacheKey cp) = None" "route cp = Some rt" "dataCallback rt = Some cb"
      "cb \<lparr>items = [], itemId = restId cp, httpMethod = GET, parents = prnts,
           queryParams = qp, reqBody = bdy, reqHeaders = transformHeaders hdrs\<rparr> = NonList v"
      "\<not> truthy (jsValue v)"
    using that(4,5) by (simp add: call [OF that(1-3)])
  have send: "sendResponse js pick sv req (pre @ cp # rest) =
          (Inl (TypeError ''route.dataCallback() should returns an array''), svA)"
    if reach: "getParentsLoop js pick req sv (pre @ [cp]) [] = (Inr (Inr ps), svA)"
      and miss: "cachedData svA (cacheKey cp) = None" "route cp = Some rt"
        "dataCallback rt = Some cb"
      and bad: "cb (missOpts req cp ps) = NonList v" "truthy (jsValue v)"
  proof -
    have "cacheDataWithGetMethod pick svA cp (parentsOrNone ps) (getQueryParams req) (body req)
        (headers req) = (Inl (TypeError ''route.dataCallback() should returns an array''), svA)"
      using bad by (simp add: cacheDataWithGetMethod_miss [OF miss] missOpts_def)
    with reach miss(2,3) show ?thesis
      by (rule sendResponse_throws)
  qed
  have e2e: "handle js pick sv req =
          (Fails \<lparr>errUrl = urlWithParams req, errStatus = INTERNAL_SERVER_ERROR,
                  errMessage = ''route.dataCallback() should returns an array''\<rparr>, svA)"
    if res: "resolveChain sv req = Some (pre @ cp # rest)"
      and reach: "getParentsLoop js pick req sv (pre @ [cp]) [] = (Inr (Inr ps), svA)"
      and miss: "cachedData svA (cacheKey cp) = None" "route cp = Some rt"
        "dataCallback rt = Some cb"
      and bad: "cb (missOpts req cp ps) = NonList v" "truthy (jsValue v)"
    by (simp add: handle_def handleReq_resolved [OF res] send [OF reach miss bad] makeError_def)
  show ?thesis
    apply (intro conjI impI)
    subgoal using call by blast
    subgoal using throws by blast
    subgoal using falsy by blast
    subgoal using send by blast
    subgoal using e2e by blast
    subgoal by simp
    done
qed

text \<open>
  A data callback that returns the number 5. The first \<^verbatim>\<open>GET\<close> of \<^verbatim>\<open>/posts\<close> is answered
  500, where the callback is the one of the only link. The first \<^verbatim>\<open>GET\<close> of
  \<^verbatim>\<open>/posts/1/comments\<close> is answered 500 when it is the callback of the comments, the post
  1 being found in the list that the callback of the posts returns, and when it is the
  callback of the posts. On the miss itself the number raises the \<^verbatim>\<open>TypeError\<close>, \<^verbatim>\<open>null\<close>
  gives the empty collection, a list becomes the collection.
\<close>

theorem cache_miss_callback_witness:
  "handle exampleRuntime pickAll (postsService numberCallback) (requestTo GET ''/posts'' None)
   = (Fails \<lparr>errUrl = ''/posts'', errStatus = INTERNAL_SERVER_ERROR,
              errMessage = ''route.dataCallback() should returns an array''\<rparr>,
      postsService numberCallback)
   \<and> fst (handle exampleRuntime pickAll
            (blogService (listCallback [[(''postId'', JNum (Fin 1))]]) numberCallback)
            (requestTo GET ''/posts/1/comments'' None))
     = Fails \<lparr>errUrl = ''/posts/1/comments'', errStatus = INTERNAL_SERVER_ERROR,
               errMessage = ''route.dataCallback() should returns an array''\<rparr>
   \<and> handle exampleRuntime pickAll (blogService numberCallback (listCallback []))
       (requestTo GET ''/posts/1/comments'' None)
     = (Fails \<lparr>errUrl = ''/posts/1/comments'', errStatus = INTERNAL_SERVER_ERROR,
                errMessage = ''route.dataCallback() should returns an array''\<rparr>,
        blogService numberCallback (listCallback []))
   \<and> cacheDataWithGetMethod pickAll (postsService numberCallback) (postsLink numberCallback)
       None None None []
     = (Inl (TypeError ''route.dataCallback() should returns an array''),
        postsService numberCallback)
   \<and> fst (cacheDataWithGetMethod pickAll (postsService nullCallback) (postsLink nullCallback)
       None None None [])
     = Inr \<lparr>writeableData = [], readonlyData = []\<rparr>
   \<and> fst (cacheDataWithGetMethod pickAll (postsService (listCallback [[(''id'', JNum (Fin 1))]]))
            (postsLink (listCallback [[(''id'', JNum (Fin 1))]])) None None None [])
     = Inr \<lparr>writeableData = [[(''id'', JNum (Fin 1))]],
             readonlyData = [[(''id'', JNum (Fin 1))]]\<rparr>"
proof -
  let ?post = "[(''postId'', JNum (Fin 1))]"
  let ?cbL = "listCallback [[(''id'', JNum (Fin 1))]]"
  let ?cbP = "listCallback [?post]"
  let ?cbN = "numberCallback" and ?cbC = "listCallback []"
  let ?svA = "postsService ?cbN"
  let ?svB = "blogService ?cbP ?cbN"
  let ?svC = "blogService ?cbN ?cbC"
  let ?reqA = "requestTo GET ''/posts'' None"
  let ?reqB = "requestTo GET ''/posts/1/comments'' None"
  let ?mdP = "\<lparr>writeableData = [?post], readonlyData = [?post]\<rparr>"
  let ?svB' = "?svB\<lparr>cachedData := (cachedData ?svB)(''posts'' \<mapsto> ?mdP)\<rparr>"
  note only = cache_miss_callback [where js = exampleRuntime and pick = pickAll and sv = ?svA
      and req = ?reqA and pre = "[]" and cp = "postsLink ?cbN" and rest = "[]" and ps = "[]"
      and svA = ?svA and rt = "postsRoute ?cbN" and cb = ?cbN and v = "NoNum (Fin 5)"
      and prnts = None and qp = None and bdy = None and hdrs = "[]"]
  note null = cache_miss_callback [where pick = pickAll and sv = "postsService nullCallback"
      and cp = "postsLink nullCallback" and rt = "postsRoute nullCallback" and cb = nullCallback
      and v = NoNull and prnts = None and qp = None and bdy = None and hdrs = "[]"]
  note list = cache_miss_callback [where pick = pickAll and sv = "postsService ?cbL"
      and cp = "postsLink ?cbL" and rt = "postsRoute ?cbL" and cb = ?cbL
      and prnts = None and qp = None and bdy = None and hdrs = "[]"]
  note nested = cache_miss_callback [where js = exampleRuntime and pick = pickAll and sv = ?svB
      and req = ?reqB and pre = "[postLink ?cbP ?cbN ''1'']" and cp = "commentsLink ?cbN ''1''"
      and rest = "[]" and ps = "[?post]" and svA = ?svB' and rt = "commentsRoute ?cbN"
      and cb = ?cbN and v = "NoNum (Fin 5)"]
  note above = cache_miss_callback [where js = exampleRuntime and pick = pickAll and sv = ?svC
      and req = ?reqB and pre = "[]" and cp = "postLink ?cbN ?cbC ''1''"
      and rest = "[commentsLink ?cbC ''1'']" and ps = "[]" and svA = ?svC
      and rt = "blogRoute ?cbN ?cbC" and cb = ?cbN and v = "NoNum (Fin 5)"]
  have bad: "numberCallback opts = NonList (NoNum (Fin 5))" "truthy (jsValue (NoNum (Fin 5)))"
    for opts
    by (simp_all add: numberCallback_def)
  have reach: "getParentsLoop exampleRuntime pickAll ?reqB ?svB
      ([postLink ?cbP ?cbN ''1''] @ [commentsLink ?cbN ''1'']) [] = (Inr (Inr [?post]), ?svB')"
    by (simp add: cacheDataWithGetMethod_def blog_example postLink_def listCallback_def
          bindReadonlyData_def pickAll_def looseEq_eval Let_def)
  have missB: "cachedData ?svB' (cacheKey (commentsLink ?cbN ''1'')) = None"
    by (simp add: blog_example commentsLink_def)
  have c1: "handle exampleRuntime pickAll ?svA ?reqA =
      (Fails \<lparr>errUrl = urlWithParams ?reqA, errStatus = INTERNAL_SERVER_ERROR,
              errMessage = ''route.dataCallback() should returns an array''\<rparr>, ?svA)"
    using only by (simp add: posts_example bad)
  have c2: "handle exampleRuntime pickAll ?svB ?reqB =
      (Fails \<lparr>errUrl = urlWithParams ?reqB, errStatus = INTERNAL_SERVER_ERROR,
              errMessage = ''route.dataCallback() should returns an array''\<rparr>, ?svB')"
    using nested reach missB by (simp add: blog_example bad)
  have c3: "handle exampleRuntime pickAll ?svC ?reqB =
      (Fails \<lparr>errUrl = urlWithParams ?reqB, errStatus = INTERNAL_SERVER_ERROR,
              errMessage = ''route.dataCallback() should returns an array''\<rparr>, ?svC)"
    using above by (simp add: blog_example bad)
  have c4: "cacheDataWithGetMethod pickAll ?svA (postsLink ?cbN) None None None []
      = (Inl (TypeError ''route.dataCallback() should returns an array''), ?svA)"
    using only by (simp add: posts_example bad)
  have c5: "fst (cacheDataWithGetMethod pickAll (postsService nullCallback)
      (postsLink nullCallback) None None None []) = Inr \<lparr>writeableData = [], readonlyData = []\<rparr>"
    using null by (simp add: posts_example nullCallback_def)
  have c6: "fst (cacheDataWithGetMethod pickAll (postsService ?cbL) (postsLink ?cbL)
      None None None [])
      = Inr \<lparr>writeableData = [[(''id'', JNum (Fin 1))]],
              readonlyData = [[(''id'', JNum (Fin 1))]]\<rparr>"
    using list
    by (simp add: posts_example listCallback_def bindReadonlyData_def pickAll_def postsRoute_def)
  from c1 c2 c3 c4 c5 c6 show ?thesis
    by (simp add: requestTo_def)
qed

text \<open>
  Claim C9 as stated fails for a value that is not a list but falsy: with a data callback
  that returns \<^verbatim>\<open>null\<close> no error is raised, the collection is empty and the \<^verbatim>\<open>GET\<close> of
  \<^verbatim>\<open>/posts\<close> is answered 200 with the empty list.
\<close>

theorem cache_miss_callback_counterexample:
  "nullCallback
        \<lparr>items = [], itemId = None, httpMethod = GET, parents = None, queryParams = None,
         reqBody = None, reqHeaders = None\<rparr> = NonList NoNull
   \<and> fst (cacheDataWithGetMethod pickAll (postsService nullCallback) (postsLink nullCallback)
       None None None [])
     = Inr \<lparr>writeableData = [], readonlyData = []\<rparr>
   \<and> fst (handle exampleRuntime pickAll (postsService nullCallback)
            (requestTo GET ''/posts'' None))
     = Emits \<lparr>resHeaders = jsonHeaders, resStatus = Some OK, resBody = JArr []\<rparr>"
proof -
  let ?sv = "postsService nullCallback" and ?cp = "postsLink nullCallback"
  let ?req = "requestTo GET ''/posts'' None"
  let ?md = "\<lparr>writeableData = [], readonlyData = []\<rparr>"
  have cache: "cacheDataWithGetMethod pickAll ?sv ?cp prnts qp bdy hdrs =
      (Inr ?md, ?sv\<lparr>cachedData := (cachedData ?sv)(cacheKey ?cp \<mapsto> ?md)\<rparr>)"
    for prnts qp bdy hdrs
    by (simp add: cacheDataWithGetMethod_def posts_example nullCallback_def
          bindReadonlyData_def Let_def)
  have call: "callRequestMethod exampleRuntime cfg ?req ?cp ?md =
      (Inr \<lparr>resHeaders = jsonHeaders, resStatus = Some OK, resBody = JArr []\<rparr>, [])" for cfg
    by (simp add: callRequestMethod_def get_def requestTo_def posts_example)
  have resp: "getResponse ?req ?cp (postsRoute nullCallback) None qp
        \<lparr>resHeaders = jsonHeaders, resStatus = Some OK, resBody = JArr []\<rparr>
      = Emits \<lparr>resHeaders = jsonHeaders, resStatus = Some OK, resBody = JArr []\<rparr>" for qp
    by (simp add: getResponse_def cloneList_def postsRoute_def)
  have meth: "reqMethod ?req = GET"
    by (simp add: requestTo_def)
  have send: "fst (sendResponse exampleRuntime pickAll ?sv ?req [?cp])
      = Inr (Emits \<lparr>resHeaders = jsonHeaders, resStatus = Some OK, resBody = JArr []\<rparr>)"
    by (simp add: sendResponse_def getParents_def lastOpt_def posts_example cache call resp
          meth Let_def)
  have "handleReq exampleRuntime pickAll ?sv ?req = sendResponse exampleRuntime pickAll ?sv ?req [?cp]"
    by (rule handleReq_resolved) (simp add: posts_example)
  with send have "fst (handle exampleRuntime pickAll ?sv ?req)
      = Emits \<lparr>resHeaders = jsonHeaders, resStatus = Some OK, resBody = JArr []\<rparr>"
    by (cases "sendResponse exampleRuntime pickAll ?sv ?req [?cp]") (simp add: handle_def)
  moreover have "fst (cacheDataWithGetMethod pickAll ?sv ?cp None None None []) = Inr ?md"
    by (simp add: cache)
  moreover have "nullCallback
        \<lparr>items = [], itemId = None, httpMethod = GET, parents = None, queryParams = None,
         reqBody = None, reqHeaders = None\<rparr> = NonList NoNull"
    by (simp add: nullCallback_def)
  ultimately show ?thesis
    by simp
qed

end
